theory Spec2Isabelle
  imports Complex_Main "HOL-Library.AList" "HOL-Library.Sublist"
begin

section \<open>Data model of the QDQ quantizer\<close>

text \<open>
  The development follows \<^verbatim>\<open>onnxruntime/python/tools/quantization/qdq_quantizer.py\<close>.
  Classes are records, enums are datatypes, Python dictionaries whose iteration order
  matters are association lists, and every raise is a value of a sum type.
\<close>

datatype QDQQuantTensorType = ACTIVATION | WEIGHT | BIAS

text \<open>Element types of \<^verbatim>\<open>onnx.TensorProto\<close>; only the ones the quantizer names.\<close>

datatype elem_type =
  FLOAT | UINT8 | INT8 | UINT16 | INT16 | INT32 | FLOAT16 | BFLOAT16 | FLOAT8E4M3FN
  | OTHER_ELEM nat

record QDQQuantParamProvider =
  input_name :: string
  node_name :: string

datatype QuantizedValueType = Input | Initializer

text \<open>
  Modelled from the spec: \<^verbatim>\<open>quant_utils.QuantizedValue\<close> is imported by the source file; its
  fields are the ones the source reads and the constructor arguments it passes.
\<close>

record QuantizedValue =
  original_name :: string
  q_name :: string
  scale_name :: string
  zp_name :: string
  value_type :: QuantizedValueType
  qv_axis :: "int option"
  node_type :: "string option"
  node_qtype :: "elem_type option"
  scale_type :: "elem_type option"

record QDQTensorQuantizedValue =
  original :: QuantizedValue
  converted :: "QuantizedValue option"
  converted_recv_nodes :: "string set option"

definition get_for_consumer :: "QDQTensorQuantizedValue \<Rightarrow> string \<Rightarrow> QuantizedValue" where
  "get_for_consumer self consumer_node_name =
     (case converted self of
        None \<Rightarrow> original self
      | Some conv \<Rightarrow>
          (case converted_recv_nodes self of
             None \<Rightarrow> conv
           | Some recv \<Rightarrow> if consumer_node_name \<in> recv then conv else original self))"

record QDQTensorQuantInfo =
  tensor_type :: QDQQuantTensorType
  quant_para_provider :: "QDQQuantParamProvider option"
  axis :: "int option"
  is_shared :: bool
  data_type :: elem_type

text \<open>Python exceptions, one constructor per exception class, with a short message.\<close>

datatype error =
  TypeError string | ValueError string | KeyError string | RuntimeError string
  | AssertionError | AttributeError string

text \<open>
  The constructor asserts that a data type is given; \<open>is_shared\<close> is computed from
  the provider.
\<close>

definition QDQTensorQuantInfo_init ::
  "QDQQuantTensorType \<Rightarrow> QDQQuantParamProvider option \<Rightarrow> int option \<Rightarrow> elem_type option
     \<Rightarrow> error + QDQTensorQuantInfo" where
  "QDQTensorQuantInfo_init tt provider ax dt =
     (case dt of
        None \<Rightarrow> Inl AssertionError
      | Some d \<Rightarrow>
          Inr \<lparr> tensor_type = tt, quant_para_provider = provider, axis = ax,
                is_shared = (provider \<noteq> None), data_type = d \<rparr>)"

text \<open>
  Modelled from the spec: \<^verbatim>\<open>base_quantizer.QuantizationParams\<close> (zero point, scale and
  quantized type). \<open>scale_dtype\<close> is the numpy dtype of the scale, \<open>None\<close> when the
  value has no \<^verbatim>\<open>dtype\<close> attribute; \<open>quant_type\<close> is \<open>None\<close> when the key is missing.
  Floating-point payloads are carried as reals and never computed on.
\<close>

datatype np_dtype = float16 | float32 | float64

record QuantizationParams =
  zero_point :: real
  scale :: real
  scale_dtype :: "np_dtype option"
  quant_type :: "elem_type option"

record QDQTensorQuantParams =
  p_original :: QuantizationParams
  p_converted :: "QuantizationParams option"
  p_converted_recv_nodes :: "string set option"

text \<open>An initializer (\<^verbatim>\<open>TensorProto\<close>): its name, element type and flattened data.\<close>

record TensorProto =
  tp_name :: string
  tp_data_type :: elem_type
  tp_vals :: "real list"

record QDQQuantParamsInitializers =
  i_scale :: TensorProto
  i_zero_point :: TensorProto

record QDQTensorQuantParamsInitializers =
  pi_original :: QDQQuantParamsInitializers
  pi_converted :: "QDQQuantParamsInitializers option"
  pi_converted_recv_nodes :: "string set option"

subsection \<open>The graph container\<close>

text \<open>
  A node (\<^verbatim>\<open>NodeProto\<close>) with the attributes the quantizer sets: \<^verbatim>\<open>axis\<close> on Q/DQ nodes
  and \<^verbatim>\<open>to\<close> on Cast nodes. An attribute passed as \<^verbatim>\<open>None\<close> is not stored.
\<close>

record NodeProto =
  n_name :: string
  n_op_type :: string
  n_input :: "string list"
  n_output :: "string list"
  n_axis :: "int option"
  n_to :: "elem_type option"
  n_domain :: "string option"

text \<open>
  Modelled from the spec: the graph container \<^verbatim>\<open>ONNXModel\<close> (section 6, graph container
  contract) is not part of the source file. Nodes live in one list; a node object is
  referred to by its position in that list, which stays valid because nodes are only
  appended until the final removal step.
\<close>

record ONNXModel =
  graph_node :: "NodeProto list"
  graph_initializer :: "TensorProto list"
  graph_input :: "string list"
  graph_output :: "string list"
  opset_import :: "(string \<times> int) list"
  producer_name :: string
  producer_version :: string

text \<open>Modelled from the spec: \<^verbatim>\<open>quant_utils.find_by_name\<close>, the first item of that name.\<close>

definition find_by_name :: "string \<Rightarrow> TensorProto list \<Rightarrow> TensorProto option" where
  "find_by_name item_name item_list = List.find (\<lambda>item. tp_name item = item_name) item_list"

definition is_graph_output :: "ONNXModel \<Rightarrow> string \<Rightarrow> bool" where
  "is_graph_output m tensor_name = (tensor_name \<in> set (graph_output m))"

definition is_graph_input :: "ONNXModel \<Rightarrow> string \<Rightarrow> bool" where
  "is_graph_input m tensor_name = (tensor_name \<in> set (graph_input m))"

definition add_nodes :: "ONNXModel \<Rightarrow> NodeProto list \<Rightarrow> ONNXModel" where
  "add_nodes m nodes_to_add = m\<lparr> graph_node := graph_node m @ nodes_to_add \<rparr>"

definition add_node :: "ONNXModel \<Rightarrow> NodeProto \<Rightarrow> ONNXModel" where
  "add_node m node = add_nodes m [node]"

definition add_initializer :: "ONNXModel \<Rightarrow> TensorProto \<Rightarrow> ONNXModel" where
  "add_initializer m tensor =
     (if find_by_name (tp_name tensor) (graph_initializer m) = None
      then m\<lparr> graph_initializer := graph_initializer m @ [tensor] \<rparr> else m)"

definition remove_initializer :: "ONNXModel \<Rightarrow> TensorProto \<Rightarrow> ONNXModel" where
  "remove_initializer m tensor =
     m\<lparr> graph_initializer := remove1 tensor (graph_initializer m),
        graph_input := filter (\<lambda>i. i \<noteq> tp_name tensor) (graph_input m) \<rparr>"

definition replace_node_input :: "NodeProto \<Rightarrow> string \<Rightarrow> string \<Rightarrow> NodeProto" where
  "replace_node_input node old_input_name new_input_name =
     node\<lparr> n_input := map (\<lambda>i. if i = old_input_name then new_input_name else i) (n_input node) \<rparr>"

definition replace_node_output :: "NodeProto \<Rightarrow> string \<Rightarrow> string \<Rightarrow> NodeProto" where
  "replace_node_output node old_output_name new_output_name =
     node\<lparr> n_output := map (\<lambda>i. if i = old_output_name then new_output_name else i) (n_output node) \<rparr>"

text \<open>Rewiring one node object: the node at position \<open>r\<close> of the graph.\<close>

definition replace_node_input_at :: "ONNXModel \<Rightarrow> nat \<Rightarrow> string \<Rightarrow> string \<Rightarrow> ONNXModel" where
  "replace_node_input_at m r old_input_name new_input_name =
     (if r < length (graph_node m)
      then m\<lparr> graph_node :=
             (graph_node m)[r := replace_node_input (graph_node m ! r) old_input_name new_input_name] \<rparr>
      else m)"

definition replace_input_of_all_nodes :: "ONNXModel \<Rightarrow> string \<Rightarrow> string \<Rightarrow> ONNXModel" where
  "replace_input_of_all_nodes m old_input_name new_input_name =
     m\<lparr> graph_node := map (\<lambda>node. replace_node_input node old_input_name new_input_name) (graph_node m) \<rparr>"

definition replace_output_of_all_nodes :: "ONNXModel \<Rightarrow> string \<Rightarrow> string \<Rightarrow> ONNXModel" where
  "replace_output_of_all_nodes m old_output_name new_output_name =
     m\<lparr> graph_node := map (\<lambda>node. replace_node_output node old_output_name new_output_name) (graph_node m) \<rparr>"

definition replace_input_of_nodes :: "ONNXModel \<Rightarrow> string \<Rightarrow> string \<Rightarrow> string set \<Rightarrow> ONNXModel" where
  "replace_input_of_nodes m old_input_name new_input_name node_names_set =
     m\<lparr> graph_node :=
          map (\<lambda>node. if n_name node \<in> node_names_set
                       then replace_node_input node old_input_name new_input_name else node)
              (graph_node m) \<rparr>"

text \<open>The consumers of a tensor, counted once per input slot that reads it.\<close>

definition input_name_to_nodes :: "ONNXModel \<Rightarrow> string \<Rightarrow> nat list option" where
  "input_name_to_nodes m tensor_name =
     (let readers = concat (map (\<lambda>r. map (\<lambda>_. r) (filter (\<lambda>i. i = tensor_name) (n_input (graph_node m ! r))))
                               [0 ..< length (graph_node m)])
      in if tensor_name = [] \<or> readers = [] then None else Some readers)"

text \<open>The batch removal: every node whose reference was recorded is dropped.\<close>

definition model_remove_nodes :: "ONNXModel \<Rightarrow> nat list \<Rightarrow> ONNXModel" where
  "model_remove_nodes m refs =
     m\<lparr> graph_node := map snd (filter (\<lambda>(r, node). r \<notin> set refs)
                                        (zip [0 ..< length (graph_node m)] (graph_node m))) \<rparr>"

text \<open>Initializers that no node reads any more are dropped.\<close>

definition clean_initializers :: "ONNXModel \<Rightarrow> ONNXModel" where
  "clean_initializers m =
     m\<lparr> graph_initializer :=
          filter (\<lambda>t. \<exists>node \<in> set (graph_node m). tp_name t \<in> set (n_input node)) (graph_initializer m) \<rparr>"

definition set_opset_import :: "ONNXModel \<Rightarrow> string \<Rightarrow> int \<Rightarrow> ONNXModel" where
  "set_opset_import m dmn version = m\<lparr> opset_import := AList.update dmn version (opset_import m) \<rparr>"

subsection \<open>The quantizer\<close>

text \<open>
  Diagnostics written through \<^verbatim>\<open>logging\<close>: the effect is kept as a list of records, so
  that "a warning is emitted" is a statement about the state.
\<close>

datatype log_level = WARNING | INFO

datatype diagnostic =
  FailedToInferType string
  | OnlyPerChannelOnWeight string
  | ExpectedWeight string
  | BiasAsWeight string
  | ParamsNotSpecified string

text \<open>
  The attributes of \<^verbatim>\<open>QDQQuantizer\<close> (those of \<^verbatim>\<open>BaseQuantizer\<close> that the file reads
  included). \<open>tensors_to_quantize\<close> is iterated, so it keeps insertion order;
  \<open>tensor_to_its_receiving_nodes\<close> and \<open>nodes_to_remove\<close> hold node references.
\<close>

record QDQQuantizer =
  model :: ONNXModel
  value_infos :: "string \<rightharpoonup> elem_type option"
  per_channel :: bool
  weight_qType :: elem_type
  activation_qType :: elem_type
  opset_version :: int
  tensor_quant_overrides :: "string \<rightharpoonup> (string \<times> string) list list"
  tensors_to_quantize :: "(string \<times> QDQTensorQuantInfo) list"
  bias_to_quantize :: "(string \<times> string \<times> string \<times> string \<times> real) list"
  nodes_to_remove :: "nat list"
  add_qdq_pair_to_weight :: bool
  quantize_bias :: bool
  dedicated_qdq_pair :: bool
  tensor_to_its_receiving_nodes :: "string \<rightharpoonup> nat list"
  qdq_op_domain :: "string option"
  quantization_params :: "(string \<rightharpoonup> QDQTensorQuantParams) option"
  quantized_value_map :: "string \<rightharpoonup> QDQTensorQuantizedValue"
  logging :: "(log_level \<times> diagnostic) list"

text \<open>A call either raises, leaving the quantizer as it was at the raise, or returns.\<close>

type_synonym 'a result = "(error \<times> QDQQuantizer) + 'a"

definition float_types :: "elem_type set" where
  "float_types = {FLOAT, FLOAT16}"

definition get_tensor_type :: "QDQQuantizer \<Rightarrow> string \<Rightarrow> elem_type option" where
  "get_tensor_type self tensor_name =
     (case find_by_name tensor_name (graph_initializer (model self)) of
        Some weight \<Rightarrow> Some (tp_data_type weight)
      | None \<Rightarrow>
          (case value_infos self tensor_name of
             Some vi \<Rightarrow> vi
           | None \<Rightarrow> None))"

definition is_tensor_quantizable :: "QDQQuantizer \<Rightarrow> string \<Rightarrow> bool \<times> QDQQuantizer" where
  "is_tensor_quantizable self tensor_name =
     (case find_by_name tensor_name (graph_initializer (model self)) of
        Some weight \<Rightarrow> (tp_data_type weight \<in> float_types, self)
      | None \<Rightarrow>
          (case value_infos self tensor_name of
             Some vi \<Rightarrow> (case vi of None \<Rightarrow> (False, self) | Some t \<Rightarrow> (t \<in> float_types, self))
           | None \<Rightarrow>
               (False, self\<lparr> logging := logging self @ [(WARNING, FailedToInferType tensor_name)] \<rparr>)))"

text \<open>
  \<^verbatim>\<open>__quantize_tensor\<close>. The provider argument is typed, so the \<^verbatim>\<open>isinstance\<close> check of
  the source cannot fail here.
\<close>

definition quantize_tensor ::
  "QDQQuantizer \<Rightarrow> string \<Rightarrow> QDQQuantParamProvider option \<Rightarrow> QDQQuantTensorType \<Rightarrow> QDQQuantizer result" where
  "quantize_tensor self tensor_name quant_sharing_provider tt =
     (case is_tensor_quantizable self tensor_name of
        (False, self1) \<Rightarrow> Inr self1
      | (True, self1) \<Rightarrow>
          (case quant_sharing_provider of
             Some provider \<Rightarrow>
               (case QDQTensorQuantInfo_init tt (Some provider) None (get_tensor_type self1 tensor_name) of
                  Inl e \<Rightarrow> Inl (e, self1)
                | Inr info \<Rightarrow>
                    Inr (self1\<lparr> tensors_to_quantize :=
                                 AList.update tensor_name info (tensors_to_quantize self1) \<rparr>))
           | None \<Rightarrow>
               if map_of (tensors_to_quantize self1) tensor_name = None
               then (case QDQTensorQuantInfo_init tt None None (get_tensor_type self1 tensor_name) of
                       Inl e \<Rightarrow> Inl (e, self1)
                     | Inr info \<Rightarrow>
                         Inr (self1\<lparr> tensors_to_quantize :=
                                      AList.update tensor_name info (tensors_to_quantize self1) \<rparr>))
               else Inr self1))"

definition quantize_activation_tensor :: "QDQQuantizer \<Rightarrow> string \<Rightarrow> QDQQuantizer result" where
  "quantize_activation_tensor self tensor_name = quantize_tensor self tensor_name None ACTIVATION"

definition quantize_output_same_as_input ::
  "QDQQuantizer \<Rightarrow> string \<Rightarrow> string \<Rightarrow> string \<Rightarrow> QDQQuantizer result" where
  "quantize_output_same_as_input self output_name inp node =
     quantize_tensor self output_name (Some \<lparr> input_name = inp, node_name = node \<rparr>) ACTIVATION"

definition quantize_weight_tensor :: "QDQQuantizer \<Rightarrow> string \<Rightarrow> QDQQuantizer result" where
  "quantize_weight_tensor self tensor_name = quantize_tensor self tensor_name None WEIGHT"

definition quantize_weight_tensor_per_channel ::
  "QDQQuantizer \<Rightarrow> string \<Rightarrow> int \<Rightarrow> QDQQuantizer result" where
  "quantize_weight_tensor_per_channel self tensor_name ax =
     (case find_by_name tensor_name (graph_initializer (model self)) of
        Some weight \<Rightarrow>
          if tp_data_type weight \<in> float_types
          then (case QDQTensorQuantInfo_init WEIGHT None (Some ax) (Some (tp_data_type weight)) of
                  Inl e \<Rightarrow> Inl (e, self)
                | Inr info \<Rightarrow>
                    Inr (self\<lparr> tensors_to_quantize :=
                                AList.update tensor_name info (tensors_to_quantize self) \<rparr>))
          else Inr self
      | None \<Rightarrow>
          Inr (self\<lparr> logging := logging self @ [(WARNING, OnlyPerChannelOnWeight tensor_name)] \<rparr>))"

text \<open>\<^verbatim>\<open>dict.get\<close> on the overrides is truthy when the tensor has a non-empty list.\<close>

definition has_overrides :: "QDQQuantizer \<Rightarrow> string \<Rightarrow> bool" where
  "has_overrides self tensor_name =
     (case tensor_quant_overrides self tensor_name of
        None \<Rightarrow> False
      | Some ovs \<Rightarrow> ovs \<noteq> [])"

definition quantize_bias_tensor ::
  "QDQQuantizer \<Rightarrow> string \<Rightarrow> string \<Rightarrow> string \<Rightarrow> string \<Rightarrow> real \<Rightarrow> QDQQuantizer result" where
  "quantize_bias_tensor self node bias_name inp weight_name beta =
     (if has_overrides self bias_name
      then (let self1 = self\<lparr> logging := logging self @ [(INFO, BiasAsWeight bias_name)] \<rparr>
            in if per_channel self1
               then quantize_weight_tensor_per_channel self1 bias_name 0
               else quantize_weight_tensor self1 bias_name)
      else (case find_by_name bias_name (graph_initializer (model self)) of
              Some weight \<Rightarrow>
                if tp_data_type weight \<in> float_types
                then Inr (self\<lparr> bias_to_quantize :=
                                 bias_to_quantize self @ [(node, bias_name, inp, weight_name, beta)] \<rparr>)
                else Inr self
            | None \<Rightarrow>
                Inr (self\<lparr> logging := logging self @ [(WARNING, ExpectedWeight bias_name)] \<rparr>)))"

definition remove_node :: "QDQQuantizer \<Rightarrow> nat \<Rightarrow> QDQQuantizer" where
  "remove_node self node = self\<lparr> nodes_to_remove := nodes_to_remove self @ [node] \<rparr>"

definition remove_nodes :: "QDQQuantizer \<Rightarrow> QDQQuantizer" where
  "remove_nodes self = self\<lparr> model := model_remove_nodes (model self) (nodes_to_remove self) \<rparr>"


text \<open>The positional constructor of \<^verbatim>\<open>QuantizedValue\<close>, with its keyword defaults explicit.\<close>

definition QuantizedValue_init ::
  "string \<Rightarrow> string \<Rightarrow> string \<Rightarrow> string \<Rightarrow> QuantizedValueType \<Rightarrow> int option \<Rightarrow> string option
     \<Rightarrow> elem_type option \<Rightarrow> elem_type option \<Rightarrow> QuantizedValue" where
  "QuantizedValue_init nm new_quantized_name scale_nm zero_point_nm quantized_value_type ax nt nq st =
     \<lparr> original_name = nm, q_name = new_quantized_name, scale_name = scale_nm,
       zp_name = zero_point_nm, value_type = quantized_value_type, qv_axis = ax,
       node_type = nt, node_qtype = nq, scale_type = st \<rparr>"

definition QDQTensorQuantizedValue_init ::
  "QuantizedValue \<Rightarrow> QuantizedValue option \<Rightarrow> string set option \<Rightarrow> QDQTensorQuantizedValue" where
  "QDQTensorQuantizedValue_init orig conv recv =
     \<lparr> original = orig, converted = conv, converted_recv_nodes = recv \<rparr>"

subsection \<open>Collaborators that live outside the file\<close>

text \<open>
  What the base class's numeric helpers hand back: the three names and the initializers
  they register in the graph.
\<close>

record impl_out =
  out_q_name :: string
  out_zp_name :: string
  out_scale_name :: string
  out_initializers :: "TensorProto list"

record bias_impl_out =
  b_q_name :: string
  b_scale_name :: string
  b_zp_name :: string
  b_scale_size :: nat
  b_node_type :: "string option"
  b_node_qtype :: "elem_type option"
  b_initializers :: "TensorProto list"

text \<open>
  Modelled from the spec: the per-operator policy contract (section 6). A policy object
  is a black-box callback that talks to the quantizer through the registry methods; it is
  represented by the sequence of calls it makes, branching on the two calls that return
  a value.
\<close>

datatype policy =
  Done
  | QuantizeActivationTensor string policy
  | QuantizeWeightTensor string policy
  | QuantizeWeightTensorPerChannel string int policy
  | QuantizeOutputSameAsInput string string string policy
  | QuantizeBiasTensor string string string string real policy
  | RemoveNode nat policy
  | TryReplacingUpstreamOutput string string policy policy
  | IsTensorQuantized string policy policy

text \<open>
  Modelled from the spec: the names imported from \<^verbatim>\<open>quant_utils\<close>, \<^verbatim>\<open>registry\<close> and
  \<^verbatim>\<open>base_quantizer\<close> whose code is not in the file. They are parameters of the
  development: the five name-suffix functions, the node filter, the policy factory and
  the three numeric helpers of the base class.
\<close>

record collaborators =
  add_quant_suffix :: "string \<Rightarrow> string"
  add_quant_input_suffix :: "string \<Rightarrow> string"
  add_quant_output_suffix :: "string \<Rightarrow> string"
  add_dequant_suffix :: "string \<Rightarrow> string"
  add_dequant_output_suffix :: "string \<Rightarrow> string"
  should_quantize_node :: "QDQQuantizer \<Rightarrow> NodeProto \<Rightarrow> bool"
  CreateQDQQuantizer :: "QDQQuantizer \<Rightarrow> nat \<Rightarrow> policy"
  quantize_initializer_impl ::
    "QDQQuantizer \<Rightarrow> TensorProto \<Rightarrow> elem_type \<Rightarrow> bool \<Rightarrow> bool \<Rightarrow> error + impl_out"
  quantize_weight_per_channel_impl ::
    "QDQQuantizer \<Rightarrow> string \<Rightarrow> elem_type \<Rightarrow> int \<Rightarrow> bool \<Rightarrow> bool \<Rightarrow> error + impl_out"
  quantize_bias_static_impl ::
    "QDQQuantizer \<Rightarrow> string \<Rightarrow> TensorProto \<Rightarrow> TensorProto \<Rightarrow> real \<Rightarrow> error + bias_impl_out"

definition QUANT_OP_NAME :: string where
  "QUANT_OP_NAME = ''QuantizeLinear''"

definition DEQUANT_OP_NAME :: string where
  "DEQUANT_OP_NAME = ''DequantizeLinear''"

definition ms_domain :: string where
  "ms_domain = ''com.microsoft''"

definition producer :: string where
  "producer = ''onnx.quantize''"

definition version :: string where
  "version = ''0.1.0''"

text \<open>\<^verbatim>\<open>onnx.helper.make_node\<close> with the keyword arguments the quantizer passes.\<close>

definition make_node ::
  "string \<Rightarrow> string list \<Rightarrow> string list \<Rightarrow> string \<Rightarrow> int option \<Rightarrow> string option \<Rightarrow> NodeProto" where
  "make_node op inputs outputs nm ax dmn =
     \<lparr> n_name = nm, n_op_type = op, n_input = inputs, n_output = outputs,
       n_axis = ax, n_to = None, n_domain = dmn \<rparr>"

text \<open>Decimal formatting of a number, as an f-string does.\<close>

fun str_nat :: "nat \<Rightarrow> string" where
  "str_nat n =
     (if n < 10 then [char_of (48 + n)]
      else str_nat (n div 10) @ [char_of (48 + n mod 10)])"

declare str_nat.simps [simp del]

definition digit_val :: "char \<Rightarrow> nat" where
  "digit_val c = of_char c - 48"

definition nat_str :: "string \<Rightarrow> nat" where
  "nat_str cs = foldl (\<lambda>a c. 10 * a + digit_val c) 0 cs"

subsection \<open>Graph rewriter: emitting Q and DQ nodes\<close>

text \<open>The name of a node, as opposed to the name of a tensor.\<close>

type_synonym node_label = string

definition create_q_node ::
  "QDQQuantizer \<Rightarrow> string \<Rightarrow> string \<Rightarrow> node_label \<Rightarrow> string \<Rightarrow> string \<Rightarrow> int option
     \<Rightarrow> QDQQuantizer" where
  "create_q_node self q_input q_output quant_node_name scale_nm zp_nm ax =
     self\<lparr> model := add_nodes (model self)
       [make_node QUANT_OP_NAME [q_input, scale_nm, zp_nm] [q_output] quant_node_name ax
          (qdq_op_domain self)] \<rparr>"

definition create_dq_node ::
  "QDQQuantizer \<Rightarrow> string \<Rightarrow> string \<Rightarrow> node_label \<Rightarrow> string \<Rightarrow> string \<Rightarrow> int option
     \<Rightarrow> QDQQuantizer" where
  "create_dq_node self dq_input dq_output dequant_node_name scale_nm zp_nm ax =
     self\<lparr> model := add_nodes (model self)
       [make_node DEQUANT_OP_NAME [dq_input, scale_nm, zp_nm] [dq_output] dequant_node_name ax
          (qdq_op_domain self)] \<rparr>"

definition create_qdq_nodes ::
  "QDQQuantizer \<Rightarrow> string \<Rightarrow> string \<Rightarrow> node_label \<Rightarrow> string \<Rightarrow> string \<Rightarrow> node_label
     \<Rightarrow> string \<Rightarrow> string \<Rightarrow> int option \<Rightarrow> QDQQuantizer" where
  "create_qdq_nodes self q_input q_output quant_node_name dq_input dq_output dequant_node_name
       scale_nm zp_nm ax =
     self\<lparr> model := add_nodes (model self)
       [make_node QUANT_OP_NAME [q_input, scale_nm, zp_nm] [q_output] quant_node_name ax
          (qdq_op_domain self),
        make_node DEQUANT_OP_NAME [dq_input, scale_nm, zp_nm] [dq_output] dequant_node_name ax
          (qdq_op_domain self)] \<rparr>"

text \<open>The recorded consumers of a tensor; the empty list when the tensor has no entry.\<close>

definition receiving_nodes :: "QDQQuantizer \<Rightarrow> string \<Rightarrow> nat list" where
  "receiving_nodes self tensor_name =
     (case tensor_to_its_receiving_nodes self tensor_name of
        None \<Rightarrow> []
      | Some recv \<Rightarrow> recv)"

text \<open>
  One round of the loop of the dedicated-pair branch of
  \<^verbatim>\<open>_add_qdq_pair_for_activation\<close>, for the index \<open>i\<close>. The list of consumers is not
  changed by the loop, so it is read once and passed in as \<open>recv\<close>.
\<close>

definition dedicated_pair_round ::
  "collaborators \<Rightarrow> string \<Rightarrow> string \<Rightarrow> string \<Rightarrow> elem_type option \<Rightarrow> nat list
     \<Rightarrow> nat \<Rightarrow> QDQQuantizer \<Rightarrow> QDQQuantizer" where
  "dedicated_pair_round E tensor_name scale_nm zp_nm dt recv i self =
     (let postfix = ''_'' @ str_nat (i + 1);
          tensor_name_quant_output_postfix = add_quant_output_suffix E tensor_name @ postfix;
          tensor_name_dequant_output_postfix = add_dequant_output_suffix E tensor_name @ postfix;
          quant_node_name_postfix = add_quant_suffix E tensor_name @ postfix;
          dequant_node_name_postfix = add_dequant_suffix E tensor_name @ postfix;
          self1 = create_qdq_nodes self tensor_name tensor_name_quant_output_postfix
                    quant_node_name_postfix tensor_name_quant_output_postfix
                    tensor_name_dequant_output_postfix dequant_node_name_postfix scale_nm zp_nm None;
          node = recv ! i;
          self2 = self1\<lparr> model := replace_node_input_at (model self1) node tensor_name
                                     tensor_name_dequant_output_postfix \<rparr>
      in if i = 0
         then self2\<lparr> quantized_value_map := (quantized_value_map self2)
                 (tensor_name \<mapsto> QDQTensorQuantizedValue_init
                    (QuantizedValue_init tensor_name tensor_name_dequant_output_postfix scale_nm zp_nm
                       Input None None None dt) None None) \<rparr>
         else self2)"

definition add_qdq_pair_for_activation ::
  "collaborators \<Rightarrow> QDQQuantizer \<Rightarrow> string \<Rightarrow> string \<Rightarrow> string \<Rightarrow> elem_type option \<Rightarrow> QDQQuantizer" where
  "add_qdq_pair_for_activation E self tensor_name scale_nm zp_nm dt =
     (if dedicated_qdq_pair self
         \<and> tensor_to_its_receiving_nodes self tensor_name \<noteq> None
         \<and> length (receiving_nodes self tensor_name) > 1
      then (let num_dedicated_qdq_pair = length (receiving_nodes self tensor_name)
            in fold (dedicated_pair_round E tensor_name scale_nm zp_nm dt (receiving_nodes self tensor_name))
                 [0 ..< num_dedicated_qdq_pair] self)
      else (let graph_out = is_graph_output (model self) tensor_name;
                q_input = (if graph_out then add_quant_input_suffix E tensor_name else tensor_name);
                dq_output = (if graph_out then tensor_name else add_dequant_output_suffix E tensor_name);
                self1 = (if graph_out
                         then self\<lparr> model := replace_output_of_all_nodes (model self) tensor_name q_input \<rparr>
                         else self\<lparr> model := replace_input_of_all_nodes (model self) tensor_name dq_output \<rparr>);
                self2 = create_qdq_nodes self1 q_input (add_quant_output_suffix E tensor_name)
                          (add_quant_suffix E tensor_name) (add_quant_output_suffix E tensor_name)
                          dq_output (add_dequant_suffix E tensor_name) scale_nm zp_nm None
            in self2\<lparr> quantized_value_map := (quantized_value_map self2)
                 (tensor_name \<mapsto> QDQTensorQuantizedValue_init
                    (QuantizedValue_init tensor_name dq_output scale_nm zp_nm Input None None None dt)
                    None None) \<rparr>))"

definition add_qdq_ops_for_converted_activation ::
  "collaborators \<Rightarrow> QDQQuantizer \<Rightarrow> string \<Rightarrow> string \<Rightarrow> string \<Rightarrow> elem_type option \<Rightarrow> string \<Rightarrow> string
     \<Rightarrow> string set option \<Rightarrow> QDQQuantizer result" where
  "add_qdq_ops_for_converted_activation E self tensor_name first_scale_name first_zp_name
       scale_data_type convert_scale_name convert_zp_name convert_recv_nodes =
     (case tensor_to_its_receiving_nodes self tensor_name of
        None \<Rightarrow> Inl (KeyError tensor_name, self)
      | Some recv \<Rightarrow>
          if dedicated_qdq_pair self \<and> length recv > 1
          then Inl (ValueError ''converted quant_types with dedicated_qdq_pair'', self)
          else
           (let tensor_recv_nodes = set (map (\<lambda>r. n_name (graph_node (model self) ! r)) recv);
                convert_recv = (case convert_recv_nodes of None \<Rightarrow> tensor_recv_nodes | Some c \<Rightarrow> c);
                original_recv_nodes =
                  (case convert_recv_nodes of None \<Rightarrow> {} | Some c \<Rightarrow> tensor_recv_nodes - c);
                all_use_converted = (card convert_recv = card tensor_recv_nodes);
                graph_out = is_graph_output (model self) tensor_name;
                first_q_input = (if graph_out then add_quant_input_suffix E tensor_name else tensor_name);
                self1 = (if graph_out
                         then self\<lparr> model := replace_output_of_all_nodes (model self) tensor_name first_q_input \<rparr>
                         else self);
                first_q_output = add_quant_output_suffix E tensor_name;
                self2 = create_q_node self1 first_q_input first_q_output (add_quant_suffix E tensor_name)
                          first_scale_name first_zp_name None;
                first_dq_output = (if graph_out \<and> \<not> all_use_converted then tensor_name
                                   else add_dequant_output_suffix E tensor_name);
                self3 = (if original_recv_nodes \<noteq> {} \<and> first_dq_output \<noteq> tensor_name
                         then self2\<lparr> model := replace_input_of_nodes (model self2) tensor_name
                                                  first_dq_output original_recv_nodes \<rparr>
                         else self2);
                self4 = create_dq_node self3 first_q_output first_dq_output (add_dequant_suffix E tensor_name)
                          first_scale_name first_zp_name None;
                second_q_input = (if \<not> all_use_converted
                                  then add_quant_input_suffix E (tensor_name @ ''_convert'')
                                  else first_dq_output);
                self5 = (if \<not> all_use_converted
                         then create_dq_node self4 first_q_output second_q_input
                                (add_dequant_suffix E (tensor_name @ ''_convert_clone''))
                                first_scale_name first_zp_name None
                         else self4);
                second_q_output = add_quant_output_suffix E (tensor_name @ ''_convert'');
                self6 = create_q_node self5 second_q_input second_q_output
                          (add_quant_suffix E (tensor_name @ ''_convert'')) convert_scale_name convert_zp_name None;
                second_dq_output = (if graph_out \<and> all_use_converted then tensor_name
                                    else add_dequant_output_suffix E (tensor_name @ ''_convert''));
                self7 = (if convert_recv \<noteq> {} \<and> second_dq_output \<noteq> tensor_name
                         then self6\<lparr> model := replace_input_of_nodes (model self6) tensor_name
                                                  second_dq_output convert_recv \<rparr>
                         else self6);
                self8 = create_dq_node self7 second_q_output second_dq_output
                          (add_dequant_suffix E (tensor_name @ ''_convert'')) convert_scale_name convert_zp_name None;
                original_quantized_value =
                  QuantizedValue_init tensor_name first_dq_output first_scale_name first_zp_name
                    Input None None None scale_data_type;
                converted_quantized_value =
                  QuantizedValue_init tensor_name second_dq_output convert_scale_name convert_zp_name
                    Input None None None scale_data_type
            in Inr (self8\<lparr> quantized_value_map := (quantized_value_map self8)
                      (tensor_name \<mapsto> QDQTensorQuantizedValue_init original_quantized_value
                         (Some converted_quantized_value) (Some convert_recv)) \<rparr>)))"

subsection \<open>Scale and zero-point initializers\<close>

text \<open>\<^verbatim>\<open>__make_initializers\<close>: the scale must be a 32- or 16-bit numpy float.\<close>

definition make_initializers ::
  "QDQQuantizer \<Rightarrow> string \<Rightarrow> QuantizationParams \<Rightarrow> string
     \<Rightarrow> (QDQQuantParamsInitializers \<times> QDQQuantizer) result" where
  "make_initializers self param_name params init_name_suffix =
     (case scale_dtype params of
        None \<Rightarrow> Inl (ValueError ''Unexpected type of scale'', self)
      | Some dt \<Rightarrow>
          if dt \<notin> {float32, float16} then Inl (ValueError ''Unexpected type of scale'', self)
          else if dt = float64 then Inl (AssertionError, self)
          else
           (let zero_point_type =
                  (case quant_type params of None \<Rightarrow> activation_qType self | Some q \<Rightarrow> q);
                zero_point_name = param_name @ ''_zero_point'' @ init_name_suffix;
                scale_nm = param_name @ ''_scale'' @ init_name_suffix;
                init_zp = \<lparr> tp_name = zero_point_name, tp_data_type = zero_point_type,
                            tp_vals = [zero_point params] \<rparr>;
                self1 = self\<lparr> model := add_initializer (model self) init_zp \<rparr>
            in if dt = float32 \<or> dt = float16
               then (let scale_tp = (if dt = float32 then FLOAT else FLOAT16);
                         init_scale = \<lparr> tp_name = scale_nm, tp_data_type = scale_tp,
                                        tp_vals = [scale params] \<rparr>;
                         self2 = self1\<lparr> model := add_initializer (model self1) init_scale \<rparr>
                     in Inr (\<lparr> i_scale = init_scale, i_zero_point = init_zp \<rparr>, self2))
               else Inl (ValueError ''Unexpected dtype of scale'', self1)))"

definition create_quantization_initializers ::
  "QDQQuantizer \<Rightarrow> string \<Rightarrow> (QDQTensorQuantParamsInitializers option \<times> QDQQuantizer) result" where
  "create_quantization_initializers self param_name =
     (case (case quantization_params self of None \<Rightarrow> None | Some qp \<Rightarrow> qp param_name) of
        None \<Rightarrow> Inr (None, self\<lparr> logging := logging self @ [(INFO, ParamsNotSpecified param_name)] \<rparr>)
      | Some tensor_params \<Rightarrow>
          (case make_initializers self param_name (p_original tensor_params) [] of
             Inl e \<Rightarrow> Inl e
           | Inr (original_inits, self1) \<Rightarrow>
               (case p_converted tensor_params of
                  None \<Rightarrow>
                    Inr (Some \<lparr> pi_original = original_inits, pi_converted = None,
                                pi_converted_recv_nodes = p_converted_recv_nodes tensor_params \<rparr>, self1)
                | Some conv \<Rightarrow>
                    (case make_initializers self1 param_name conv ''_convert'' of
                       Inl e \<Rightarrow> Inl e
                     | Inr (converted_inits, self2) \<Rightarrow>
                         Inr (Some \<lparr> pi_original = original_inits, pi_converted = Some converted_inits,
                                     pi_converted_recv_nodes = p_converted_recv_nodes tensor_params \<rparr>,
                              self2)))))"

subsection \<open>Quantizing weights and biases\<close>

text \<open>The initializers a numeric helper registers are added to the graph one by one.\<close>

definition register_initializers :: "QDQQuantizer \<Rightarrow> TensorProto list \<Rightarrow> QDQQuantizer" where
  "register_initializers self inits = self\<lparr> model := foldl add_initializer (model self) inits \<rparr>"

definition quantize_initializer ::
  "collaborators \<Rightarrow> QDQQuantizer \<Rightarrow> TensorProto \<Rightarrow> elem_type \<Rightarrow> bool \<Rightarrow> bool
     \<Rightarrow> ((string \<times> string \<times> string) \<times> QDQQuantizer) result" where
  "quantize_initializer E self weight qType reduce_range keep_float_weight =
     (case quantized_value_map self (tp_name weight) of
        Some stored \<Rightarrow>
          (let quantized_value = original stored
           in Inr ((q_name quantized_value, zp_name quantized_value, scale_name quantized_value), self))
      | None \<Rightarrow>
          (case quantize_initializer_impl E self weight qType reduce_range keep_float_weight of
             Inl e \<Rightarrow> Inl (e, self)
           | Inr out \<Rightarrow>
               (let self1 = register_initializers self (out_initializers out);
                    quantized_value =
                      QuantizedValue_init (tp_name weight) (out_q_name out) (out_scale_name out)
                        (out_zp_name out) Initializer None None None None
                in Inr ((out_q_name out, out_zp_name out, out_scale_name out),
                        self1\<lparr> quantized_value_map := (quantized_value_map self1)
                          (tp_name weight \<mapsto> QDQTensorQuantizedValue_init quantized_value None None) \<rparr>))))"

definition quantize_weight_per_channel ::
  "collaborators \<Rightarrow> QDQQuantizer \<Rightarrow> string \<Rightarrow> elem_type \<Rightarrow> int \<Rightarrow> bool \<Rightarrow> bool
     \<Rightarrow> ((string \<times> string \<times> string) \<times> QDQQuantizer) result" where
  "quantize_weight_per_channel E self weight_name weight_qType' channel_axis reduce_range keep_float_weight =
     (case quantized_value_map self weight_name of
        Some stored \<Rightarrow>
          (let quantized_value = original stored
           in Inr ((q_name quantized_value, zp_name quantized_value, scale_name quantized_value), self))
      | None \<Rightarrow>
          (case quantize_weight_per_channel_impl E self weight_name weight_qType' channel_axis
                  reduce_range keep_float_weight of
             Inl e \<Rightarrow> Inl (e, self)
           | Inr out \<Rightarrow>
               (let self1 = register_initializers self (out_initializers out);
                    quantized_value =
                      QuantizedValue_init weight_name (out_q_name out) (out_scale_name out)
                        (out_zp_name out) Initializer None None None None
                in Inr ((out_q_name out, out_zp_name out, out_scale_name out),
                        self1\<lparr> quantized_value_map := (quantized_value_map self1)
                          (weight_name \<mapsto> QDQTensorQuantizedValue_init quantized_value None None) \<rparr>))))"

text \<open>
  \<^verbatim>\<open>quantize_bias_static\<close>. Looking up a missing key raises \<^verbatim>\<open>KeyError\<close>; reading the data
  of a scale initializer that is not in the graph raises as well.
\<close>

definition quantize_bias_static ::
  "collaborators \<Rightarrow> QDQQuantizer \<Rightarrow> string \<Rightarrow> string \<Rightarrow> string \<Rightarrow> string \<Rightarrow> real
     \<Rightarrow> (string \<times> QDQQuantizer) result" where
  "quantize_bias_static E self node bias_name inp weight_name beta =
     (case quantized_value_map self bias_name of
        Some stored \<Rightarrow> Inr (q_name (original stored), self)
      | None \<Rightarrow>
          (case quantized_value_map self weight_name of
             None \<Rightarrow> Inl (KeyError weight_name, self)
           | Some weight_value \<Rightarrow>
               (case find_by_name (scale_name (original weight_value)) (graph_initializer (model self)) of
                  None \<Rightarrow> Inl (AttributeError ''weight scale'', self)
                | Some weight_initializer \<Rightarrow>
                    (case quantized_value_map self inp of
                       None \<Rightarrow> Inl (KeyError inp, self)
                     | Some input_value \<Rightarrow>
                         (case find_by_name (scale_name (get_for_consumer input_value node))
                                 (graph_initializer (model self)) of
                            None \<Rightarrow> Inl (AttributeError ''input scale'', self)
                          | Some inputscale_initializer \<Rightarrow>
                              (case quantize_bias_static_impl E self bias_name inputscale_initializer
                                      weight_initializer beta of
                                 Inl e \<Rightarrow> Inl (e, self)
                               | Inr out \<Rightarrow>
                                   (let self1 = register_initializers self (b_initializers out);
                                        quantized_value =
                                          QuantizedValue_init bias_name (b_q_name out) (b_scale_name out)
                                            (b_zp_name out) Initializer
                                            (if b_scale_size out > 1 then Some 0 else None)
                                            (b_node_type out) (b_node_qtype out) None
                                    in Inr (b_q_name out,
                                            self1\<lparr> quantized_value_map := (quantized_value_map self1)
                                              (bias_name \<mapsto> QDQTensorQuantizedValue_init quantized_value
                                                 None None) \<rparr>))))))))"

definition add_qdq_pair_for_initializer ::
  "collaborators \<Rightarrow> QDQQuantizer \<Rightarrow> TensorProto \<Rightarrow> QDQQuantTensorType \<Rightarrow> int option \<Rightarrow> QDQQuantizer result" where
  "add_qdq_pair_for_initializer E self weight_proto tt ax =
     (let weight_name = tp_name weight_proto
      in case (case ax of
                 Some a \<Rightarrow>
                   if opset_version self < 13
                   then Inl (ValueError ''Per-Channel support requires opset 13'', self)
                   else quantize_weight_per_channel E self weight_name
                          (if activation_qType self = UINT8 then INT8 else activation_qType self)
                          a True (add_qdq_pair_to_weight self)
               | None \<Rightarrow>
                   quantize_initializer E self weight_proto
                     (if tt = WEIGHT then weight_qType self else activation_qType self)
                     False (add_qdq_pair_to_weight self)) of
           Inl e \<Rightarrow> Inl e
         | Inr ((q_weight_name, zp_nm, scale_nm), self1) \<Rightarrow>
             (let weight_dequant_output = add_dequant_output_suffix E weight_name;
                  self2 = self1\<lparr> model := replace_input_of_all_nodes (model self1) weight_name
                                             weight_dequant_output \<rparr>
              in if add_qdq_pair_to_weight self2
                 then (let weight_quant_output = add_quant_output_suffix E weight_name
                       in Inr (create_qdq_nodes self2 weight_name weight_quant_output
                                 (add_quant_suffix E weight_name) weight_quant_output weight_dequant_output
                                 (add_dequant_suffix E weight_name) scale_nm zp_nm ax))
                 else Inr (self2\<lparr> model := add_node (model self2)
                             (make_node DEQUANT_OP_NAME [q_weight_name, scale_nm, zp_nm]
                                [weight_dequant_output] (add_dequant_suffix E weight_name) ax
                                (qdq_op_domain self2)) \<rparr>)))"

subsection \<open>The marking pass\<close>

definition is_tensor_quantized :: "QDQQuantizer \<Rightarrow> string \<Rightarrow> bool" where
  "is_tensor_quantized self tensor_name = (map_of (tensors_to_quantize self) tensor_name \<noteq> None)"

definition try_replacing_upstream_output ::
  "QDQQuantizer \<Rightarrow> string \<Rightarrow> string \<Rightarrow> (bool \<times> QDQQuantizer) result" where
  "try_replacing_upstream_output self upstream_output_name output_name =
     (case quantization_params self of
        None \<Rightarrow> Inl (TypeError ''argument of type NoneType is not iterable'', self)
      | Some qp \<Rightarrow>
          if qp output_name = None then Inr (False, self)
          else
           (case input_name_to_nodes (model self) upstream_output_name of
              None \<Rightarrow> Inl (KeyError upstream_output_name, self)
            | Some readers \<Rightarrow>
                if length readers = 1
                   \<and> \<not> is_graph_output (model self) upstream_output_name
                   \<and> \<not> is_graph_input (model self) upstream_output_name
                then (let self1 = self\<lparr> model := replace_output_of_all_nodes (model self)
                                                    upstream_output_name output_name \<rparr>
                      in if map_of (tensors_to_quantize self1) upstream_output_name \<noteq> None
                         then Inr (True, self1\<lparr> tensors_to_quantize :=
                                      AList.delete upstream_output_name (tensors_to_quantize self1) \<rparr>)
                         else Inr (True, self1))
                else Inr (False, self)))"

text \<open>Running a policy object: every registry call it makes, in order.\<close>

fun run_policy :: "policy \<Rightarrow> QDQQuantizer \<Rightarrow> QDQQuantizer result" where
  "run_policy Done self = Inr self"
| "run_policy (QuantizeActivationTensor t k) self =
     (case quantize_activation_tensor self t of Inl e \<Rightarrow> Inl e | Inr self1 \<Rightarrow> run_policy k self1)"
| "run_policy (QuantizeWeightTensor t k) self =
     (case quantize_weight_tensor self t of Inl e \<Rightarrow> Inl e | Inr self1 \<Rightarrow> run_policy k self1)"
| "run_policy (QuantizeWeightTensorPerChannel t ax k) self =
     (case quantize_weight_tensor_per_channel self t ax of
        Inl e \<Rightarrow> Inl e
      | Inr self1 \<Rightarrow> run_policy k self1)"
| "run_policy (QuantizeOutputSameAsInput out inp node k) self =
     (case quantize_output_same_as_input self out inp node of
        Inl e \<Rightarrow> Inl e
      | Inr self1 \<Rightarrow> run_policy k self1)"
| "run_policy (QuantizeBiasTensor node bias_name inp weight_name beta k) self =
     (case quantize_bias_tensor self node bias_name inp weight_name beta of
        Inl e \<Rightarrow> Inl e
      | Inr self1 \<Rightarrow> run_policy k self1)"
| "run_policy (RemoveNode node k) self = run_policy k (remove_node self node)"
| "run_policy (TryReplacingUpstreamOutput up out k_true k_false) self =
     (case try_replacing_upstream_output self up out of
        Inl e \<Rightarrow> Inl e
      | Inr (replaced, self1) \<Rightarrow> if replaced then run_policy k_true self1 else run_policy k_false self1)"
| "run_policy (IsTensorQuantized t k_true k_false) self =
     (if is_tensor_quantized self t then run_policy k_true self else run_policy k_false self)"

text \<open>The inner loop of the marking pass: the node is recorded once per input slot.\<close>

definition record_receiving_node :: "nat \<Rightarrow> string \<Rightarrow> QDQQuantizer \<Rightarrow> QDQQuantizer" where
  "record_receiving_node node tensor_name self =
     self\<lparr> tensor_to_its_receiving_nodes := (tensor_to_its_receiving_nodes self)
             (tensor_name \<mapsto> receiving_nodes self tensor_name @ [node]) \<rparr>"

text \<open>
  The first loop of \<^verbatim>\<open>quantize_model\<close>, over the node references of the graph. The
  policies add no node, so the references are those of the graph at the start.
\<close>

fun mark_nodes :: "collaborators \<Rightarrow> nat list \<Rightarrow> QDQQuantizer \<Rightarrow> QDQQuantizer result" where
  "mark_nodes E [] self = Inr self"
| "mark_nodes E (node # rest) self =
     (if should_quantize_node E self (graph_node (model self) ! node)
      then (case run_policy (CreateQDQQuantizer E self node) self of
              Inl e \<Rightarrow> Inl e
            | Inr self1 \<Rightarrow>
                mark_nodes E rest
                  (fold (record_receiving_node node) (n_input (graph_node (model self1) ! node)) self1))
      else mark_nodes E rest self)"

subsection \<open>Quantizing tensors that own their parameters\<close>

text \<open>\<^verbatim>\<open>del d[k]\<close> raises when the key is missing.\<close>

definition del_tensor_to_quantize :: "QDQQuantizer \<Rightarrow> string \<Rightarrow> QDQQuantizer result" where
  "del_tensor_to_quantize self tensor_name =
     (if map_of (tensors_to_quantize self) tensor_name = None
      then Inl (KeyError tensor_name, self)
      else Inr (self\<lparr> tensors_to_quantize := AList.delete tensor_name (tensors_to_quantize self) \<rparr>))"

text \<open>The body of the loop of \<^verbatim>\<open>_quantize_normal_tensors\<close> for a tensor that is not shared.\<close>

definition quantize_normal_tensor ::
  "collaborators \<Rightarrow> string \<Rightarrow> QDQTensorQuantInfo \<Rightarrow> QDQQuantizer \<Rightarrow> QDQQuantizer result" where
  "quantize_normal_tensor E tensor_name tensor_info self =
     (case (case find_by_name tensor_name (graph_initializer (model self)) of
              Some initializer \<Rightarrow>
                add_qdq_pair_for_initializer E self initializer (tensor_type tensor_info) (axis tensor_info)
            | None \<Rightarrow>
                (case create_quantization_initializers self tensor_name of
                   Inl e \<Rightarrow> Inl e
                 | Inr (None, self1) \<Rightarrow>
                     Inl (ValueError ''Quantization parameters are not specified'', self1)
                 | Inr (Some quant_params_initializers, self1) \<Rightarrow>
                     (case pi_converted quant_params_initializers of
                        None \<Rightarrow>
                          Inr (add_qdq_pair_for_activation E self1 tensor_name
                                 (tp_name (i_scale (pi_original quant_params_initializers)))
                                 (tp_name (i_zero_point (pi_original quant_params_initializers)))
                                 (Some (data_type tensor_info)))
                      | Some conv \<Rightarrow>
                          if data_type tensor_info
                               \<noteq> tp_data_type (i_scale (pi_original quant_params_initializers))
                          then Inl (AssertionError, self1)
                          else add_qdq_ops_for_converted_activation E self1 tensor_name
                                 (tp_name (i_scale (pi_original quant_params_initializers)))
                                 (tp_name (i_zero_point (pi_original quant_params_initializers)))
                                 (Some (data_type tensor_info))
                                 (tp_name (i_scale conv)) (tp_name (i_zero_point conv))
                                 (pi_converted_recv_nodes quant_params_initializers)))) of
        Inl e \<Rightarrow> Inl e
      | Inr self2 \<Rightarrow> del_tensor_to_quantize self2 tensor_name)"

text \<open>\<^verbatim>\<open>_quantize_normal_tensors\<close>, over a snapshot of the dictionary.\<close>

fun quantize_normal_tensors_loop ::
  "collaborators \<Rightarrow> (string \<times> QDQTensorQuantInfo) list \<Rightarrow> QDQQuantizer \<Rightarrow> QDQQuantizer result" where
  "quantize_normal_tensors_loop E [] self = Inr self"
| "quantize_normal_tensors_loop E ((tensor_name, tensor_info) # rest) self =
     (if quantized_value_map self tensor_name \<noteq> None then quantize_normal_tensors_loop E rest self
      else if \<not> is_shared tensor_info
      then (case quantize_normal_tensor E tensor_name tensor_info self of
              Inl e \<Rightarrow> Inl e
            | Inr self1 \<Rightarrow> quantize_normal_tensors_loop E rest self1)
      else quantize_normal_tensors_loop E rest self)"

definition quantize_normal_tensors :: "collaborators \<Rightarrow> QDQQuantizer \<Rightarrow> QDQQuantizer result" where
  "quantize_normal_tensors E self = quantize_normal_tensors_loop E (tensors_to_quantize self) self"

subsection \<open>Quantizing tensors that share the parameters of another tensor\<close>

text \<open>Modelled from the spec: \<^verbatim>\<open>BaseQuantizer.is_input_a_initializer\<close>.\<close>

definition is_input_a_initializer :: "QDQQuantizer \<Rightarrow> string \<Rightarrow> bool" where
  "is_input_a_initializer self tensor_name =
     (find_by_name tensor_name (graph_initializer (model self)) \<noteq> None)"

text \<open>
  The body of the \<^verbatim>\<open>if\<close> in \<^verbatim>\<open>_quantize_sharing_param_tensors\<close>: the provider's record
  \<open>provider_value\<close> has been found in \<open>quantized_value_map\<close>.
\<close>

definition quantize_sharing_param_tensor ::
  "collaborators \<Rightarrow> string \<Rightarrow> QDQQuantParamProvider \<Rightarrow> QDQTensorQuantizedValue \<Rightarrow> QDQQuantizer
     \<Rightarrow> QDQQuantizer result" where
  "quantize_sharing_param_tensor E tensor_name quant_provider provider_value self =
     (case del_tensor_to_quantize self tensor_name of
        Inl e \<Rightarrow> Inl e
      | Inr self1 \<Rightarrow>
          (let quantized_value = get_for_consumer provider_value (node_name quant_provider)
           in if is_input_a_initializer self1 tensor_name
              then Inl (ValueError ''Quantization parameter shared mode is not supported for weight yet'',
                        self1)
              else
               (case quantization_params self1 of
                  None \<Rightarrow> Inl (TypeError ''argument of type NoneType is not iterable'', self1)
                | Some qp \<Rightarrow>
                    (case (case qp tensor_name of None \<Rightarrow> None | Some tensor_params \<Rightarrow> p_converted tensor_params) of
                       Some conv \<Rightarrow>
                         (case make_initializers self1 tensor_name conv ''_convert'' of
                            Inl e \<Rightarrow> Inl e
                          | Inr (converted_qparam_inits, self2) \<Rightarrow>
                              add_qdq_ops_for_converted_activation E self2 tensor_name
                                (scale_name quantized_value) (zp_name quantized_value)
                                (Some (tp_data_type (i_scale converted_qparam_inits)))
                                (tp_name (i_scale converted_qparam_inits))
                                (tp_name (i_zero_point converted_qparam_inits))
                                (case qp tensor_name of
                                   None \<Rightarrow> None
                                 | Some tensor_params \<Rightarrow> p_converted_recv_nodes tensor_params))
                     | None \<Rightarrow>
                         Inr (add_qdq_pair_for_activation E self1 tensor_name
                                (scale_name quantized_value) (zp_name quantized_value) None)))))"

text \<open>One full scan: the \<^verbatim>\<open>for\<close> loop over a snapshot of the dictionary.\<close>

fun sharing_scan ::
  "collaborators \<Rightarrow> (string \<times> QDQTensorQuantInfo) list \<Rightarrow> QDQQuantizer \<Rightarrow> QDQQuantizer result" where
  "sharing_scan E [] self = Inr self"
| "sharing_scan E ((tensor_name, tensor_info) # rest) self =
     (case quant_para_provider tensor_info of
        None \<Rightarrow> sharing_scan E rest self
      | Some quant_provider \<Rightarrow>
          (case quantized_value_map self (input_name quant_provider) of
             None \<Rightarrow> sharing_scan E rest self
           | Some provider_value \<Rightarrow>
               (case quantize_sharing_param_tensor E tensor_name quant_provider provider_value self of
                  Inl e \<Rightarrow> Inl e
                | Inr self1 \<Rightarrow> sharing_scan E rest self1)))"

text \<open>
  \<^verbatim>\<open>_quantize_sharing_param_tensors\<close>: the \<^verbatim>\<open>while\<close> loop. It has no exit but the empty
  dictionary and a raise, so it may run forever: not returning is the value \<open>None\<close>.
\<close>

partial_function (option) quantize_sharing_param_tensors ::
  "collaborators \<Rightarrow> QDQQuantizer \<Rightarrow> QDQQuantizer result option" where
  "quantize_sharing_param_tensors E self =
     (if tensors_to_quantize self = [] then Some (Inr self)
      else (case sharing_scan E (tensors_to_quantize self) self of
              Inl e \<Rightarrow> Some (Inl e)
            | Inr self1 \<Rightarrow> quantize_sharing_param_tensors E self1))"

subsection \<open>Quantizing biases\<close>

definition bias_dequant_node ::
  "collaborators \<Rightarrow> string \<Rightarrow> string \<Rightarrow> TensorProto option \<Rightarrow> QDQQuantizer \<Rightarrow> QDQQuantizer result" where
  "bias_dequant_node E bias_name inp init self =
     (case quantized_value_map self bias_name of
        None \<Rightarrow> Inl (KeyError bias_name, self)
      | Some stored \<Rightarrow>
          (let quant_value = original stored
           in if node_type quant_value = Some ''Cast''
              then (case init of
                      None \<Rightarrow> Inl (AttributeError ''data_type'', self)
                    | Some bias_init \<Rightarrow>
                        Inr (self\<lparr> model := add_node (model self)
                               \<lparr> n_name = add_dequant_suffix E bias_name, n_op_type = ''Cast'',
                                 n_input = [q_name quant_value], n_output = [bias_name],
                                 n_axis = None, n_to = Some (tp_data_type bias_init),
                                 n_domain = None \<rparr> \<rparr>))
              else if node_type quant_value = None \<or> node_type quant_value = Some ''DequantizeLinear''
              then (if node_qtype quant_value \<in> {Some FLOAT16, Some BFLOAT16, Some FLOAT}
                    then Inl (RuntimeError ''Unexpected quantize type for DequantizeLinear'', self)
                    else Inr (self\<lparr> model := add_node (model self)
                                (make_node ''DequantizeLinear''
                                   [q_name quant_value, scale_name quant_value, zp_name quant_value]
                                   [bias_name] (add_dequant_suffix E bias_name) (qv_axis quant_value)
                                   (qdq_op_domain self)) \<rparr>))
              else Inl (RuntimeError ''Unexpected operator type'', self)))"

fun quantize_bias_tensors_loop ::
  "collaborators \<Rightarrow> (string \<times> string \<times> string \<times> string \<times> real) list \<Rightarrow> QDQQuantizer
     \<Rightarrow> QDQQuantizer result" where
  "quantize_bias_tensors_loop E [] self = Inr self"
| "quantize_bias_tensors_loop E ((bias_node_name, bias_name, inp, weight_name, beta) # rest) self =
     (if quantized_value_map self bias_name \<noteq> None then quantize_bias_tensors_loop E rest self
      else (case quantize_bias_static E self bias_node_name bias_name inp weight_name beta of
              Inl e \<Rightarrow> Inl e
            | Inr (quantized_bias_name, self1) \<Rightarrow>
                (let init = find_by_name bias_name (graph_initializer (model self1));
                     self2 = (case init of
                                None \<Rightarrow> self1
                              | Some bias_init \<Rightarrow>
                                  self1\<lparr> model := remove_initializer (model self1) bias_init \<rparr>)
                 in case bias_dequant_node E bias_name inp init self2 of
                      Inl e \<Rightarrow> Inl e
                    | Inr self3 \<Rightarrow> quantize_bias_tensors_loop E rest self3)))"

definition quantize_bias_tensors :: "collaborators \<Rightarrow> QDQQuantizer \<Rightarrow> QDQQuantizer result" where
  "quantize_bias_tensors E self = quantize_bias_tensors_loop E (bias_to_quantize self) self"

subsection \<open>The whole pass\<close>

text \<open>
  \<^verbatim>\<open>quantize_model\<close> up to, and without, the call of \<^verbatim>\<open>remove_nodes\<close>: marking, the
  tensors that own their parameters, the tensors that share them, the biases.
\<close>

definition quantize_before_removal :: "collaborators \<Rightarrow> QDQQuantizer \<Rightarrow> QDQQuantizer result option" where
  "quantize_before_removal E self =
     (case mark_nodes E [0 ..< length (graph_node (model self))] self of
        Inl e \<Rightarrow> Some (Inl e)
      | Inr self1 \<Rightarrow>
          (case quantize_normal_tensors E self1 of
             Inl e \<Rightarrow> Some (Inl e)
           | Inr self2 \<Rightarrow>
               (case quantize_sharing_param_tensors E self2 of
                  None \<Rightarrow> None
                | Some (Inl e) \<Rightarrow> Some (Inl e)
                | Some (Inr self3) \<Rightarrow>
                    (if quantize_bias self3
                     then (case quantize_bias_tensors E self3 of
                             Inl e \<Rightarrow> Some (Inl e)
                           | Inr self4 \<Rightarrow> Some (Inr self4))
                     else Some (Inr self3)))))"

text \<open>The rest of \<^verbatim>\<open>quantize_model\<close>, from the call of \<^verbatim>\<open>remove_nodes\<close> on.\<close>

definition finish_model :: "QDQQuantizer \<Rightarrow> QDQQuantizer" where
  "finish_model self =
     (let self1 = remove_nodes self;
          self2 = (if \<not> add_qdq_pair_to_weight self1
                   then self1\<lparr> model := clean_initializers (model self1) \<rparr> else self1);
          self3 = self2\<lparr> model := (model self2)\<lparr> producer_name := producer,
                                                  producer_version := version \<rparr> \<rparr>
      in if qdq_op_domain self3 = Some ms_domain
         then self3\<lparr> model := set_opset_import (model self3) ms_domain 1 \<rparr>
         else self3)"

definition quantize_model :: "collaborators \<Rightarrow> QDQQuantizer \<Rightarrow> QDQQuantizer result option" where
  "quantize_model E self =
     (case quantize_before_removal E self of
        None \<Rightarrow> None
      | Some (Inl e) \<Rightarrow> Some (Inl e)
      | Some (Inr self4) \<Rightarrow> Some (Inr (finish_model self4)))"

subsection \<open>Names for what the rewriter emits\<close>

text \<open>
  The \<open>i\<close>-th pair of the dedicated-pair branch, and the name of its dequantized output,
  written out so that the theorems can refer to them.
\<close>

definition dq_name :: "collaborators \<Rightarrow> string \<Rightarrow> nat \<Rightarrow> string" where
  "dq_name E t i = add_dequant_output_suffix E t @ ''_'' @ str_nat (i + 1)"

definition Q_node :: "collaborators \<Rightarrow> string option \<Rightarrow> string \<Rightarrow> string \<Rightarrow> string \<Rightarrow> nat \<Rightarrow> NodeProto" where
  "Q_node E dmn t sc zp i =
     make_node QUANT_OP_NAME [t, sc, zp] [add_quant_output_suffix E t @ ''_'' @ str_nat (i + 1)]
       (add_quant_suffix E t @ ''_'' @ str_nat (i + 1)) None dmn"

definition DQ_node :: "collaborators \<Rightarrow> string option \<Rightarrow> string \<Rightarrow> string \<Rightarrow> string \<Rightarrow> nat \<Rightarrow> NodeProto" where
  "DQ_node E dmn t sc zp i =
     make_node DEQUANT_OP_NAME [add_quant_output_suffix E t @ ''_'' @ str_nat (i + 1), sc, zp]
       [dq_name E t i] (add_dequant_suffix E t @ ''_'' @ str_nat (i + 1)) None dmn"

text \<open>The nodes of the graph after the first \<open>k\<close> consumers have been rewired.\<close>

definition rewired :: "collaborators \<Rightarrow> string \<Rightarrow> nat list \<Rightarrow> NodeProto list \<Rightarrow> nat \<Rightarrow> NodeProto list" where
  "rewired E t recv old k =
     fold (\<lambda>i ns. ns[recv ! i := replace_node_input (ns ! (recv ! i)) t (dq_name E t i)]) [0 ..< k] old"

text \<open>
  The quantizer without its initializers and its log: two states that agree on it differ
  only in initializers and diagnostics.
\<close>

definition erase_inits :: "QDQQuantizer \<Rightarrow> QDQQuantizer" where
  "erase_inits s = s\<lparr> model := (model s)\<lparr> graph_initializer := [] \<rparr>, logging := [] \<rparr>"

subsection \<open>Shapes of the provider graph\<close>

text \<open>
  The provider graph of the tensors that wait in \<open>tensors_to_quantize\<close> is acyclic and
  complete when every waiting tensor has a provider that is either resolved already or
  waits itself with a smaller rank. The dictionary has distinct keys.
\<close>

definition providers_resolvable :: "(string \<Rightarrow> nat) \<Rightarrow> QDQQuantizer \<Rightarrow> bool" where
  "providers_resolvable rank s =
     (distinct (map fst (tensors_to_quantize s)) \<and>
      (\<forall>(t, info) \<in> set (tensors_to_quantize s).
         case quant_para_provider info of
           None \<Rightarrow> False
         | Some p \<Rightarrow>
             quantized_value_map s (input_name p) \<noteq> None
             \<or> (map_of (tensors_to_quantize s) (input_name p) \<noteq> None \<and> rank (input_name p) < rank t)))"

text \<open>
  A full scan makes no progress when tensors wait and none of them has a provider that is
  resolved. Two tensors that share from each other, and a tensor whose provider is
  neither resolved nor waiting, are the typical cases.
\<close>

definition scan_blocked :: "QDQQuantizer \<Rightarrow> bool" where
  "scan_blocked s =
     (tensors_to_quantize s \<noteq> [] \<and>
      list_all (\<lambda>(t, info). case quant_para_provider info of
                               None \<Rightarrow> True
                             | Some p \<Rightarrow> quantized_value_map s (input_name p) = None)
        (tensors_to_quantize s))"

text \<open>
  A set \<open>B\<close> of tensor names is blocked when none of them is resolved, one of them
  waits, and every waiting member has no provider or a provider in \<open>B\<close>: a cycle of
  providers, or a chain that ends in a tensor nobody quantizes.
\<close>

definition blocked_set :: "string set \<Rightarrow> QDQQuantizer \<Rightarrow> bool" where
  "blocked_set B s =
     (B \<inter> dom (quantized_value_map s) = {} \<and>
      B \<inter> fst ` set (tensors_to_quantize s) \<noteq> {} \<and>
      (\<forall>(t, info) \<in> set (tensors_to_quantize s).
         t \<in> B \<longrightarrow> (case quant_para_provider info of None \<Rightarrow> True | Some p \<Rightarrow> input_name p \<in> B)))"

subsection \<open>What a step of the pass keeps\<close>

text \<open>
  The identity of a node: everything but the tensors it is wired to. The nodes of a graph
  are kept by a later graph when they are still there, at their positions, possibly
  rewired; the later graph may have more nodes at the end.
\<close>

definition node_id :: "NodeProto \<Rightarrow> string \<times> string \<times> int option \<times> elem_type option \<times> string option" where
  "node_id node = (n_name node, n_op_type node, n_axis node, n_to node, n_domain node)"

definition node_ids :: "ONNXModel \<Rightarrow> (string \<times> string \<times> int option \<times> elem_type option \<times> string option) list" where
  "node_ids m = map node_id (graph_node m)"

definition nodes_kept :: "ONNXModel \<Rightarrow> ONNXModel \<Rightarrow> bool" where
  "nodes_kept m m' = prefix (node_ids m) (node_ids m')"

text \<open>The quantizer without its graph and its log.\<close>

definition erase_graph :: "QDQQuantizer \<Rightarrow> QDQQuantizer" where
  "erase_graph s =
     s\<lparr> model := \<lparr> graph_node = [], graph_initializer = [], graph_input = [], graph_output = [],
                    opset_import = [], producer_name = [], producer_version = [] \<rparr>,
        logging := [] \<rparr>"

text \<open>A step that writes to the graph and the log only, and keeps every node.\<close>

definition graph_step :: "QDQQuantizer \<Rightarrow> QDQQuantizer \<Rightarrow> bool" where
  "graph_step s s' = (erase_graph s' = erase_graph s \<and> nodes_kept (model s) (model s'))"

text \<open>
  A step that resolves the tensor \<open>t\<close>: beyond the graph and the log, it stores a record
  for \<open>t\<close> and nothing else.
\<close>

definition resolved_as :: "string \<Rightarrow> QDQQuantizer \<Rightarrow> QDQQuantizer \<Rightarrow> bool" where
  "resolved_as t s s' =
     (\<exists>v. graph_step (s\<lparr> quantized_value_map := (quantized_value_map s)(t \<mapsto> v) \<rparr>) s')"

subsection \<open>Removal of nodes\<close>

text \<open>The quantizer a call leaves behind, whether it returns or raises.\<close>

definition state_of :: "QDQQuantizer result \<Rightarrow> QDQQuantizer" where
  "state_of r = (case r of Inl (e, s) \<Rightarrow> s | Inr s \<Rightarrow> s)"

text \<open>
  Between two states no node has left the graph and no removal has been recorded; and,
  for the marking pass, the graph has the same nodes and removals have been recorded
  only.
\<close>

definition no_removal :: "QDQQuantizer \<Rightarrow> QDQQuantizer \<Rightarrow> bool" where
  "no_removal s s' = (nodes_kept (model s) (model s') \<and> nodes_to_remove s' = nodes_to_remove s)"

definition removal_recorded :: "QDQQuantizer \<Rightarrow> QDQQuantizer \<Rightarrow> bool" where
  "removal_recorded s s' =
     (node_ids (model s') = node_ids (model s) \<and> prefix (nodes_to_remove s) (nodes_to_remove s'))"

subsection \<open>Sample values\<close>

definition sample_original :: QuantizedValue where
  "sample_original =
     QuantizedValue_init ''X'' ''X_dq'' ''X_scale'' ''X_zero_point'' Input None None None (Some FLOAT)"

definition sample_converted :: QuantizedValue where
  "sample_converted =
     QuantizedValue_init ''X'' ''X_convert_dq'' ''X_scale_convert'' ''X_zero_point_convert'' Input
       None None None (Some FLOAT)"

text \<open>
  A small graph: \<open>conv\<close> reads the graph input \<open>X\<close>, the weight \<open>W\<close> and the bias
  \<open>B\<close>; its output \<open>Y\<close> feeds \<open>relu\<close> and \<open>sigmoid\<close>, whose outputs are the graph
  outputs. \<open>U\<close> has a value info without a tensor type, \<open>K\<close> is an integer tensor.
\<close>

definition sample_graph :: ONNXModel where
  "sample_graph =
     \<lparr> graph_node =
         [\<lparr> n_name = ''conv'', n_op_type = ''Conv'', n_input = [''X'', ''W'', ''B''],
            n_output = [''Y''], n_axis = None, n_to = None, n_domain = None \<rparr>,
          \<lparr> n_name = ''relu'', n_op_type = ''Relu'', n_input = [''Y''],
            n_output = [''Z1''], n_axis = None, n_to = None, n_domain = None \<rparr>,
          \<lparr> n_name = ''sigmoid'', n_op_type = ''Sigmoid'', n_input = [''Y''],
            n_output = [''Z2''], n_axis = None, n_to = None, n_domain = None \<rparr>],
       graph_initializer =
         [\<lparr> tp_name = ''W'', tp_data_type = FLOAT, tp_vals = [1, 2] \<rparr>,
          \<lparr> tp_name = ''B'', tp_data_type = FLOAT, tp_vals = [3] \<rparr>],
       graph_input = [''X''],
       graph_output = [''Z1'', ''Z2''],
       opset_import = [([], 13)],
       producer_name = ''test'',
       producer_version = ''1'' \<rparr>"

definition sample_params :: QuantizationParams where
  "sample_params =
     \<lparr> zero_point = 0, scale = 1, scale_dtype = Some float32, quant_type = Some UINT8 \<rparr>"

definition sample_quantizer :: QDQQuantizer where
  "sample_quantizer =
     \<lparr> model = sample_graph,
       value_infos = [''X'' \<mapsto> Some FLOAT, ''Y'' \<mapsto> Some FLOAT, ''Z1'' \<mapsto> Some FLOAT,
                      ''Z2'' \<mapsto> Some FLOAT, ''U'' \<mapsto> None, ''K'' \<mapsto> Some INT32],
       per_channel = False,
       weight_qType = INT8,
       activation_qType = UINT8,
       opset_version = 13,
       tensor_quant_overrides = Map.empty,
       tensors_to_quantize = [],
       bias_to_quantize = [],
       nodes_to_remove = [],
       add_qdq_pair_to_weight = False,
       quantize_bias = True,
       dedicated_qdq_pair = False,
       tensor_to_its_receiving_nodes = Map.empty,
       qdq_op_domain = None,
       quantization_params =
         Some [''X'' \<mapsto> \<lparr> p_original = sample_params, p_converted = None, p_converted_recv_nodes = None \<rparr>,
               ''Y'' \<mapsto> \<lparr> p_original = sample_params, p_converted = None, p_converted_recv_nodes = None \<rparr>,
               ''Z1'' \<mapsto> \<lparr> p_original = sample_params, p_converted = None, p_converted_recv_nodes = None \<rparr>],
       quantized_value_map = Map.empty,
       logging = [] \<rparr>"

definition activation_info :: QDQTensorQuantInfo where
  "activation_info =
     \<lparr> tensor_type = ACTIVATION, quant_para_provider = None, axis = None, is_shared = False,
       data_type = FLOAT \<rparr>"

definition shared_info :: "string \<Rightarrow> string \<Rightarrow> QDQTensorQuantInfo" where
  "shared_info inp node =
     \<lparr> tensor_type = ACTIVATION, quant_para_provider = Some \<lparr> input_name = inp, node_name = node \<rparr>,
       axis = None, is_shared = True, data_type = FLOAT \<rparr>"

text \<open>
  Collaborators for the samples: the suffixes are those of \<^verbatim>\<open>quant_utils\<close>; every node is
  quantized; the numeric helpers name their results after the tensor.
\<close>

definition sample_policy :: "QDQQuantizer \<Rightarrow> nat \<Rightarrow> policy" where
  "sample_policy self node =
     (if node = 0
      then QuantizeActivationTensor ''X'' (QuantizeWeightTensor ''W''
             (QuantizeBiasTensor ''conv'' ''B'' ''X'' ''W'' 1 (QuantizeActivationTensor ''Y'' Done)))
      else if node = 1
      then QuantizeActivationTensor ''Y'' (QuantizeOutputSameAsInput ''Z1'' ''Y'' ''relu'' Done)
      else QuantizeActivationTensor ''Y'' Done)"

definition sample_impl_out :: "string \<Rightarrow> impl_out" where
  "sample_impl_out nm =
     \<lparr> out_q_name = nm @ ''_quantized'', out_zp_name = nm @ ''_zero_point'',
       out_scale_name = nm @ ''_scale'',
       out_initializers =
         [\<lparr> tp_name = nm @ ''_scale'', tp_data_type = FLOAT, tp_vals = [1] \<rparr>,
          \<lparr> tp_name = nm @ ''_zero_point'', tp_data_type = INT8, tp_vals = [0] \<rparr>,
          \<lparr> tp_name = nm @ ''_quantized'', tp_data_type = INT8, tp_vals = [1, 2] \<rparr>] \<rparr>"

definition sample_collaborators :: collaborators where
  "sample_collaborators =
     \<lparr> add_quant_suffix = (\<lambda>nm. nm @ ''_QuantizeLinear''),
       add_quant_input_suffix = (\<lambda>nm. nm @ ''_QuantizeLinear_Input''),
       add_quant_output_suffix = (\<lambda>nm. nm @ ''_QuantizeLinear_Output''),
       add_dequant_suffix = (\<lambda>nm. nm @ ''_DequantizeLinear''),
       add_dequant_output_suffix = (\<lambda>nm. nm @ ''_DequantizeLinear_Output''),
       should_quantize_node = (\<lambda>self node. True),
       CreateQDQQuantizer = sample_policy,
       quantize_initializer_impl = (\<lambda>self weight qType reduce_range keep. Inr (sample_impl_out (tp_name weight))),
       quantize_weight_per_channel_impl = (\<lambda>self nm qType ax reduce_range keep. Inr (sample_impl_out nm)),
       quantize_bias_static_impl =
         (\<lambda>self nm input_scale weight_scale beta.
            Inr \<lparr> b_q_name = nm @ ''_quantized'', b_scale_name = nm @ ''_quantized_scale'',
                  b_zp_name = nm @ ''_quantized_zero_point'', b_scale_size = 1,
                  b_node_type = Some ''DequantizeLinear'', b_node_qtype = Some INT32,
                  b_initializers =
                    [\<lparr> tp_name = nm @ ''_quantized'', tp_data_type = INT32, tp_vals = [3] \<rparr>,
                     \<lparr> tp_name = nm @ ''_quantized_scale'', tp_data_type = FLOAT, tp_vals = [1] \<rparr>,
                     \<lparr> tp_name = nm @ ''_quantized_zero_point'', tp_data_type = INT32, tp_vals = [0] \<rparr>] \<rparr>) \<rparr>"

text \<open>
  Dedicated-pair mode on the sample graph: \<open>Y\<close> has the two recorded consumers \<open>relu\<close>
  and \<open>sigmoid\<close>, and a converted parameter set.
\<close>

definition dedicated_quantizer :: QDQQuantizer where
  "dedicated_quantizer =
     sample_quantizer
       \<lparr> dedicated_qdq_pair := True,
         tensor_to_its_receiving_nodes := [''Y'' \<mapsto> [1, 2]],
         quantization_params :=
           Some [''Y'' \<mapsto> \<lparr> p_original = sample_params, p_converted = Some sample_params,
                              p_converted_recv_nodes = None \<rparr>] \<rparr>"

text \<open>
  A graph in which \<open>mul\<close> reads \<open>Y\<close> in both of its input slots and \<open>relu\<close> reads it
  once: the marking pass records \<open>mul\<close> twice for \<open>Y\<close>.
\<close>

definition square_graph :: ONNXModel where
  "square_graph =
     \<lparr> graph_node =
         [\<lparr> n_name = ''mul'', n_op_type = ''Mul'', n_input = [''Y'', ''Y''],
            n_output = [''Z1''], n_axis = None, n_to = None, n_domain = None \<rparr>,
          \<lparr> n_name = ''relu'', n_op_type = ''Relu'', n_input = [''Y''],
            n_output = [''Z2''], n_axis = None, n_to = None, n_domain = None \<rparr>],
       graph_initializer = [],
       graph_input = [''Y''],
       graph_output = [''Z1'', ''Z2''],
       opset_import = [([], 13)],
       producer_name = ''test'',
       producer_version = ''1'' \<rparr>"

definition square_quantizer :: QDQQuantizer where
  "square_quantizer =
     sample_quantizer
       \<lparr> model := square_graph,
         dedicated_qdq_pair := True,
         tensor_to_its_receiving_nodes := [''Y'' \<mapsto> [0, 0, 1]] \<rparr>"

text \<open>
  Sharing tensors on the sample graph. In the chain, \<open>Z1\<close> shares from \<open>Y\<close>, which is
  resolved. In the cycle, \<open>T1\<close> shares from \<open>T2\<close> and \<open>T2\<close> from \<open>T1\<close>.
\<close>

definition resolved_Y :: QDQTensorQuantizedValue where
  "resolved_Y =
     QDQTensorQuantizedValue_init
       (QuantizedValue_init ''Y'' ''Y_DequantizeLinear_Output'' ''Y_scale'' ''Y_zero_point'' Input
          None None None (Some FLOAT)) None None"

definition chain_quantizer :: QDQQuantizer where
  "chain_quantizer =
     sample_quantizer
       \<lparr> tensors_to_quantize := [(''Z1'', shared_info ''Y'' ''relu'')],
         quantized_value_map := [''Y'' \<mapsto> resolved_Y] \<rparr>"

definition cyclic_quantizer :: QDQQuantizer where
  "cyclic_quantizer =
     sample_quantizer
       \<lparr> tensors_to_quantize := [(''T1'', shared_info ''T2'' ''n1''), (''T2'', shared_info ''T1'' ''n2'')] \<rparr>"

text \<open>
  A state in which the bias \<open>B\<close> of \<open>conv\<close> can be quantized: the weight \<open>W\<close> and the
  input \<open>X\<close> are resolved and their scales are initializers of the graph.
\<close>

definition bias_ready_quantizer :: QDQQuantizer where
  "bias_ready_quantizer =
     sample_quantizer
       \<lparr> model := sample_graph
           \<lparr> graph_initializer := graph_initializer sample_graph @
               [\<lparr> tp_name = ''W_scale'', tp_data_type = FLOAT, tp_vals = [1] \<rparr>,
                \<lparr> tp_name = ''X_scale'', tp_data_type = FLOAT, tp_vals = [1] \<rparr>] \<rparr>,
         quantized_value_map :=
           [''W'' \<mapsto> QDQTensorQuantizedValue_init
                      (QuantizedValue_init ''W'' ''W_quantized'' ''W_scale'' ''W_zero_point'' Initializer
                         None None None None) None None,
            ''X'' \<mapsto> QDQTensorQuantizedValue_init sample_original None None] \<rparr>"

text \<open>
  Policies that quantize \<open>Y\<close>, let \<open>Z1\<close> share its parameters, and ask that
  \<open>sigmoid\<close> be removed.
\<close>

definition removing_policy :: "QDQQuantizer \<Rightarrow> nat \<Rightarrow> policy" where
  "removing_policy self node =
     (if node = 0 then QuantizeActivationTensor ''Y'' Done
      else if node = 1 then QuantizeOutputSameAsInput ''Z1'' ''Y'' ''relu'' Done
      else RemoveNode node Done)"

definition removing_collaborators :: collaborators where
  "removing_collaborators = sample_collaborators\<lparr> CreateQDQQuantizer := removing_policy \<rparr>"

text \<open>The states of that run on the sample graph: after marking, after the normal tensors, after the sharing tensors.\<close>

definition marked_quantizer :: QDQQuantizer where
  "marked_quantizer =
     sample_quantizer
       \<lparr> tensors_to_quantize := [(''Y'', activation_info), (''Z1'', shared_info ''Y'' ''relu'')],
         nodes_to_remove := [2],
         tensor_to_its_receiving_nodes := [''X'' \<mapsto> [0], ''W'' \<mapsto> [0], ''B'' \<mapsto> [0], ''Y'' \<mapsto> [1, 2]] \<rparr>"

definition Y_pair :: "NodeProto list" where
  "Y_pair =
     [\<lparr> n_name = ''Y_QuantizeLinear'', n_op_type = ''QuantizeLinear'',
        n_input = [''Y'', ''Y_scale'', ''Y_zero_point''], n_output = [''Y_QuantizeLinear_Output''],
        n_axis = None, n_to = None, n_domain = None \<rparr>,
      \<lparr> n_name = ''Y_DequantizeLinear'', n_op_type = ''DequantizeLinear'',
        n_input = [''Y_QuantizeLinear_Output'', ''Y_scale'', ''Y_zero_point''],
        n_output = [''Y_DequantizeLinear_Output''],
        n_axis = None, n_to = None, n_domain = None \<rparr>]"

definition Z1_pair :: "NodeProto list" where
  "Z1_pair =
     [\<lparr> n_name = ''Z1_QuantizeLinear'', n_op_type = ''QuantizeLinear'',
        n_input = [''Z1_QuantizeLinear_Input'', ''Y_scale'', ''Y_zero_point''],
        n_output = [''Z1_QuantizeLinear_Output''],
        n_axis = None, n_to = None, n_domain = None \<rparr>,
      \<lparr> n_name = ''Z1_DequantizeLinear'', n_op_type = ''DequantizeLinear'',
        n_input = [''Z1_QuantizeLinear_Output'', ''Y_scale'', ''Y_zero_point''],
        n_output = [''Z1''],
        n_axis = None, n_to = None, n_domain = None \<rparr>]"

definition Y_quantized_quantizer :: QDQQuantizer where
  "Y_quantized_quantizer =
     marked_quantizer
       \<lparr> model := sample_graph
           \<lparr> graph_node :=
               [\<lparr> n_name = ''conv'', n_op_type = ''Conv'', n_input = [''X'', ''W'', ''B''],
                  n_output = [''Y''], n_axis = None, n_to = None, n_domain = None \<rparr>,
                \<lparr> n_name = ''relu'', n_op_type = ''Relu'', n_input = [''Y_DequantizeLinear_Output''],
                  n_output = [''Z1''], n_axis = None, n_to = None, n_domain = None \<rparr>,
                \<lparr> n_name = ''sigmoid'', n_op_type = ''Sigmoid'', n_input = [''Y_DequantizeLinear_Output''],
                  n_output = [''Z2''], n_axis = None, n_to = None, n_domain = None \<rparr>] @ Y_pair,
             graph_initializer := graph_initializer sample_graph @
               [\<lparr> tp_name = ''Y_zero_point'', tp_data_type = UINT8, tp_vals = [0] \<rparr>,
                \<lparr> tp_name = ''Y_scale'', tp_data_type = FLOAT, tp_vals = [1] \<rparr>] \<rparr>,
         tensors_to_quantize := [(''Z1'', shared_info ''Y'' ''relu'')],
         quantized_value_map := [''Y'' \<mapsto> resolved_Y] \<rparr>"

definition Z1_quantized_quantizer :: QDQQuantizer where
  "Z1_quantized_quantizer =
     Y_quantized_quantizer
       \<lparr> model := (model Y_quantized_quantizer)
           \<lparr> graph_node :=
               [\<lparr> n_name = ''conv'', n_op_type = ''Conv'', n_input = [''X'', ''W'', ''B''],
                  n_output = [''Y''], n_axis = None, n_to = None, n_domain = None \<rparr>,
                \<lparr> n_name = ''relu'', n_op_type = ''Relu'', n_input = [''Y_DequantizeLinear_Output''],
                  n_output = [''Z1_QuantizeLinear_Input''], n_axis = None, n_to = None, n_domain = None \<rparr>,
                \<lparr> n_name = ''sigmoid'', n_op_type = ''Sigmoid'', n_input = [''Y_DequantizeLinear_Output''],
                  n_output = [''Z2''], n_axis = None, n_to = None, n_domain = None \<rparr>] @ Y_pair @ Z1_pair \<rparr>,
         tensors_to_quantize := [],
         quantized_value_map :=
           [''Y'' \<mapsto> resolved_Y,
            ''Z1'' \<mapsto> QDQTensorQuantizedValue_init
               (QuantizedValue_init ''Z1'' ''Z1'' ''Y_scale'' ''Y_zero_point'' Input None None None None)
               None None] \<rparr>"

text \<open>
  Dedicated-pair mode on that graph from the start: nothing is registered yet, and the
  policy of both nodes registers \<open>Y\<close> as an activation.
\<close>

definition square_start_quantizer :: QDQQuantizer where
  "square_start_quantizer = sample_quantizer\<lparr> model := square_graph, dedicated_qdq_pair := True \<rparr>"

definition reading_collaborators :: collaborators where
  "reading_collaborators =
     sample_collaborators\<lparr> CreateQDQQuantizer := (\<lambda>self node. QuantizeActivationTensor ''Y'' Done) \<rparr>"

definition square_marked_quantizer :: QDQQuantizer where
  "square_marked_quantizer =
     square_start_quantizer
       \<lparr> tensors_to_quantize := [(''Y'', activation_info)],
         tensor_to_its_receiving_nodes := [''Y'' \<mapsto> [0, 0, 1]] \<rparr>"

section \<open>The tensor registry\<close>

lemma is_tensor_quantizable_True:
  "get_tensor_type s t = Some d \<Longrightarrow> d \<in> float_types \<Longrightarrow> is_tensor_quantizable s t = (True, s)"
  by (auto simp: is_tensor_quantizable_def get_tensor_type_def split: option.splits)

lemma is_tensor_quantizable_False:
  "get_tensor_type s t \<notin> Some ` float_types \<Longrightarrow>
   is_tensor_quantizable s t =
     (False, if find_by_name t (graph_initializer (model s)) = None \<and> value_infos s t = None
             then s\<lparr> logging := logging s @ [(WARNING, FailedToInferType t)] \<rparr> else s)"
  by (auto simp: is_tensor_quantizable_def get_tensor_type_def split: option.splits)

lemma quantize_tensor_quantizable:
  assumes "get_tensor_type s t = Some d" "d \<in> float_types"
  shows "quantize_tensor s t p tt =
     Inr (case p of
            Some pr \<Rightarrow>
              s\<lparr> tensors_to_quantize :=
                   AList.update t \<lparr> tensor_type = tt, quant_para_provider = Some pr, axis = None,
                                    is_shared = True, data_type = d \<rparr> (tensors_to_quantize s) \<rparr>
          | None \<Rightarrow>
              if map_of (tensors_to_quantize s) t = None
              then s\<lparr> tensors_to_quantize :=
                       AList.update t \<lparr> tensor_type = tt, quant_para_provider = None, axis = None,
                                        is_shared = False, data_type = d \<rparr> (tensors_to_quantize s) \<rparr>
              else s)"
  using assms
  by (cases p) (auto simp: quantize_tensor_def is_tensor_quantizable_True QDQTensorQuantInfo_init_def)

lemma quantize_tensor_unquantizable:
  assumes "get_tensor_type s t \<notin> Some ` float_types"
  shows "quantize_tensor s t p tt =
           Inr (if find_by_name t (graph_initializer (model s)) = None \<and> value_infos s t = None
                then s\<lparr> logging := logging s @ [(WARNING, FailedToInferType t)] \<rparr> else s)"
  using assms by (simp add: quantize_tensor_def is_tensor_quantizable_False)

lemma quantize_tensor_total:
  "\<exists>s'. quantize_tensor s t p tt = Inr s' \<and> bias_to_quantize s' = bias_to_quantize s \<and>
        model s' = model s \<and> nodes_to_remove s' = nodes_to_remove s \<and>
        quantized_value_map s' = quantized_value_map s"
proof (cases "get_tensor_type s t \<in> Some ` float_types")
  case True
  then obtain d where "get_tensor_type s t = Some d" "d \<in> float_types" by auto
  then show ?thesis
    by (simp add: quantize_tensor_quantizable split: option.splits)
next
  case False
  then show ?thesis
    by (simp add: quantize_tensor_unquantizable)
qed

lemma quantize_weight_tensor_per_channel_total:
  "\<exists>s'. quantize_weight_tensor_per_channel s t ax = Inr s' \<and> bias_to_quantize s' = bias_to_quantize s \<and>
        model s' = model s \<and> nodes_to_remove s' = nodes_to_remove s \<and>
        quantized_value_map s' = quantized_value_map s"
  by (simp add: quantize_weight_tensor_per_channel_def QDQTensorQuantInfo_init_def split: option.splits)

lemma sample_Y_type: "get_tensor_type (sample_quantizer\<lparr> tensors_to_quantize := q \<rparr>) ''Y'' = Some FLOAT"
  by (simp add: get_tensor_type_def sample_quantizer_def sample_graph_def find_by_name_def)

section \<open>The graph rewriter\<close>

subsection \<open>Decimal suffixes are injective\<close>

lemma digit_val_char: "d < 10 \<Longrightarrow> digit_val (char_of (48 + d)) = d"
  by (simp add: digit_val_def)

lemma nat_str_snoc: "nat_str (cs @ [c]) = 10 * nat_str cs + digit_val c"
  by (simp add: nat_str_def)

lemma nat_str_str_nat: "nat_str (str_nat n) = n"
proof (induction n rule: str_nat.induct)
  case (1 n)
  show ?case
  proof (cases "n < 10")
    case True
    then show ?thesis
      by (subst str_nat.simps) (simp add: nat_str_def digit_val_char)
  next
    case False
    with 1 have "nat_str (str_nat (n div 10)) = n div 10" by simp
    with False show ?thesis
      by (subst str_nat.simps) (simp add: nat_str_snoc digit_val_char)
  qed
qed

lemma str_nat_inj: "str_nat a = str_nat b \<Longrightarrow> a = b"
  by (metis nat_str_str_nat)

lemma dq_name_inj: "dq_name E t i = dq_name E t j \<Longrightarrow> i = j"
  by (auto simp: dq_name_def dest: str_nat_inj)

lemma distinct_dq_names: "distinct (map (dq_name E t) [0 ..< n])"
  by (auto simp: distinct_map inj_on_def dest: dq_name_inj)

lemma str_nat_small: "str_nat 1 = ''1''" "str_nat 2 = ''2''" "str_nat 3 = ''3''"
  by code_simp+

subsection \<open>Changes that touch only initializers and the log\<close>

lemma erase_inits_logging [simp]: "erase_inits (s\<lparr> logging := l \<rparr>) = erase_inits s"
  by (simp add: erase_inits_def)

lemma erase_inits_add_initializer [simp]:
  "erase_inits (s\<lparr> model := add_initializer m tp \<rparr>) = erase_inits (s\<lparr> model := m \<rparr>)"
  by (simp add: erase_inits_def add_initializer_def)

lemma erase_inits_model_id [simp]: "erase_inits (s\<lparr> model := model s \<rparr>) = erase_inits s"
  by simp

lemma erase_inits_fields:
  "graph_node (model (erase_inits s)) = graph_node (model s)"
  "graph_output (model (erase_inits s)) = graph_output (model s)"
  "dedicated_qdq_pair (erase_inits s) = dedicated_qdq_pair s"
  "tensor_to_its_receiving_nodes (erase_inits s) = tensor_to_its_receiving_nodes s"
  "quantized_value_map (erase_inits s) = quantized_value_map s"
  "tensors_to_quantize (erase_inits s) = tensors_to_quantize s"
  "quantization_params (erase_inits s) = quantization_params s"
  "nodes_to_remove (erase_inits s) = nodes_to_remove s"
  "bias_to_quantize (erase_inits s) = bias_to_quantize s"
  by (simp_all add: erase_inits_def)

lemma inits_only_fields:
  assumes "erase_inits s' = erase_inits s"
  shows "graph_node (model s') = graph_node (model s)"
    "graph_output (model s') = graph_output (model s)"
    "dedicated_qdq_pair s' = dedicated_qdq_pair s"
    "tensor_to_its_receiving_nodes s' = tensor_to_its_receiving_nodes s"
    "quantized_value_map s' = quantized_value_map s"
    "tensors_to_quantize s' = tensors_to_quantize s"
    "quantization_params s' = quantization_params s"
    "nodes_to_remove s' = nodes_to_remove s"
    "bias_to_quantize s' = bias_to_quantize s"
  using arg_cong [OF assms, of "\<lambda>x. graph_node (model x)"]
    arg_cong [OF assms, of "\<lambda>x. graph_output (model x)"]
    arg_cong [OF assms, of dedicated_qdq_pair]
    arg_cong [OF assms, of tensor_to_its_receiving_nodes]
    arg_cong [OF assms, of quantized_value_map]
    arg_cong [OF assms, of tensors_to_quantize]
    arg_cong [OF assms, of quantization_params]
    arg_cong [OF assms, of nodes_to_remove]
    arg_cong [OF assms, of bias_to_quantize]
  by (simp_all only: erase_inits_fields)

lemma make_initializers_frame:
  "make_initializers s n p sfx = Inl (e, s') \<Longrightarrow> erase_inits s' = erase_inits s"
  "make_initializers s n p sfx = Inr (qi, s') \<Longrightarrow> erase_inits s' = erase_inits s"
  by (auto simp: make_initializers_def Let_def split: option.splits if_splits)

lemma create_quantization_initializers_frame:
  "create_quantization_initializers s n = Inl (e, s') \<Longrightarrow> erase_inits s' = erase_inits s"
  "create_quantization_initializers s n = Inr (r, s') \<Longrightarrow> erase_inits s' = erase_inits s"
  by (auto simp: create_quantization_initializers_def split: option.splits sum.splits)
     (metis make_initializers_frame)+

lemma create_quantization_initializers_converted:
  assumes "quantization_params s = Some qp" "qp n = Some tp" "p_converted tp = Some conv"
    "create_quantization_initializers s n = Inr (r, s')"
  shows "\<exists>qi c. r = Some qi \<and> pi_converted qi = Some c"
  using assms
  by (auto simp: create_quantization_initializers_def split: option.splits sum.splits)

subsection \<open>The rounds of the dedicated-pair loop\<close>

lemma length_rewired [simp]: "length (rewired E t recv old k) = length old"
  by (induction k) (simp_all add: rewired_def)

lemma rewired_Suc:
  "rewired E t recv old (Suc k) =
     (rewired E t recv old k)[recv ! k := replace_node_input (rewired E t recv old k ! (recv ! k)) t (dq_name E t k)]"
  by (simp add: rewired_def)

lemma round_state:
  assumes "graph_node (model s) = ns @ ps" "recv ! i < length ns"
  shows "dedicated_pair_round E t sc zp dt recv i s =
     s\<lparr> model := (model s)\<lparr> graph_node :=
            ns[recv ! i := replace_node_input (ns ! (recv ! i)) t (dq_name E t i)]
              @ ps @ [Q_node E (qdq_op_domain s) t sc zp i, DQ_node E (qdq_op_domain s) t sc zp i] \<rparr>,
        quantized_value_map :=
          (if i = 0 then (quantized_value_map s)(t \<mapsto> QDQTensorQuantizedValue_init
                    (QuantizedValue_init t (dq_name E t 0) sc zp Input None None None dt) None None)
           else quantized_value_map s) \<rparr>"
  using assms
  by (auto simp: dedicated_pair_round_def Let_def create_qdq_nodes_def add_nodes_def
      replace_node_input_at_def list_update_append1 nth_append Q_node_def DQ_node_def dq_name_def)

lemma fold_rounds:
  assumes old: "graph_node (model s) = old" and valid: "\<forall>r \<in> set recv. r < length old"
    and k: "k \<le> length recv"
  shows "fold (dedicated_pair_round E t sc zp dt recv) [0 ..< k] s =
     (if k = 0 then s else
      s\<lparr> model := (model s)\<lparr> graph_node :=
            rewired E t recv old k
              @ concat (map (\<lambda>i. [Q_node E (qdq_op_domain s) t sc zp i, DQ_node E (qdq_op_domain s) t sc zp i])
                          [0 ..< k]) \<rparr>,
        quantized_value_map :=
          (quantized_value_map s)(t \<mapsto> QDQTensorQuantizedValue_init
                    (QuantizedValue_init t (dq_name E t 0) sc zp Input None None None dt) None None) \<rparr>)"
  using k
proof (induction k)
  case 0
  then show ?case by simp
next
  case (Suc k)
  then have kl: "k < length recv" by simp
  then have v: "recv ! k < length old" using valid by simp
  show ?case
  proof (cases "k = 0")
    case True
    with v old show ?thesis
      using round_state [where s = s and ns = old and ps = "[]" and recv = recv and i = 0]
      by (simp add: rewired_def)
  next
    case False
    define s1 where "s1 = fold (dedicated_pair_round E t sc zp dt recv) [0 ..< k] s"
    have s1: "s1 = s\<lparr> model := (model s)\<lparr> graph_node :=
            rewired E t recv old k
              @ concat (map (\<lambda>i. [Q_node E (qdq_op_domain s) t sc zp i, DQ_node E (qdq_op_domain s) t sc zp i])
                          [0 ..< k]) \<rparr>,
        quantized_value_map :=
          (quantized_value_map s)(t \<mapsto> QDQTensorQuantizedValue_init
                    (QuantizedValue_init t (dq_name E t 0) sc zp Input None None None dt) None None) \<rparr>"
      using Suc False by (simp add: s1_def)
    have g: "graph_node (model s1) =
        rewired E t recv old k
          @ concat (map (\<lambda>i. [Q_node E (qdq_op_domain s) t sc zp i, DQ_node E (qdq_op_domain s) t sc zp i])
                      [0 ..< k])"
      by (simp add: s1)
    have "fold (dedicated_pair_round E t sc zp dt recv) [0 ..< Suc k] s
            = dedicated_pair_round E t sc zp dt recv k s1"
      by (simp add: s1_def)
    also have "\<dots> = s1\<lparr> model := (model s1)\<lparr> graph_node :=
            (rewired E t recv old k)
              [recv ! k := replace_node_input (rewired E t recv old k ! (recv ! k)) t (dq_name E t k)]
              @ concat (map (\<lambda>i. [Q_node E (qdq_op_domain s) t sc zp i, DQ_node E (qdq_op_domain s) t sc zp i])
                          [0 ..< k])
              @ [Q_node E (qdq_op_domain s1) t sc zp k, DQ_node E (qdq_op_domain s1) t sc zp k] \<rparr>,
        quantized_value_map := quantized_value_map s1 \<rparr>"
      using round_state [OF g, of recv k E t sc zp dt] v False by simp
    also have "\<dots> = s\<lparr> model := (model s)\<lparr> graph_node :=
            rewired E t recv old (Suc k)
              @ concat (map (\<lambda>i. [Q_node E (qdq_op_domain s) t sc zp i, DQ_node E (qdq_op_domain s) t sc zp i])
                          [0 ..< Suc k]) \<rparr>,
        quantized_value_map :=
          (quantized_value_map s)(t \<mapsto> QDQTensorQuantizedValue_init
                    (QuantizedValue_init t (dq_name E t 0) sc zp Input None None None dt) None None) \<rparr>"
      by (simp add: s1 rewired_Suc)
    finally show ?thesis by simp
  qed
qed

lemma rewired_other:
  assumes "k \<le> length recv" "j \<notin> set (take k recv)"
  shows "rewired E t recv old k ! j = old ! j"
  using assms
proof (induction k)
  case 0
  then show ?case by (simp add: rewired_def)
next
  case (Suc k)
  then have "j \<notin> set (take k recv)" "j \<noteq> recv ! k"
    by (auto simp: take_Suc_conv_app_nth)
  with Suc show ?case by (simp add: rewired_Suc)
qed

lemma distinct_nth_not_in_take:
  assumes "distinct recv" "k < length recv"
  shows "recv ! k \<notin> set (take k recv)"
proof
  assume "recv ! k \<in> set (take k recv)"
  then obtain j where j: "j < k" "recv ! j = recv ! k"
    using assms by (auto simp: in_set_conv_nth)
  with assms show False
    by (simp add: nth_eq_iff_index_eq)
qed

lemma rewired_consumer:
  assumes "k \<le> length recv" "distinct recv" "\<forall>r \<in> set recv. r < length old" "i < k"
  shows "rewired E t recv old k ! (recv ! i) = replace_node_input (old ! (recv ! i)) t (dq_name E t i)"
  using assms
proof (induction k)
  case 0
  then show ?case by simp
next
  case (Suc k)
  show ?case
  proof (cases "i = k")
    case True
    have "recv ! k \<notin> set (take k recv)"
      using Suc.prems by (simp add: distinct_nth_not_in_take)
    then have "rewired E t recv old k ! (recv ! k) = old ! (recv ! k)"
      using Suc.prems rewired_other [of k recv "recv ! k" E t old] by simp
    with True Suc.prems show ?thesis
      by (simp add: rewired_Suc)
  next
    case False
    with Suc.prems have ik: "i < k" by simp
    then have "recv ! i \<noteq> recv ! k"
      using Suc.prems by (simp add: nth_eq_iff_index_eq)
    with Suc ik show ?thesis by (simp add: rewired_Suc)
  qed
qed

lemma str_nat_Suc:
  "str_nat (Suc 0) = ''1''" "str_nat (Suc (Suc 0)) = ''2''" "str_nat (Suc (Suc (Suc 0))) = ''3''"
  using str_nat_small by (simp_all add: numeral_2_eq_2 numeral_3_eq_3)

lemma sample_suffixes [simp]:
  "add_quant_suffix sample_collaborators nm = nm @ ''_QuantizeLinear''"
  "add_quant_input_suffix sample_collaborators nm = nm @ ''_QuantizeLinear_Input''"
  "add_quant_output_suffix sample_collaborators nm = nm @ ''_QuantizeLinear_Output''"
  "add_dequant_suffix sample_collaborators nm = nm @ ''_DequantizeLinear''"
  "add_dequant_output_suffix sample_collaborators nm = nm @ ''_DequantizeLinear_Output''"
  by (simp_all add: sample_collaborators_def)

section \<open>Steps of the pass\<close>

subsection \<open>Node identities under the graph primitives\<close>

lemma node_id_replace [simp]:
  "node_id (replace_node_input node a b) = node_id node"
  "node_id (replace_node_output node a b) = node_id node"
  by (simp_all add: node_id_def replace_node_input_def replace_node_output_def)

lemma node_ids_simps [simp]:
  "node_ids (add_nodes m ns) = node_ids m @ map node_id ns"
  "node_ids (add_node m n) = node_ids m @ [node_id n]"
  "node_ids (add_initializer m tp) = node_ids m"
  "node_ids (remove_initializer m tp) = node_ids m"
  "node_ids (replace_input_of_all_nodes m a b) = node_ids m"
  "node_ids (replace_output_of_all_nodes m a b) = node_ids m"
  "node_ids (replace_input_of_nodes m a b S) = node_ids m"
  "node_ids (replace_node_input_at m r a b) = node_ids m"
  by (simp_all add: node_ids_def add_nodes_def add_node_def add_initializer_def remove_initializer_def
      replace_input_of_all_nodes_def replace_output_of_all_nodes_def replace_input_of_nodes_def
      replace_node_input_at_def map_update list_update_same_conv comp_def)

lemma node_ids_foldl_add_initializer [simp]:
  "node_ids (foldl add_initializer m tps) = node_ids m"
  by (induction tps arbitrary: m) simp_all

lemma nodes_kept_refl [simp]: "nodes_kept m m"
  by (simp add: nodes_kept_def)

lemma nodes_kept_trans: "nodes_kept m m1 \<Longrightarrow> nodes_kept m1 m2 \<Longrightarrow> nodes_kept m m2"
  unfolding nodes_kept_def by (rule prefix_order.trans)

lemma nodes_kept_ids: "node_ids m2 = node_ids m1 @ extra \<Longrightarrow> nodes_kept m m1 \<Longrightarrow> nodes_kept m m2"
  unfolding nodes_kept_def by (metis prefix_order.trans prefixI)

subsection \<open>Steps on the graph\<close>

lemma erase_graph_simps [simp]:
  "erase_graph (s\<lparr> model := m \<rparr>) = erase_graph s"
  "erase_graph (s\<lparr> logging := l \<rparr>) = erase_graph s"
  by (simp_all add: erase_graph_def)

lemma graph_step_refl [simp]: "graph_step s s"
  by (simp add: graph_step_def)

lemma graph_step_trans: "graph_step s s1 \<Longrightarrow> graph_step s1 s2 \<Longrightarrow> graph_step s s2"
  by (auto simp: graph_step_def intro: nodes_kept_trans)

lemma graph_step_model:
  "graph_step s s1 \<Longrightarrow> node_ids m = node_ids (model s1) @ extra \<Longrightarrow> graph_step s (s1\<lparr> model := m \<rparr>)"
  by (auto simp: graph_step_def intro: nodes_kept_ids)

lemma graph_step_model_same:
  "graph_step s s1 \<Longrightarrow> node_ids m = node_ids (model s1) \<Longrightarrow> graph_step s (s1\<lparr> model := m \<rparr>)"
  using graph_step_model [where extra = "[]"] by simp

lemma graph_step_logging: "graph_step s s1 \<Longrightarrow> graph_step s (s1\<lparr> logging := l \<rparr>)"
  by (simp add: graph_step_def)

lemma graph_step_if:
  "graph_step s a \<Longrightarrow> graph_step s b \<Longrightarrow> graph_step s (if c then a else b)"
  by simp

lemma graph_step_create:
  "graph_step s s1 \<Longrightarrow> graph_step s (create_q_node s1 a b c d e f)"
  "graph_step s s1 \<Longrightarrow> graph_step s (create_dq_node s1 a b c d e f)"
  "graph_step s s1 \<Longrightarrow> graph_step s (create_qdq_nodes s1 a b c a' b' c' d e f)"
  by (auto simp: create_q_node_def create_dq_node_def create_qdq_nodes_def intro!: graph_step_model)

lemma graph_step_rewire:
  "graph_step s s1 \<Longrightarrow> graph_step s (s1\<lparr> model := replace_input_of_all_nodes (model s1) a b \<rparr>)"
  "graph_step s s1 \<Longrightarrow> graph_step s (s1\<lparr> model := replace_output_of_all_nodes (model s1) a b \<rparr>)"
  "graph_step s s1 \<Longrightarrow> graph_step s (s1\<lparr> model := replace_input_of_nodes (model s1) a b S \<rparr>)"
  "graph_step s s1 \<Longrightarrow> graph_step s (s1\<lparr> model := replace_node_input_at (model s1) r a b \<rparr>)"
  "graph_step s s1 \<Longrightarrow> graph_step s (s1\<lparr> model := add_initializer (model s1) tp \<rparr>)"
  "graph_step s s1 \<Longrightarrow> graph_step s (s1\<lparr> model := remove_initializer (model s1) tp \<rparr>)"
  by (erule graph_step_model_same, simp)+

lemma graph_step_add_node:
  "graph_step s s1 \<Longrightarrow> graph_step s (s1\<lparr> model := add_node (model s1) n \<rparr>)"
  "graph_step s s1 \<Longrightarrow> graph_step s (s1\<lparr> model := add_nodes (model s1) ns \<rparr>)"
  by (erule graph_step_model, simp)+

lemmas graph_step_intros =
  graph_step_refl graph_step_if graph_step_create graph_step_rewire graph_step_add_node graph_step_logging

lemma graph_step_fields:
  assumes "graph_step s s'"
  shows "tensors_to_quantize s' = tensors_to_quantize s"
    "quantized_value_map s' = quantized_value_map s"
    "nodes_to_remove s' = nodes_to_remove s"
    "bias_to_quantize s' = bias_to_quantize s"
    "tensor_to_its_receiving_nodes s' = tensor_to_its_receiving_nodes s"
    "quantization_params s' = quantization_params s"
    "dedicated_qdq_pair s' = dedicated_qdq_pair s"
    "quantize_bias s' = quantize_bias s"
    "add_qdq_pair_to_weight s' = add_qdq_pair_to_weight s"
    "qdq_op_domain s' = qdq_op_domain s"
    "nodes_kept (model s) (model s')"
proof -
  have e: "erase_graph s' = erase_graph s" and k: "nodes_kept (model s) (model s')"
    using assms by (simp_all add: graph_step_def)
  have f: "\<And>x. tensors_to_quantize (erase_graph x) = tensors_to_quantize x"
    "\<And>x. quantized_value_map (erase_graph x) = quantized_value_map x"
    "\<And>x. nodes_to_remove (erase_graph x) = nodes_to_remove x"
    "\<And>x. bias_to_quantize (erase_graph x) = bias_to_quantize x"
    "\<And>x. tensor_to_its_receiving_nodes (erase_graph x) = tensor_to_its_receiving_nodes x"
    "\<And>x. quantization_params (erase_graph x) = quantization_params x"
    "\<And>x. dedicated_qdq_pair (erase_graph x) = dedicated_qdq_pair x"
    "\<And>x. quantize_bias (erase_graph x) = quantize_bias x"
    "\<And>x. add_qdq_pair_to_weight (erase_graph x) = add_qdq_pair_to_weight x"
    "\<And>x. qdq_op_domain (erase_graph x) = qdq_op_domain x"
    by (simp_all add: erase_graph_def)
  show "tensors_to_quantize s' = tensors_to_quantize s"
    "quantized_value_map s' = quantized_value_map s"
    "nodes_to_remove s' = nodes_to_remove s"
    "bias_to_quantize s' = bias_to_quantize s"
    "tensor_to_its_receiving_nodes s' = tensor_to_its_receiving_nodes s"
    "quantization_params s' = quantization_params s"
    "dedicated_qdq_pair s' = dedicated_qdq_pair s"
    "quantize_bias s' = quantize_bias s"
    "add_qdq_pair_to_weight s' = add_qdq_pair_to_weight s"
    "qdq_op_domain s' = qdq_op_domain s"
    using arg_cong [OF e, of tensors_to_quantize] arg_cong [OF e, of quantized_value_map]
      arg_cong [OF e, of nodes_to_remove] arg_cong [OF e, of bias_to_quantize]
      arg_cong [OF e, of tensor_to_its_receiving_nodes] arg_cong [OF e, of quantization_params]
      arg_cong [OF e, of dedicated_qdq_pair] arg_cong [OF e, of quantize_bias]
      arg_cong [OF e, of add_qdq_pair_to_weight] arg_cong [OF e, of qdq_op_domain]
    by (simp_all only: f)
  show "nodes_kept (model s) (model s')" by (rule k)
qed

subsection \<open>Resolving one tensor\<close>

lemma erase_graph_commute:
  "erase_graph (x\<lparr> quantized_value_map := q \<rparr>) = (erase_graph x)\<lparr> quantized_value_map := q \<rparr>"
  "erase_graph (x\<lparr> tensors_to_quantize := d \<rparr>) = (erase_graph x)\<lparr> tensors_to_quantize := d \<rparr>"
  by (simp_all add: erase_graph_def)

lemma graph_step_cong:
  assumes "graph_step s s1"
  shows "graph_step (s\<lparr> quantized_value_map := q \<rparr>) (s1\<lparr> quantized_value_map := q \<rparr>)"
    "graph_step (s\<lparr> tensors_to_quantize := d \<rparr>) (s1\<lparr> tensors_to_quantize := d \<rparr>)"
  using assms by (simp_all add: graph_step_def erase_graph_commute)

lemma resolved_asI:
  "graph_step s s1 \<Longrightarrow> resolved_as t s (s1\<lparr> quantized_value_map := (quantized_value_map s1)(t \<mapsto> v) \<rparr>)"
  unfolding resolved_as_def
  using graph_step_cong(1) [of s s1 "(quantized_value_map s)(t \<mapsto> v)"] graph_step_fields(2) [of s s1]
  by auto

lemma resolved_as_then_step: "resolved_as t s s1 \<Longrightarrow> graph_step s1 s2 \<Longrightarrow> resolved_as t s s2"
  unfolding resolved_as_def by (blast intro: graph_step_trans)

lemma step_then_resolved_as:
  assumes "graph_step s s1" "resolved_as t s1 s2"
  shows "resolved_as t s s2"
proof -
  from assms(2) obtain v where
    v: "graph_step (s1\<lparr> quantized_value_map := (quantized_value_map s1)(t \<mapsto> v) \<rparr>) s2"
    by (auto simp: resolved_as_def)
  have "quantized_value_map s1 = quantized_value_map s"
    using assms(1) by (rule graph_step_fields)
  with graph_step_cong(1) [OF assms(1), of "(quantized_value_map s)(t \<mapsto> v)"]
  have "graph_step (s\<lparr> quantized_value_map := (quantized_value_map s)(t \<mapsto> v) \<rparr>)
          (s1\<lparr> quantized_value_map := (quantized_value_map s1)(t \<mapsto> v) \<rparr>)"
    by simp
  with v show ?thesis
    unfolding resolved_as_def by (blast intro: graph_step_trans)
qed

lemma resolved_as_twice:
  assumes "resolved_as t s s1" "resolved_as t s1 s2"
  shows "resolved_as t s s2"
proof -
  from assms obtain v w where
    v: "graph_step (s\<lparr> quantized_value_map := (quantized_value_map s)(t \<mapsto> v) \<rparr>) s1" and
    w: "graph_step (s1\<lparr> quantized_value_map := (quantized_value_map s1)(t \<mapsto> w) \<rparr>) s2"
    by (auto simp: resolved_as_def)
  have q: "quantized_value_map s1 = (quantized_value_map s)(t \<mapsto> v)"
    using graph_step_fields(2) [OF v] by simp
  from graph_step_cong(1) [OF v, of "(quantized_value_map s)(t \<mapsto> w)"]
  have "graph_step (s\<lparr> quantized_value_map := (quantized_value_map s)(t \<mapsto> w) \<rparr>)
          (s1\<lparr> quantized_value_map := (quantized_value_map s1)(t \<mapsto> w) \<rparr>)"
    by (simp add: q)
  with w show ?thesis
    unfolding resolved_as_def by (blast intro: graph_step_trans)
qed

lemma resolved_as_fields:
  assumes "resolved_as t s s'"
  shows "tensors_to_quantize s' = tensors_to_quantize s"
    "\<exists>v. quantized_value_map s' = (quantized_value_map s)(t \<mapsto> v)"
    "nodes_to_remove s' = nodes_to_remove s"
    "bias_to_quantize s' = bias_to_quantize s"
    "tensor_to_its_receiving_nodes s' = tensor_to_its_receiving_nodes s"
    "quantization_params s' = quantization_params s"
    "dedicated_qdq_pair s' = dedicated_qdq_pair s"
    "quantize_bias s' = quantize_bias s"
    "add_qdq_pair_to_weight s' = add_qdq_pair_to_weight s"
    "qdq_op_domain s' = qdq_op_domain s"
    "nodes_kept (model s) (model s')"
proof -
  from assms obtain v where
    v: "graph_step (s\<lparr> quantized_value_map := (quantized_value_map s)(t \<mapsto> v) \<rparr>) s'"
    by (auto simp: resolved_as_def)
  note f = graph_step_fields [OF v]
  show "tensors_to_quantize s' = tensors_to_quantize s" using f(1) by simp
  show "\<exists>v. quantized_value_map s' = (quantized_value_map s)(t \<mapsto> v)" using f(2) by auto
  show "nodes_to_remove s' = nodes_to_remove s" using f(3) by simp
  show "bias_to_quantize s' = bias_to_quantize s" using f(4) by simp
  show "tensor_to_its_receiving_nodes s' = tensor_to_its_receiving_nodes s" using f(5) by simp
  show "quantization_params s' = quantization_params s" using f(6) by simp
  show "dedicated_qdq_pair s' = dedicated_qdq_pair s" using f(7) by simp
  show "quantize_bias s' = quantize_bias s" using f(8) by simp
  show "add_qdq_pair_to_weight s' = add_qdq_pair_to_weight s" using f(9) by simp
  show "qdq_op_domain s' = qdq_op_domain s" using f(10) by simp
  show "nodes_kept (model s) (model s')" using f(11) by simp
qed

subsection \<open>The rewriter's functions as steps\<close>

lemma round_step:
  "(i = 0 \<longrightarrow> resolved_as t s (dedicated_pair_round E t sc zp dt recv i s)) \<and>
   (i \<noteq> 0 \<longrightarrow> graph_step s (dedicated_pair_round E t sc zp dt recv i s))"
proof (cases "i = 0")
  case True
  then show ?thesis
    unfolding dedicated_pair_round_def Let_def
    by (simp only: if_True simp_thms) (intro resolved_asI graph_step_intros)
next
  case False
  then show ?thesis
    unfolding dedicated_pair_round_def Let_def
    by (simp only: if_False simp_thms) (intro graph_step_intros)
qed

lemma fold_round_step:
  "(0 \<in> set js \<longrightarrow> resolved_as t s (fold (dedicated_pair_round E t sc zp dt recv) js s)) \<and>
   (0 \<notin> set js \<longrightarrow> graph_step s (fold (dedicated_pair_round E t sc zp dt recv) js s))"
proof (induction js arbitrary: s)
  case Nil
  then show ?case by simp
next
  case (Cons j js)
  let ?s1 = "dedicated_pair_round E t sc zp dt recv j s"
  note r = round_step [of j t s E sc zp dt recv]
  note ih = Cons.IH [of ?s1]
  show ?case
  proof (cases "j = 0")
    case True
    with r have a: "resolved_as t s ?s1" by simp
    show ?thesis
    proof (cases "0 \<in> set js")
      case True
      with ih a show ?thesis by (auto intro: resolved_as_twice)
    next
      case False
      with ih a \<open>j = 0\<close> show ?thesis by (auto intro: resolved_as_then_step)
    qed
  next
    case False
    with r have a: "graph_step s ?s1" by simp
    with ih False show ?thesis
      by (auto intro: step_then_resolved_as graph_step_trans)
  qed
qed

lemma add_qdq_pair_for_activation_step:
  "resolved_as t s (add_qdq_pair_for_activation E s t sc zp dt)"
proof (cases "dedicated_qdq_pair s \<and> tensor_to_its_receiving_nodes s t \<noteq> None
               \<and> length (receiving_nodes s t) > 1")
  case True
  then have "0 < length (receiving_nodes s t)" by auto
  then have "0 \<in> set [0 ..< length (receiving_nodes s t)]" by simp
  with True fold_round_step [of "[0 ..< length (receiving_nodes s t)]" t s E sc zp dt "receiving_nodes s t"]
  show ?thesis
    by (simp add: add_qdq_pair_for_activation_def)
next
  case False
  then have "add_qdq_pair_for_activation E s t sc zp dt =
      (let graph_out = is_graph_output (model s) t;
                q_input = (if graph_out then add_quant_input_suffix E t else t);
                dq_output = (if graph_out then t else add_dequant_output_suffix E t);
                self1 = (if graph_out
                         then s\<lparr> model := replace_output_of_all_nodes (model s) t q_input \<rparr>
                         else s\<lparr> model := replace_input_of_all_nodes (model s) t dq_output \<rparr>);
                self2 = create_qdq_nodes self1 q_input (add_quant_output_suffix E t)
                          (add_quant_suffix E t) (add_quant_output_suffix E t)
                          dq_output (add_dequant_suffix E t) sc zp None
            in self2\<lparr> quantized_value_map := (quantized_value_map self2)
                 (t \<mapsto> QDQTensorQuantizedValue_init
                    (QuantizedValue_init t dq_output sc zp Input None None None dt)
                    None None) \<rparr>)"
    unfolding add_qdq_pair_for_activation_def by (simp only: if_False)
  then show ?thesis
    unfolding Let_def
    by (simp only:) (intro resolved_asI graph_step_intros)
qed


lemma converted_activation_cases:
  "case add_qdq_ops_for_converted_activation E s t fs fz sdt cs cz crn of
     Inl (e, s') \<Rightarrow> s' = s
   | Inr s' \<Rightarrow> resolved_as t s s'"
proof (cases "tensor_to_its_receiving_nodes s t")
  case None
  then show ?thesis by (simp add: add_qdq_ops_for_converted_activation_def)
next
  case (Some recv)
  show ?thesis
  proof (cases "dedicated_qdq_pair s \<and> length recv > 1")
    case True
    then have eq: "(dedicated_qdq_pair s \<and> length recv > 1) = True" by simp
    show ?thesis
      unfolding add_qdq_ops_for_converted_activation_def
      by (simp only: Some option.case eq if_True sum.case prod.case)
  next
    case False
    then have eq: "(dedicated_qdq_pair s \<and> length recv > 1) = False" by simp
    show ?thesis
      unfolding add_qdq_ops_for_converted_activation_def Let_def
      by (simp only: Some option.case eq if_False sum.case) (intro resolved_asI graph_step_intros)
  qed
qed

lemma converted_activation_Inl:
  "add_qdq_ops_for_converted_activation E s t fs fz sdt cs cz crn = Inl (e, s') \<Longrightarrow> s' = s"
  using converted_activation_cases [where E = E and s = s and t = t and fs = fs and fz = fz
      and sdt = sdt and cs = cs and cz = cz and crn = crn] by simp

lemma converted_activation_step:
  "add_qdq_ops_for_converted_activation E s t fs fz sdt cs cz crn = Inr s' \<Longrightarrow> resolved_as t s s'"
  using converted_activation_cases [where E = E and s = s and t = t and fs = fs and fz = fz
      and sdt = sdt and cs = cs and cz = cz and crn = crn] by simp

lemma make_initializers_cases:
  "case make_initializers s n p sfx of
     Inl (e, s') \<Rightarrow> graph_step s s'
   | Inr (qi, s') \<Rightarrow> graph_step s s'"
proof (cases "scale_dtype p")
  case None
  then show ?thesis by (simp add: make_initializers_def)
next
  case (Some dt)
  then show ?thesis
    unfolding make_initializers_def Let_def
    by (cases dt) (auto simp: graph_step_def nodes_kept_def)
qed

lemma make_initializers_step:
  "make_initializers s n p sfx = Inl (e, s') \<Longrightarrow> graph_step s s'"
  "make_initializers s n p sfx = Inr (qi, s') \<Longrightarrow> graph_step s s'"
  using make_initializers_cases [of s n p sfx] by simp_all

lemma create_quantization_initializers_step:
  "create_quantization_initializers s n = Inl (e, s') \<Longrightarrow> graph_step s s'"
  "create_quantization_initializers s n = Inr (r, s') \<Longrightarrow> graph_step s s'"
  by (auto simp: create_quantization_initializers_def split: option.splits sum.splits
      intro: graph_step_intros make_initializers_step)
     (blast intro: graph_step_trans make_initializers_step)+

lemma converted_activation_returns:
  assumes "tensor_to_its_receiving_nodes s t = Some recv" "\<not> (dedicated_qdq_pair s \<and> length recv > 1)"
  shows "\<exists>s'. add_qdq_ops_for_converted_activation E s t fs fz sdt cs cz crn = Inr s'"
proof -
  from assms(2) have eq: "(dedicated_qdq_pair s \<and> length recv > 1) = False" by simp
  show ?thesis
    unfolding add_qdq_ops_for_converted_activation_def Let_def
    by (simp only: assms(1) option.case eq if_False) (rule exI, rule refl)
qed

section \<open>The pass over tensors that share parameters\<close>

lemma sharing_body_Inr:
  assumes "quantize_sharing_param_tensor E t p pv s = Inr s'"
  shows "resolved_as t (s\<lparr> tensors_to_quantize := AList.delete t (tensors_to_quantize s) \<rparr>) s'"
proof -
  let ?s1 = "s\<lparr> tensors_to_quantize := AList.delete t (tensors_to_quantize s) \<rparr>"
  from assms have d: "del_tensor_to_quantize s t = Inr ?s1"
    by (auto simp: quantize_sharing_param_tensor_def del_tensor_to_quantize_def split: if_splits)
  from assms d obtain qp where qp: "quantization_params ?s1 = Some qp"
    and ni: "\<not> is_input_a_initializer ?s1 t"
    by (auto simp: quantize_sharing_param_tensor_def Let_def split: if_splits option.splits)
  show ?thesis
  proof (cases "case qp t of None \<Rightarrow> None | Some tensor_params \<Rightarrow> p_converted tensor_params")
    case None
    with assms d qp ni have "s' = add_qdq_pair_for_activation E ?s1 t
        (scale_name (get_for_consumer pv (node_name p))) (zp_name (get_for_consumer pv (node_name p))) None"
      by (simp add: quantize_sharing_param_tensor_def Let_def)
    then show ?thesis by (simp only: add_qdq_pair_for_activation_step)
  next
    case (Some conv)
    show ?thesis
    proof (cases "make_initializers ?s1 t conv ''_convert''")
      case (Inl a)
      with assms d qp ni Some show ?thesis
        by (simp add: quantize_sharing_param_tensor_def Let_def)
    next
      case (Inr b)
      obtain qi s2 where b: "b = (qi, s2)" by (cases b)
      with Inr have g: "graph_step ?s1 s2" using make_initializers_step(2) by blast
      from assms d qp ni Some Inr b have "\<exists>a1 a2 a3 a4 a5 a6.
          add_qdq_ops_for_converted_activation E s2 t a1 a2 a3 a4 a5 a6 = Inr s'"
        by (simp add: quantize_sharing_param_tensor_def Let_def) blast
      then have "resolved_as t s2 s'" using converted_activation_step by blast
      with g show ?thesis by (rule step_then_resolved_as)
    qed
  qed
qed

lemma sharing_body_Inl:
  assumes "quantize_sharing_param_tensor E t p pv s = Inl (e, s')"
  shows "s' = s \<or> graph_step (s\<lparr> tensors_to_quantize := AList.delete t (tensors_to_quantize s) \<rparr>) s'"
proof (cases "map_of (tensors_to_quantize s) t = None")
  case True
  with assms show ?thesis
    by (simp add: quantize_sharing_param_tensor_def del_tensor_to_quantize_def)
next
  case False
  let ?s1 = "s\<lparr> tensors_to_quantize := AList.delete t (tensors_to_quantize s) \<rparr>"
  from False have d: "del_tensor_to_quantize s t = Inr ?s1"
    by (simp add: del_tensor_to_quantize_def)
  show ?thesis
  proof (cases "is_input_a_initializer ?s1 t")
    case True
    with assms d show ?thesis by (simp add: quantize_sharing_param_tensor_def Let_def)
  next
    case ni: False
    show ?thesis
    proof (cases "quantization_params ?s1")
      case None
      with assms d ni show ?thesis by (simp add: quantize_sharing_param_tensor_def Let_def)
    next
      case (Some qp)
      show ?thesis
      proof (cases "case qp t of None \<Rightarrow> None | Some tensor_params \<Rightarrow> p_converted tensor_params")
        case None
        with assms d ni Some show ?thesis by (simp add: quantize_sharing_param_tensor_def Let_def)
      next
        case conv: (Some conv)
        show ?thesis
        proof (cases "make_initializers ?s1 t conv ''_convert''")
          case (Inl a)
          obtain e1 s2 where a: "a = (e1, s2)" by (cases a)
          with Inl have "graph_step ?s1 s2" using make_initializers_step(1) by blast
          moreover from assms d ni Some conv Inl a have "s' = s2"
            by (simp add: quantize_sharing_param_tensor_def Let_def)
          ultimately show ?thesis by simp
        next
          case (Inr b)
          obtain qi s2 where b: "b = (qi, s2)" by (cases b)
          with Inr have g: "graph_step ?s1 s2" using make_initializers_step(2) by blast
          from assms d ni Some conv Inr b have "\<exists>a1 a2 a3 a4 a5 a6.
              add_qdq_ops_for_converted_activation E s2 t a1 a2 a3 a4 a5 a6 = Inl (e, s')"
            by (simp add: quantize_sharing_param_tensor_def Let_def) blast
          then have "s' = s2" using converted_activation_Inl by blast
          with g show ?thesis by simp
        qed
      qed
    qed
  qed
qed

lemma sharing_body_effect:
  assumes "quantize_sharing_param_tensor E t p pv s = Inr s'"
  shows "tensors_to_quantize s' = filter (\<lambda>kv. fst kv \<noteq> t) (tensors_to_quantize s)"
    "dom (quantized_value_map s') = insert t (dom (quantized_value_map s))"
proof -
  note r = resolved_as_fields [OF sharing_body_Inr [OF assms]]
  have "AList.delete t (tensors_to_quantize s) = filter (\<lambda>kv. fst kv \<noteq> t) (tensors_to_quantize s)"
    by (auto simp: AList.delete_eq intro: filter_cong)
  with r(1) show "tensors_to_quantize s' = filter (\<lambda>kv. fst kv \<noteq> t) (tensors_to_quantize s)"
    by simp
  from r(2) show "dom (quantized_value_map s') = insert t (dom (quantized_value_map s))"
    by auto
qed

lemma sharing_scan_effect:
  assumes "sharing_scan E xs s = Inr s'"
  shows "\<exists>R. R \<subseteq> fst ` set xs \<and>
              tensors_to_quantize s' = filter (\<lambda>kv. fst kv \<notin> R) (tensors_to_quantize s) \<and>
              dom (quantized_value_map s') = dom (quantized_value_map s) \<union> R"
  using assms
proof (induction xs arbitrary: s)
  case Nil
  then show ?case by (auto intro: exI [of _ "{}"])
next
  case (Cons x xs)
  obtain t info where x: "x = (t, info)" by (cases x)
  show ?case
  proof (cases "case quant_para_provider info of None \<Rightarrow> None
                | Some p \<Rightarrow> quantized_value_map s (input_name p)")
    case None
    with Cons.prems x have "sharing_scan E xs s = Inr s'"
      by (auto split: option.splits)
    from Cons.IH [OF this] show ?thesis by auto
  next
    case (Some pv)
    then obtain p where p: "quant_para_provider info = Some p" "quantized_value_map s (input_name p) = Some pv"
      by (auto split: option.splits)
    with Cons.prems x obtain s1 where b: "quantize_sharing_param_tensor E t p pv s = Inr s1"
      and rest: "sharing_scan E xs s1 = Inr s'"
      by (auto split: sum.splits)
    from Cons.IH [OF rest] obtain R where R: "R \<subseteq> fst ` set xs"
      "tensors_to_quantize s' = filter (\<lambda>kv. fst kv \<notin> R) (tensors_to_quantize s1)"
      "dom (quantized_value_map s') = dom (quantized_value_map s1) \<union> R"
      by blast
    note e = sharing_body_effect [OF b]
    have "tensors_to_quantize s' = filter (\<lambda>kv. fst kv \<notin> insert t R) (tensors_to_quantize s)"
      using R(2) e(1) by (auto intro: filter_cong)
    moreover have "dom (quantized_value_map s') = dom (quantized_value_map s) \<union> insert t R"
      using R(3) e(2) by auto
    moreover have "insert t R \<subseteq> fst ` set (x # xs)"
      using R(1) x by auto
    ultimately show ?thesis by blast
  qed
qed

lemma sharing_scan_removes:
  assumes "sharing_scan E xs s = Inr s'" "(t, info) \<in> set xs" "quant_para_provider info = Some p"
    "quantized_value_map s (input_name p) \<noteq> None"
  shows "t \<notin> fst ` set (tensors_to_quantize s')"
  using assms
proof (induction xs arbitrary: s)
  case Nil
  then show ?case by simp
next
  case (Cons x xs)
  obtain t1 info1 where x: "x = (t1, info1)" by (cases x)
  show ?case
  proof (cases "case quant_para_provider info1 of None \<Rightarrow> None
                | Some p \<Rightarrow> quantized_value_map s (input_name p)")
    case None
    with Cons.prems x have rest: "sharing_scan E xs s = Inr s'"
      by (auto split: option.splits)
    from None Cons.prems x have "(t, info) \<in> set xs"
      by (auto split: option.splits)
    from Cons.IH [OF rest this Cons.prems(3,4)] show ?thesis .
  next
    case (Some pv)
    then obtain p1 where p1: "quant_para_provider info1 = Some p1"
      "quantized_value_map s (input_name p1) = Some pv"
      by (auto split: option.splits)
    with Cons.prems x obtain s1 where b: "quantize_sharing_param_tensor E t1 p1 pv s = Inr s1"
      and rest: "sharing_scan E xs s1 = Inr s'"
      by (auto split: sum.splits)
    note e = sharing_body_effect [OF b]
    from sharing_scan_effect [OF rest] obtain R where
      R: "tensors_to_quantize s' = filter (\<lambda>kv. fst kv \<notin> R) (tensors_to_quantize s1)"
      by blast
    show ?thesis
    proof (cases "t = t1")
      case True
      with R e(1) show ?thesis by auto
    next
      case False
      with Cons.prems(2) x have m: "(t, info) \<in> set xs" by simp
      have "quantized_value_map s1 (input_name p) \<noteq> None"
        using e(2) Cons.prems(4) by (metis domIff insertCI)
      from Cons.IH [OF rest m Cons.prems(3) this] show ?thesis .
    qed
  qed
qed

lemma sharing_scan_blocked:
  assumes "list_all (\<lambda>(t, info). case quant_para_provider info of
                               None \<Rightarrow> True
                             | Some p \<Rightarrow> quantized_value_map s (input_name p) = None) xs"
  shows "sharing_scan E xs s = Inr s"
  using assms by (induction xs) (auto split: option.splits)

lemma ex_min_rank:
  assumes "xs \<noteq> []"
  shows "\<exists>x \<in> set xs. \<forall>y \<in> set xs. (f x :: nat) \<le> f y"
proof -
  have "finite (f ` set xs)" "f ` set xs \<noteq> {}" using assms by auto
  then have "Min (f ` set xs) \<in> f ` set xs" by (rule Min_in)
  then obtain x where x: "x \<in> set xs" "f x = Min (f ` set xs)" by auto
  then have "\<forall>y \<in> set xs. f x \<le> f y" by simp
  with x show ?thesis by blast
qed

lemma map_of_filter_keys:
  "map_of (filter (\<lambda>kv. fst kv \<notin> R) xs) k = (if k \<in> R then None else map_of xs k)"
  by (induction xs) auto

lemma resolvable_scan:
  assumes inv: "providers_resolvable rank s" and ne: "tensors_to_quantize s \<noteq> []"
    and scan: "sharing_scan E (tensors_to_quantize s) s = Inr s'"
  shows "providers_resolvable rank s' \<and> length (tensors_to_quantize s') < length (tensors_to_quantize s)"
proof -
  let ?q = "tensors_to_quantize s"
  from sharing_scan_effect [OF scan] obtain R where
    R: "R \<subseteq> fst ` set ?q"
      "tensors_to_quantize s' = filter (\<lambda>kv. fst kv \<notin> R) ?q"
      "dom (quantized_value_map s') = dom (quantized_value_map s) \<union> R"
    by blast
  from inv have dist: "distinct (map fst ?q)"
    and prov: "\<forall>(t, info) \<in> set ?q.
         case quant_para_provider info of
           None \<Rightarrow> False
         | Some p \<Rightarrow>
             quantized_value_map s (input_name p) \<noteq> None
             \<or> (map_of ?q (input_name p) \<noteq> None \<and> rank (input_name p) < rank t)"
    by (simp_all add: providers_resolvable_def)
  have "distinct (map fst (tensors_to_quantize s'))"
    using dist R(2) by (simp add: distinct_map_filter)
  moreover have "\<forall>(t, info) \<in> set (tensors_to_quantize s').
         case quant_para_provider info of
           None \<Rightarrow> False
         | Some p \<Rightarrow>
             quantized_value_map s' (input_name p) \<noteq> None
             \<or> (map_of (tensors_to_quantize s') (input_name p) \<noteq> None \<and> rank (input_name p) < rank t)"
  proof (clarify)
    fix t info
    assume m: "(t, info) \<in> set (tensors_to_quantize s')"
    then have m0: "(t, info) \<in> set ?q" using R(2) by simp
    with prov obtain p where p: "quant_para_provider info = Some p"
      and c: "quantized_value_map s (input_name p) \<noteq> None
             \<or> (map_of ?q (input_name p) \<noteq> None \<and> rank (input_name p) < rank t)"
      by (cases "quant_para_provider info") auto
    have "quantized_value_map s' (input_name p) \<noteq> None
             \<or> (map_of (tensors_to_quantize s') (input_name p) \<noteq> None \<and> rank (input_name p) < rank t)"
    proof (cases "input_name p \<in> dom (quantized_value_map s) \<union> R")
      case True
      then have "input_name p \<in> dom (quantized_value_map s')" using R(3) by simp
      then show ?thesis by auto
    next
      case False
      with c have "map_of ?q (input_name p) \<noteq> None \<and> rank (input_name p) < rank t" by auto
      with False show ?thesis by (simp add: R(2) map_of_filter_keys)
    qed
    with p show "case quant_para_provider info of
           None \<Rightarrow> False
         | Some p \<Rightarrow>
             quantized_value_map s' (input_name p) \<noteq> None
             \<or> (map_of (tensors_to_quantize s') (input_name p) \<noteq> None \<and> rank (input_name p) < rank t)"
      by simp
  qed
  ultimately have inv': "providers_resolvable rank s'"
    by (simp add: providers_resolvable_def)
  from ex_min_rank [OF ne, of "\<lambda>kv. rank (fst kv)"] obtain t0 info0 where
    m0: "(t0, info0) \<in> set ?q" and least: "\<forall>y \<in> set ?q. rank t0 \<le> rank (fst y)"
    by auto
  from prov m0 obtain p0 where p0: "quant_para_provider info0 = Some p0"
    and c0: "quantized_value_map s (input_name p0) \<noteq> None
             \<or> (map_of ?q (input_name p0) \<noteq> None \<and> rank (input_name p0) < rank t0)"
    by (cases "quant_para_provider info0") auto
  have "quantized_value_map s (input_name p0) \<noteq> None"
  proof (rule ccontr)
    assume "\<not> quantized_value_map s (input_name p0) \<noteq> None"
    with c0 obtain i1 where "map_of ?q (input_name p0) = Some i1" "rank (input_name p0) < rank t0"
      by auto
    then have "(input_name p0, i1) \<in> set ?q" "rank (input_name p0) < rank t0"
      by (auto dest: map_of_SomeD)
    with least show False by fastforce
  qed
  from sharing_scan_removes [OF scan m0 p0 this]
  have "t0 \<notin> fst ` set (tensors_to_quantize s')" .
  then have "t0 \<in> R" using m0 R(2) by force
  then have "length (filter (\<lambda>kv. fst kv \<notin> R) ?q) < length ?q"
    using m0 by (intro length_filter_less [of "(t0, info0)"]) auto
  with inv' R(2) show ?thesis by simp
qed

lemma sharing_loop_terminates:
  assumes "providers_resolvable rank s"
  shows "\<exists>r. quantize_sharing_param_tensors E s = Some r \<and>
             (\<forall>s'. r = Inr s' \<longrightarrow> tensors_to_quantize s' = [])"
  using assms
proof (induction "length (tensors_to_quantize s)" arbitrary: s rule: less_induct)
  case less
  show ?case
  proof (cases "tensors_to_quantize s = []")
    case True
    then show ?thesis
      by (subst quantize_sharing_param_tensors.simps) simp
  next
    case False
    show ?thesis
    proof (cases "sharing_scan E (tensors_to_quantize s) s")
      case (Inl e)
      with False show ?thesis
        by (subst quantize_sharing_param_tensors.simps) simp
    next
      case (Inr s1)
      from resolvable_scan [OF less.prems False Inr]
      have "providers_resolvable rank s1" "length (tensors_to_quantize s1) < length (tensors_to_quantize s)"
        by simp_all
      from less.hyps [OF this(2) this(1)] obtain r where
        "quantize_sharing_param_tensors E s1 = Some r"
        "\<forall>s'. r = Inr s' \<longrightarrow> tensors_to_quantize s' = []"
        by blast
      with False Inr show ?thesis
        by (subst quantize_sharing_param_tensors.simps) simp
    qed
  qed
qed

lemma sharing_loop_blocked_aux:
  "quantize_sharing_param_tensors E s = Some r \<Longrightarrow> \<not> scan_blocked s"
proof (induction rule: quantize_sharing_param_tensors.raw_induct [rotated 1, consumes 1, case_names step])
  case (step loop E s r)
  show ?case
  proof
    assume b: "scan_blocked s"
    then have "sharing_scan E (tensors_to_quantize s) s = Inr s"
      by (simp add: scan_blocked_def sharing_scan_blocked)
    with step(2) b have l: "loop E s = Some r"
      by (simp add: scan_blocked_def)
    have "\<not> scan_blocked s" by (rule step(1) [OF l])
    with b show False by simp
  qed
qed

lemma sharing_loop_blocked:
  assumes "scan_blocked s"
  shows "quantize_sharing_param_tensors E s = None"
proof (cases "quantize_sharing_param_tensors E s")
  case None
  then show ?thesis .
next
  case (Some r)
  from sharing_loop_blocked_aux [OF this] assms show ?thesis by simp
qed

lemma blocked_scan:
  assumes "sharing_scan E xs s = Inr s'"
    and "B \<inter> dom (quantized_value_map s) = {}"
    and "\<forall>(t, info) \<in> set xs.
           t \<in> B \<longrightarrow> (case quant_para_provider info of None \<Rightarrow> True | Some p \<Rightarrow> input_name p \<in> B)"
  shows "\<exists>R. R \<inter> B = {} \<and>
              tensors_to_quantize s' = filter (\<lambda>kv. fst kv \<notin> R) (tensors_to_quantize s) \<and>
              dom (quantized_value_map s') = dom (quantized_value_map s) \<union> R"
  using assms
proof (induction xs arbitrary: s)
  case Nil
  then show ?case by (auto intro: exI [of _ "{}"])
next
  case (Cons x xs)
  obtain t info where x: "x = (t, info)" by (cases x)
  from Cons.prems(3) have tl: "\<forall>(t, info) \<in> set xs.
           t \<in> B \<longrightarrow> (case quant_para_provider info of None \<Rightarrow> True | Some p \<Rightarrow> input_name p \<in> B)"
    by simp
  show ?case
  proof (cases "case quant_para_provider info of None \<Rightarrow> None
                | Some p \<Rightarrow> quantized_value_map s (input_name p)")
    case None
    with Cons.prems(1) x have "sharing_scan E xs s = Inr s'"
      by (auto split: option.splits)
    from Cons.IH [OF this Cons.prems(2) tl] show ?thesis .
  next
    case (Some pv)
    then obtain p where p: "quant_para_provider info = Some p" "quantized_value_map s (input_name p) = Some pv"
      by (auto split: option.splits)
    with Cons.prems(1) x obtain s1 where b: "quantize_sharing_param_tensor E t p pv s = Inr s1"
      and rest: "sharing_scan E xs s1 = Inr s'"
      by (auto split: sum.splits)
    note e = sharing_body_effect [OF b]
    from p(2) Cons.prems(2) have "input_name p \<notin> B" by auto
    with Cons.prems(3) x p(1) have t: "t \<notin> B" by auto
    with e(2) Cons.prems(2) have "B \<inter> dom (quantized_value_map s1) = {}" by auto
    from Cons.IH [OF rest this tl] obtain R where R: "R \<inter> B = {}"
      "tensors_to_quantize s' = filter (\<lambda>kv. fst kv \<notin> R) (tensors_to_quantize s1)"
      "dom (quantized_value_map s') = dom (quantized_value_map s1) \<union> R"
      by blast
    have "tensors_to_quantize s' = filter (\<lambda>kv. fst kv \<notin> insert t R) (tensors_to_quantize s)"
      using R(2) e(1) by (auto intro: filter_cong)
    moreover have "dom (quantized_value_map s') = dom (quantized_value_map s) \<union> insert t R"
      using R(3) e(2) by auto
    moreover have "insert t R \<inter> B = {}"
      using R(1) t by auto
    ultimately show ?thesis by blast
  qed
qed

lemma blocked_set_scan:
  assumes "blocked_set B s" "sharing_scan E (tensors_to_quantize s) s = Inr s'"
  shows "blocked_set B s'"
proof -
  from assms(1) have d: "B \<inter> dom (quantized_value_map s) = {}"
    and w: "B \<inter> fst ` set (tensors_to_quantize s) \<noteq> {}"
    and c: "\<forall>(t, info) \<in> set (tensors_to_quantize s).
           t \<in> B \<longrightarrow> (case quant_para_provider info of None \<Rightarrow> True | Some p \<Rightarrow> input_name p \<in> B)"
    by (simp_all add: blocked_set_def)
  from blocked_scan [OF assms(2) d c] obtain R where R: "R \<inter> B = {}"
    "tensors_to_quantize s' = filter (\<lambda>kv. fst kv \<notin> R) (tensors_to_quantize s)"
    "dom (quantized_value_map s') = dom (quantized_value_map s) \<union> R"
    by blast
  from d R(1,3) have "B \<inter> dom (quantized_value_map s') = {}" by auto
  moreover from w obtain kv where "kv \<in> set (tensors_to_quantize s)" "fst kv \<in> B" by auto
  with R(1) have "kv \<in> set (tensors_to_quantize s')" "fst kv \<in> B"
    by (auto simp: R(2))
  then have "B \<inter> fst ` set (tensors_to_quantize s') \<noteq> {}" by auto
  moreover from c have "\<forall>(t, info) \<in> set (tensors_to_quantize s').
           t \<in> B \<longrightarrow> (case quant_para_provider info of None \<Rightarrow> True | Some p \<Rightarrow> input_name p \<in> B)"
    by (auto simp: R(2))
  ultimately show ?thesis by (simp add: blocked_set_def)
qed

lemma sharing_loop_blocked_set_aux:
  "quantize_sharing_param_tensors E s = Some r \<Longrightarrow> blocked_set B s \<Longrightarrow> \<exists>e. r = Inl e"
proof (induction rule: quantize_sharing_param_tensors.raw_induct [rotated 1, consumes 1, case_names step])
  case (step loop E s r)
  from step(3) have ne: "tensors_to_quantize s \<noteq> []"
    by (auto simp: blocked_set_def)
  show ?case
  proof (cases "sharing_scan E (tensors_to_quantize s) s")
    case (Inl e)
    with step(2) ne show ?thesis by auto
  next
    case (Inr s1)
    with step(2) ne have l: "loop E s1 = Some r" by simp
    from blocked_set_scan [OF step(3) Inr] have "blocked_set B s1" .
    from step(1) [OF l this] show ?thesis .
  qed
qed

lemma sharing_loop_blocked_set:
  assumes "blocked_set B s"
  shows "quantize_sharing_param_tensors E s \<noteq> Some (Inr s')"
  using sharing_loop_blocked_set_aux [OF _ assms] by fastforce

lemma cyclic_scan_blocked: "scan_blocked cyclic_quantizer"
  by (simp add: scan_blocked_def cyclic_quantizer_def sample_quantizer_def shared_info_def)

section \<open>Consumer-aware resolution of a quantized value\<close>

text \<open>
  C2. For every record and every consumer node name, \<open>get_for_consumer\<close> returns the
  original value when \<open>converted\<close> is absent; when \<open>converted\<close> is present and
  \<open>converted_recv_nodes\<close> is absent it returns the converted value for every consumer;
  otherwise it returns the converted value exactly when the consumer is in the set, and
  the original value otherwise.
\<close>

theorem get_for_consumer_cases:
  "(converted v = None \<longrightarrow> get_for_consumer v c = original v) \<and>
   (converted v = Some cv \<and> converted_recv_nodes v = None \<longrightarrow> get_for_consumer v c = cv) \<and>
   (converted v = Some cv \<and> converted_recv_nodes v = Some R \<longrightarrow>
      get_for_consumer v c = (if c \<in> R then cv else original v))"
  by (simp add: get_for_consumer_def)

theorem get_for_consumer_cases_witness:
  "get_for_consumer (QDQTensorQuantizedValue_init sample_original None None) ''N1'' = sample_original \<and>
   get_for_consumer (QDQTensorQuantizedValue_init sample_original (Some sample_converted) None) ''N1''
     = sample_converted \<and>
   get_for_consumer (QDQTensorQuantizedValue_init sample_original (Some sample_converted) (Some {''N1''})) ''N1''
     = sample_converted \<and>
   get_for_consumer (QDQTensorQuantizedValue_init sample_original (Some sample_converted) (Some {''N1''})) ''N2''
     = sample_original"
  using get_for_consumer_cases [where v = "QDQTensorQuantizedValue_init sample_original None None"
       and c = "''N1''"]
    get_for_consumer_cases [where v = "QDQTensorQuantizedValue_init sample_original (Some sample_converted) None"
       and c = "''N1''" and cv = sample_converted]
    get_for_consumer_cases [where v = "QDQTensorQuantizedValue_init sample_original (Some sample_converted) (Some {''N1''})"
       and c = "''N1''" and cv = sample_converted and R = "{''N1''}"]
    get_for_consumer_cases [where v = "QDQTensorQuantizedValue_init sample_original (Some sample_converted) (Some {''N1''})"
       and c = "''N2''" and cv = sample_converted and R = "{''N1''}"]
  by (simp add: QDQTensorQuantizedValue_init_def)
text \<open>
  C7. For a tensor that is registered and not yet resolved (it has an entry in
  \<open>tensors_to_quantize\<close>; a registered tensor has a 32- or 16-bit float type, which is
  what registration demands): registering it again with a sharing provider replaces the
  stored information by the new provider's, in place; registering it again without a
  provider returns without an error and leaves the dictionary as it was.
\<close>

theorem reregistration_latest_provider_wins:
  assumes "map_of (tensors_to_quantize s) t = Some old"
  shows "(get_tensor_type s t = Some d \<and> d \<in> float_types \<longrightarrow>
            quantize_tensor s t (Some p) tt =
              Inr (s\<lparr> tensors_to_quantize :=
                        AList.update t \<lparr> tensor_type = tt, quant_para_provider = Some p, axis = None,
                                         is_shared = True, data_type = d \<rparr> (tensors_to_quantize s) \<rparr>) \<and>
            quantize_output_same_as_input s t inp node =
              Inr (s\<lparr> tensors_to_quantize :=
                        AList.update t
                          \<lparr> tensor_type = ACTIVATION,
                            quant_para_provider = Some \<lparr> input_name = inp, node_name = node \<rparr>,
                            axis = None, is_shared = True, data_type = d \<rparr> (tensors_to_quantize s) \<rparr>)) \<and>
         (\<exists>s'. quantize_tensor s t None tt = Inr s' \<and> tensors_to_quantize s' = tensors_to_quantize s)"
proof (intro conjI impI)
  assume h: "get_tensor_type s t = Some d \<and> d \<in> float_types"
  then show "quantize_tensor s t (Some p) tt =
              Inr (s\<lparr> tensors_to_quantize :=
                        AList.update t \<lparr> tensor_type = tt, quant_para_provider = Some p, axis = None,
                                         is_shared = True, data_type = d \<rparr> (tensors_to_quantize s) \<rparr>)"
    by (simp add: quantize_tensor_quantizable)
  from h show "quantize_output_same_as_input s t inp node =
              Inr (s\<lparr> tensors_to_quantize :=
                        AList.update t
                          \<lparr> tensor_type = ACTIVATION,
                            quant_para_provider = Some \<lparr> input_name = inp, node_name = node \<rparr>,
                            axis = None, is_shared = True, data_type = d \<rparr> (tensors_to_quantize s) \<rparr>)"
    by (simp add: quantize_output_same_as_input_def quantize_tensor_quantizable)
next
  show "\<exists>s'. quantize_tensor s t None tt = Inr s' \<and> tensors_to_quantize s' = tensors_to_quantize s"
  proof (cases "get_tensor_type s t \<in> Some ` float_types")
    case True
    then obtain d' where "get_tensor_type s t = Some d'" "d' \<in> float_types" by auto
    with assms show ?thesis
      by (simp add: quantize_tensor_quantizable)
  next
    case False
    then show ?thesis
      by (simp add: quantize_tensor_unquantizable)
  qed
qed

theorem reregistration_latest_provider_wins_witness:
  "map_of (tensors_to_quantize (sample_quantizer\<lparr> tensors_to_quantize := [(''Y'', activation_info)] \<rparr>)) ''Y''
     = Some activation_info \<and>
   get_tensor_type (sample_quantizer\<lparr> tensors_to_quantize := [(''Y'', activation_info)] \<rparr>) ''Y'' = Some FLOAT \<and>
   FLOAT \<in> float_types \<and>
   quantize_output_same_as_input (sample_quantizer\<lparr> tensors_to_quantize := [(''Y'', activation_info)] \<rparr>)
       ''Y'' ''X'' ''conv''
     = Inr (sample_quantizer\<lparr> tensors_to_quantize := [(''Y'', shared_info ''X'' ''conv'')] \<rparr>) \<and>
   (\<exists>s'. quantize_tensor (sample_quantizer\<lparr> tensors_to_quantize := [(''Y'', activation_info)] \<rparr>)
            ''Y'' None WEIGHT = Inr s' \<and>
          tensors_to_quantize s' = [(''Y'', activation_info)])"
  using reregistration_latest_provider_wins
    [where s = "sample_quantizer\<lparr> tensors_to_quantize := [(''Y'', activation_info)] \<rparr>"
       and t = "''Y''" and old = activation_info and d = FLOAT and inp = "''X''" and node = "''conv''"
       and tt = WEIGHT]
  by (simp add: sample_Y_type float_types_def shared_info_def)

text \<open>
  C8 (as amended). For every tensor whose element type is not a 32- or 16-bit float
  (tensors whose type cannot be found included), registering it returns without an error
  and changes nothing but the log: no entry is added. The warning is written exactly when
  the tensor is neither an initializer nor has a value info. It is one of three
  conditions that are reported and skipped: per-channel registration of a tensor that is
  not an initializer, and bias registration of a tensor that is not an initializer, are
  the other two.
\<close>

theorem unquantizable_tensor_skipped:
  "(get_tensor_type s t \<notin> Some ` float_types \<longrightarrow>
      quantize_tensor s t p tt =
        Inr (if find_by_name t (graph_initializer (model s)) = None \<and> value_infos s t = None
             then s\<lparr> logging := logging s @ [(WARNING, FailedToInferType t)] \<rparr> else s)) \<and>
   (find_by_name t (graph_initializer (model s)) = None \<longrightarrow>
      quantize_weight_tensor_per_channel s t ax =
        Inr (s\<lparr> logging := logging s @ [(WARNING, OnlyPerChannelOnWeight t)] \<rparr>)) \<and>
   (\<not> has_overrides s t \<and> find_by_name t (graph_initializer (model s)) = None \<longrightarrow>
      quantize_bias_tensor s node t inp w beta =
        Inr (s\<lparr> logging := logging s @ [(WARNING, ExpectedWeight t)] \<rparr>))"
  by (simp add: quantize_tensor_unquantizable quantize_weight_tensor_per_channel_def
      quantize_bias_tensor_def)

theorem unquantizable_tensor_skipped_witness:
  "get_tensor_type sample_quantizer ''K'' \<notin> Some ` float_types \<and>
   quantize_tensor sample_quantizer ''K'' None ACTIVATION = Inr sample_quantizer \<and>
   get_tensor_type sample_quantizer ''missing'' \<notin> Some ` float_types \<and>
   quantize_tensor sample_quantizer ''missing'' None ACTIVATION =
     Inr (sample_quantizer\<lparr> logging := [(WARNING, FailedToInferType ''missing'')] \<rparr>) \<and>
   find_by_name ''Y'' (graph_initializer (model sample_quantizer)) = None \<and>
   quantize_weight_tensor_per_channel sample_quantizer ''Y'' 0 =
     Inr (sample_quantizer\<lparr> logging := [(WARNING, OnlyPerChannelOnWeight ''Y'')] \<rparr>) \<and>
   \<not> has_overrides sample_quantizer ''Y'' \<and>
   quantize_bias_tensor sample_quantizer ''conv'' ''Y'' ''X'' ''W'' 1 =
     Inr (sample_quantizer\<lparr> logging := [(WARNING, ExpectedWeight ''Y'')] \<rparr>)"
  using unquantizable_tensor_skipped
      [where s = sample_quantizer and t = "''K''" and p = None and tt = ACTIVATION]
    unquantizable_tensor_skipped
      [where s = sample_quantizer and t = "''missing''" and p = None and tt = ACTIVATION]
    unquantizable_tensor_skipped
      [where s = sample_quantizer and t = "''Y''" and ax = 0 and node = "''conv''" and inp = "''X''"
         and w = "''W''" and beta = 1]
  by (simp add: get_tensor_type_def sample_quantizer_def sample_graph_def find_by_name_def
      float_types_def has_overrides_def)

text \<open>
  The claim as it was stated fails on two counts. The float tensor \<open>Y\<close> is skipped with
  a warning of its own when it is registered per channel, so the type failure is not the
  only recoverable condition; and \<open>U\<close>, whose value info carries no tensor type, is
  skipped without any diagnostic.
\<close>

theorem only_recoverable_condition_counterexample:
  "get_tensor_type sample_quantizer ''Y'' = Some FLOAT \<and>
   quantize_weight_tensor_per_channel sample_quantizer ''Y'' 0 =
     Inr (sample_quantizer\<lparr> logging := [(WARNING, OnlyPerChannelOnWeight ''Y'')] \<rparr>) \<and>
   get_tensor_type sample_quantizer ''U'' = None \<and>
   quantize_activation_tensor sample_quantizer ''U'' = Inr sample_quantizer"
  by (simp add: get_tensor_type_def sample_quantizer_def sample_graph_def find_by_name_def
      float_types_def quantize_weight_tensor_per_channel_def quantize_activation_tensor_def
      quantize_tensor_def is_tensor_quantizable_def)

text \<open>
  C10. For a bias tensor with user-supplied overrides, \<open>quantize_bias_tensor\<close> queues no
  entry in \<open>bias_to_quantize\<close>, so the bias pass never derives a scale for it; the call is
  the weight registration (per channel on axis 0 when per-channel mode is on, scalar
  otherwise). For a bias that is a float initializer this leaves it registered as a
  weight: with axis 0 in per-channel mode; with no axis when it is registered for the
  first time in scalar mode; an existing entry is kept in scalar mode.
\<close>

theorem bias_with_overrides_registered_as_weight:
  assumes "has_overrides s b"
  shows "\<exists>s'. quantize_bias_tensor s n b i w beta = Inr s' \<and>
           bias_to_quantize s' = bias_to_quantize s \<and>
           quantize_bias_tensor s n b i w beta =
             (if per_channel s
              then quantize_weight_tensor_per_channel (s\<lparr> logging := logging s @ [(INFO, BiasAsWeight b)] \<rparr>) b 0
              else quantize_weight_tensor (s\<lparr> logging := logging s @ [(INFO, BiasAsWeight b)] \<rparr>) b) \<and>
           (\<forall>wt. find_by_name b (graph_initializer (model s)) = Some wt \<and> tp_data_type wt \<in> float_types \<longrightarrow>
              (per_channel s \<longrightarrow>
                 map_of (tensors_to_quantize s') b =
                   Some \<lparr> tensor_type = WEIGHT, quant_para_provider = None, axis = Some 0,
                          is_shared = False, data_type = tp_data_type wt \<rparr>) \<and>
              (\<not> per_channel s \<and> map_of (tensors_to_quantize s) b = None \<longrightarrow>
                 map_of (tensors_to_quantize s') b =
                   Some \<lparr> tensor_type = WEIGHT, quant_para_provider = None, axis = None,
                          is_shared = False, data_type = tp_data_type wt \<rparr>) \<and>
              (\<not> per_channel s \<and> map_of (tensors_to_quantize s) b \<noteq> None \<longrightarrow>
                 tensors_to_quantize s' = tensors_to_quantize s))"
proof -
  define s1 where "s1 = s\<lparr> logging := logging s @ [(INFO, BiasAsWeight b)] \<rparr>"
  have eq: "quantize_bias_tensor s n b i w beta =
      (if per_channel s then quantize_weight_tensor_per_channel s1 b 0 else quantize_weight_tensor s1 b)"
    using assms by (simp add: quantize_bias_tensor_def s1_def Let_def)
  show ?thesis
  proof (cases "per_channel s")
    case True
    obtain s' where r: "quantize_weight_tensor_per_channel s1 b 0 = Inr s'"
      and b: "bias_to_quantize s' = bias_to_quantize s1"
      using quantize_weight_tensor_per_channel_total [of s1 b 0] by blast
    have "\<forall>wt. find_by_name b (graph_initializer (model s)) = Some wt \<and> tp_data_type wt \<in> float_types \<longrightarrow>
            map_of (tensors_to_quantize s') b =
               Some \<lparr> tensor_type = WEIGHT, quant_para_provider = None, axis = Some 0,
                      is_shared = False, data_type = tp_data_type wt \<rparr>"
      using r by (auto simp: quantize_weight_tensor_per_channel_def QDQTensorQuantInfo_init_def s1_def
          update_conv')
    with True eq r b show ?thesis by (simp add: s1_def)
  next
    case False
    obtain s' where r: "quantize_tensor s1 b None WEIGHT = Inr s'"
      and b: "bias_to_quantize s' = bias_to_quantize s1"
      using quantize_tensor_total [of s1 b None WEIGHT] by blast
    have "\<forall>wt. find_by_name b (graph_initializer (model s)) = Some wt \<and> tp_data_type wt \<in> float_types \<longrightarrow>
            (map_of (tensors_to_quantize s) b = None \<longrightarrow>
               map_of (tensors_to_quantize s') b =
                 Some \<lparr> tensor_type = WEIGHT, quant_para_provider = None, axis = None,
                        is_shared = False, data_type = tp_data_type wt \<rparr>) \<and>
            (map_of (tensors_to_quantize s) b \<noteq> None \<longrightarrow> tensors_to_quantize s' = tensors_to_quantize s)"
    proof (intro allI impI)
      fix wt
      assume h: "find_by_name b (graph_initializer (model s)) = Some wt \<and> tp_data_type wt \<in> float_types"
      then have "get_tensor_type s1 b = Some (tp_data_type wt)"
        by (simp add: get_tensor_type_def s1_def)
      from quantize_tensor_quantizable [OF this, of None WEIGHT] h r
      show "(map_of (tensors_to_quantize s) b = None \<longrightarrow>
               map_of (tensors_to_quantize s') b =
                 Some \<lparr> tensor_type = WEIGHT, quant_para_provider = None, axis = None,
                        is_shared = False, data_type = tp_data_type wt \<rparr>) \<and>
            (map_of (tensors_to_quantize s) b \<noteq> None \<longrightarrow> tensors_to_quantize s' = tensors_to_quantize s)"
        by (auto simp: s1_def update_conv' split: if_splits)
    qed
    with False eq r b show ?thesis by (auto simp: s1_def quantize_weight_tensor_def)
  qed
qed

theorem bias_with_overrides_registered_as_weight_witness:
  "has_overrides (sample_quantizer\<lparr> tensor_quant_overrides := [''B'' \<mapsto> [[(''symmetric'', ''True'')]]] \<rparr>) ''B'' \<and>
   (\<exists>s'. quantize_bias_tensor
            (sample_quantizer\<lparr> tensor_quant_overrides := [''B'' \<mapsto> [[(''symmetric'', ''True'')]]] \<rparr>)
            ''conv'' ''B'' ''X'' ''W'' 1 = Inr s' \<and>
          bias_to_quantize s' = [] \<and>
          map_of (tensors_to_quantize s') ''B'' =
            Some \<lparr> tensor_type = WEIGHT, quant_para_provider = None, axis = None,
                   is_shared = False, data_type = FLOAT \<rparr>)"
proof -
  let ?s = "sample_quantizer\<lparr> tensor_quant_overrides := [''B'' \<mapsto> [[(''symmetric'', ''True'')]]] \<rparr>"
  have h: "has_overrides ?s ''B''"
    by (simp add: has_overrides_def)
  have f: "find_by_name ''B'' (graph_initializer (model ?s)) = Some \<lparr> tp_name = ''B'', tp_data_type = FLOAT, tp_vals = [3] \<rparr>"
    by (simp add: sample_quantizer_def sample_graph_def find_by_name_def)
  have c: "\<not> per_channel ?s" "map_of (tensors_to_quantize ?s) ''B'' = None" "bias_to_quantize ?s = []"
    by (simp_all add: sample_quantizer_def)
  from bias_with_overrides_registered_as_weight [OF h, of "''conv''" "''X''" "''W''" 1]
  obtain s' where r: "quantize_bias_tensor ?s ''conv'' ''B'' ''X'' ''W'' 1 = Inr s'"
    and b: "bias_to_quantize s' = bias_to_quantize ?s"
    and e: "\<forall>wt. find_by_name ''B'' (graph_initializer (model ?s)) = Some wt \<and> tp_data_type wt \<in> float_types \<longrightarrow>
              (\<not> per_channel ?s \<and> map_of (tensors_to_quantize ?s) ''B'' = None \<longrightarrow>
                 map_of (tensors_to_quantize s') ''B'' =
                   Some \<lparr> tensor_type = WEIGHT, quant_para_provider = None, axis = None,
                          is_shared = False, data_type = tp_data_type wt \<rparr>)"
    by blast
  from e f c have "map_of (tensors_to_quantize s') ''B'' =
            Some \<lparr> tensor_type = WEIGHT, quant_para_provider = None, axis = None,
                   is_shared = False, data_type = FLOAT \<rparr>"
    by (simp add: float_types_def)
  with h r b c show ?thesis by simp
qed

text \<open>
  C4. When dedicated-pair mode is on and the tensor has more than one recorded consumer,
  the dual-path rewrite raises at once and leaves the quantizer as it was. For a tensor
  that has a converted parameter set next to its original one, both callers (the pass
  over tensors that own their parameters, for a tensor that is not an initializer, and
  the pass over sharing tensors) end in an error, and the node list at the raise is the
  node list before the call: no node has been emitted.
\<close>

theorem converted_with_dedicated_pairs_fails:
  assumes "dedicated_qdq_pair s" "tensor_to_its_receiving_nodes s t = Some recv" "length recv > 1"
  shows "add_qdq_ops_for_converted_activation E s t fs fz sdt cs cz crn =
           Inl (ValueError ''converted quant_types with dedicated_qdq_pair'', s) \<and>
         (quantization_params s = Some qp \<and> qp t = Some tp \<and> p_converted tp = Some conv \<longrightarrow>
            (find_by_name t (graph_initializer (model s)) = None \<longrightarrow>
               (\<exists>e s'. quantize_normal_tensor E t info s = Inl (e, s') \<and>
                        graph_node (model s') = graph_node (model s))) \<and>
            (\<exists>e s'. quantize_sharing_param_tensor E t prov pv s = Inl (e, s') \<and>
                     graph_node (model s') = graph_node (model s)))"
proof (intro conjI impI)
  show "add_qdq_ops_for_converted_activation E s t fs fz sdt cs cz crn =
           Inl (ValueError ''converted quant_types with dedicated_qdq_pair'', s)"
    using assms by (simp add: add_qdq_ops_for_converted_activation_def)
next
  assume qp: "quantization_params s = Some qp \<and> qp t = Some tp \<and> p_converted tp = Some conv"
    and ni: "find_by_name t (graph_initializer (model s)) = None"
  have fail: "\<And>s1 a b c d e f. erase_inits s1 = erase_inits s \<Longrightarrow>
     add_qdq_ops_for_converted_activation E s1 t a b c d e f =
       Inl (ValueError ''converted quant_types with dedicated_qdq_pair'', s1)"
  proof -
    fix s1 a b c d e f
    assume fr: "erase_inits s1 = erase_inits s"
    show "add_qdq_ops_for_converted_activation E s1 t a b c d e f =
       Inl (ValueError ''converted quant_types with dedicated_qdq_pair'', s1)"
      using assms inits_only_fields(3,4) [OF fr]
      by (simp add: add_qdq_ops_for_converted_activation_def)
  qed
  show "\<exists>e s'. quantize_normal_tensor E t info s = Inl (e, s') \<and>
                        graph_node (model s') = graph_node (model s)"
  proof (cases "create_quantization_initializers s t")
    case (Inl a)
    then obtain e s' where a: "a = (e, s')" by (cases a)
    with Inl have fr: "erase_inits s' = erase_inits s"
      using create_quantization_initializers_frame(1) by simp
    from Inl a ni inits_only_fields(1) [OF fr] show ?thesis
      by (simp add: quantize_normal_tensor_def)
  next
    case (Inr b)
    then obtain r s1 where b: "b = (r, s1)" by (cases b)
    from Inr b have fr: "erase_inits s1 = erase_inits s"
      using create_quantization_initializers_frame(2) by simp
    from qp Inr b obtain qi c where r: "r = Some qi" "pi_converted qi = Some c"
      using create_quantization_initializers_converted by blast
    show ?thesis
      using Inr b r ni fail [OF fr] inits_only_fields(1) [OF fr]
      by (simp add: quantize_normal_tensor_def)
  qed
next
  assume qp: "quantization_params s = Some qp \<and> qp t = Some tp \<and> p_converted tp = Some conv"
  show "\<exists>e s'. quantize_sharing_param_tensor E t prov pv s = Inl (e, s') \<and>
                     graph_node (model s') = graph_node (model s)"
  proof (cases "map_of (tensors_to_quantize s) t = None")
    case True
    then show ?thesis
      by (simp add: quantize_sharing_param_tensor_def del_tensor_to_quantize_def)
  next
    case False
    define s1 where "s1 = s\<lparr> tensors_to_quantize := AList.delete t (tensors_to_quantize s) \<rparr>"
    have d: "del_tensor_to_quantize s t = Inr s1"
      using False by (simp add: del_tensor_to_quantize_def s1_def)
    have fail: "\<And>s2 a b c d e f. erase_inits s2 = erase_inits s1 \<Longrightarrow>
       add_qdq_ops_for_converted_activation E s2 t a b c d e f =
         Inl (ValueError ''converted quant_types with dedicated_qdq_pair'', s2)"
    proof -
      fix s2 a b c d e f
      assume fr: "erase_inits s2 = erase_inits s1"
      show "add_qdq_ops_for_converted_activation E s2 t a b c d e f =
         Inl (ValueError ''converted quant_types with dedicated_qdq_pair'', s2)"
        using assms inits_only_fields(3,4) [OF fr]
        by (simp add: add_qdq_ops_for_converted_activation_def s1_def)
    qed
    show ?thesis
    proof (cases "make_initializers s1 t conv ''_convert''")
      case (Inl a)
      then obtain e s' where a: "a = (e, s')" by (cases a)
      with Inl have fr: "erase_inits s' = erase_inits s1"
        using make_initializers_frame(1) by simp
      from Inl a d qp inits_only_fields(1) [OF fr] show ?thesis
        by (auto simp: quantize_sharing_param_tensor_def Let_def is_input_a_initializer_def s1_def)
    next
      case (Inr b)
      then obtain qi s2 where b: "b = (qi, s2)" by (cases b)
      from Inr b have fr: "erase_inits s2 = erase_inits s1"
        using make_initializers_frame(2) by simp
      show ?thesis
        using Inr b d qp fail [OF fr] inits_only_fields(1) [OF fr]
        by (auto simp: quantize_sharing_param_tensor_def Let_def is_input_a_initializer_def s1_def)
    qed
  qed
qed

theorem converted_with_dedicated_pairs_fails_witness:
  "dedicated_qdq_pair dedicated_quantizer \<and>
   tensor_to_its_receiving_nodes dedicated_quantizer ''Y'' = Some [1, 2] \<and>
   length [1::nat, 2] > 1 \<and>
   add_qdq_ops_for_converted_activation sample_collaborators dedicated_quantizer ''Y''
       ''Y_scale'' ''Y_zero_point'' (Some FLOAT) ''Y_scale_convert'' ''Y_zero_point_convert'' None =
     Inl (ValueError ''converted quant_types with dedicated_qdq_pair'', dedicated_quantizer) \<and>
   find_by_name ''Y'' (graph_initializer (model dedicated_quantizer)) = None \<and>
   (\<exists>e s'. quantize_normal_tensor sample_collaborators ''Y'' activation_info dedicated_quantizer = Inl (e, s') \<and>
            graph_node (model s') = graph_node (model dedicated_quantizer))"
proof -
  have h: "dedicated_qdq_pair dedicated_quantizer"
    "tensor_to_its_receiving_nodes dedicated_quantizer ''Y'' = Some [1, 2]"
    "length [1::nat, 2] > 1"
    by (simp_all add: dedicated_quantizer_def)
  have q: "quantization_params dedicated_quantizer =
       Some [''Y'' \<mapsto> \<lparr> p_original = sample_params, p_converted = Some sample_params,
                          p_converted_recv_nodes = None \<rparr>]"
    by (simp add: dedicated_quantizer_def)
  have n: "find_by_name ''Y'' (graph_initializer (model dedicated_quantizer)) = None"
    by (simp add: dedicated_quantizer_def sample_quantizer_def sample_graph_def find_by_name_def)
  from converted_with_dedicated_pairs_fails [OF h, where E = sample_collaborators
      and qp = "[''Y'' \<mapsto> \<lparr> p_original = sample_params, p_converted = Some sample_params,
                          p_converted_recv_nodes = None \<rparr>]"
      and tp = "\<lparr> p_original = sample_params, p_converted = Some sample_params,
                          p_converted_recv_nodes = None \<rparr>"
      and conv = sample_params and info = activation_info] h q n
  show ?thesis by simp
qed

text \<open>
  C5. In single-pair mode, for a tensor that is a graph output: the outputs of the nodes
  that were in the graph are renamed from the tensor to the suffixed Q input, the Q node
  reads that suffixed name, the DQ node writes the tensor's own name, and the graph still
  lists the name as an output. For a tensor that is not a graph output: every node that
  was in the graph has its reads of the tensor replaced by the suffixed DQ output, the Q
  node reads the tensor and the DQ node writes the suffixed name.
\<close>

theorem single_pair_graph_output:
  assumes "\<not> (dedicated_qdq_pair s \<and> tensor_to_its_receiving_nodes s t \<noteq> None
               \<and> length (receiving_nodes s t) > 1)"
  shows "(is_graph_output (model s) t \<longrightarrow>
            graph_node (model (add_qdq_pair_for_activation E s t sc zp dt)) =
              map (\<lambda>node. replace_node_output node t (add_quant_input_suffix E t)) (graph_node (model s))
              @ [make_node QUANT_OP_NAME [add_quant_input_suffix E t, sc, zp] [add_quant_output_suffix E t]
                   (add_quant_suffix E t) None (qdq_op_domain s),
                 make_node DEQUANT_OP_NAME [add_quant_output_suffix E t, sc, zp] [t]
                   (add_dequant_suffix E t) None (qdq_op_domain s)] \<and>
            graph_output (model (add_qdq_pair_for_activation E s t sc zp dt)) = graph_output (model s) \<and>
            is_graph_output (model (add_qdq_pair_for_activation E s t sc zp dt)) t \<and>
            (add_quant_input_suffix E t \<noteq> t \<longrightarrow>
               (\<forall>node \<in> set (take (length (graph_node (model s)))
                                (graph_node (model (add_qdq_pair_for_activation E s t sc zp dt)))).
                  t \<notin> set (n_output node)))) \<and>
         (\<not> is_graph_output (model s) t \<longrightarrow>
            graph_node (model (add_qdq_pair_for_activation E s t sc zp dt)) =
              map (\<lambda>node. replace_node_input node t (add_dequant_output_suffix E t)) (graph_node (model s))
              @ [make_node QUANT_OP_NAME [t, sc, zp] [add_quant_output_suffix E t]
                   (add_quant_suffix E t) None (qdq_op_domain s),
                 make_node DEQUANT_OP_NAME [add_quant_output_suffix E t, sc, zp] [add_dequant_output_suffix E t]
                   (add_dequant_suffix E t) None (qdq_op_domain s)] \<and>
            (add_dequant_output_suffix E t \<noteq> t \<longrightarrow>
               (\<forall>node \<in> set (take (length (graph_node (model s)))
                                (graph_node (model (add_qdq_pair_for_activation E s t sc zp dt)))).
                  t \<notin> set (n_input node)))) \<and>
         quantized_value_map (add_qdq_pair_for_activation E s t sc zp dt) t =
           Some (QDQTensorQuantizedValue_init
                   (QuantizedValue_init t
                      (if is_graph_output (model s) t then t else add_dequant_output_suffix E t)
                      sc zp Input None None None dt) None None)"
  using assms
  by (auto simp: add_qdq_pair_for_activation_def Let_def create_qdq_nodes_def add_nodes_def
      replace_output_of_all_nodes_def replace_input_of_all_nodes_def is_graph_output_def
      replace_node_output_def replace_node_input_def)

theorem single_pair_graph_output_witness:
  "\<not> (dedicated_qdq_pair sample_quantizer \<and> tensor_to_its_receiving_nodes sample_quantizer ''Z1'' \<noteq> None
        \<and> length (receiving_nodes sample_quantizer ''Z1'') > 1) \<and>
   is_graph_output (model sample_quantizer) ''Z1'' \<and>
   \<not> is_graph_output (model sample_quantizer) ''Y'' \<and>
   map (\<lambda>node. (n_name node, n_input node, n_output node))
     (graph_node (model (add_qdq_pair_for_activation sample_collaborators sample_quantizer
        ''Z1'' ''Z1_scale'' ''Z1_zero_point'' (Some FLOAT)))) =
     [(''conv'', [''X'', ''W'', ''B''], [''Y'']),
      (''relu'', [''Y''], [''Z1_QuantizeLinear_Input'']),
      (''sigmoid'', [''Y''], [''Z2'']),
      (''Z1_QuantizeLinear'', [''Z1_QuantizeLinear_Input'', ''Z1_scale'', ''Z1_zero_point''],
         [''Z1_QuantizeLinear_Output'']),
      (''Z1_DequantizeLinear'', [''Z1_QuantizeLinear_Output'', ''Z1_scale'', ''Z1_zero_point''], [''Z1''])] \<and>
   map (\<lambda>node. (n_name node, n_input node, n_output node))
     (graph_node (model (add_qdq_pair_for_activation sample_collaborators sample_quantizer
        ''Y'' ''Y_scale'' ''Y_zero_point'' (Some FLOAT)))) =
     [(''conv'', [''X'', ''W'', ''B''], [''Y'']),
      (''relu'', [''Y_DequantizeLinear_Output''], [''Z1'']),
      (''sigmoid'', [''Y_DequantizeLinear_Output''], [''Z2'']),
      (''Y_QuantizeLinear'', [''Y'', ''Y_scale'', ''Y_zero_point''], [''Y_QuantizeLinear_Output'']),
      (''Y_DequantizeLinear'', [''Y_QuantizeLinear_Output'', ''Y_scale'', ''Y_zero_point''],
         [''Y_DequantizeLinear_Output''])]"
proof -
  have h: "\<And>t. \<not> (dedicated_qdq_pair sample_quantizer \<and> tensor_to_its_receiving_nodes sample_quantizer t \<noteq> None
        \<and> length (receiving_nodes sample_quantizer t) > 1)"
    by (simp add: sample_quantizer_def)
  have o: "is_graph_output (model sample_quantizer) ''Z1''" "\<not> is_graph_output (model sample_quantizer) ''Y''"
    by (simp_all add: is_graph_output_def sample_quantizer_def sample_graph_def)
  have g: "graph_node (model sample_quantizer) = graph_node sample_graph" "qdq_op_domain sample_quantizer = None"
    by (simp_all add: sample_quantizer_def)
  from single_pair_graph_output [OF h, of "''Z1''" sample_collaborators "''Z1_scale''" "''Z1_zero_point''" "Some FLOAT"]
    single_pair_graph_output [OF h, of "''Y''" sample_collaborators "''Y_scale''" "''Y_zero_point''" "Some FLOAT"]
    h o
  show ?thesis
    by (simp add: g sample_graph_def replace_node_output_def replace_node_input_def make_node_def
        QUANT_OP_NAME_def DEQUANT_OP_NAME_def)
qed

section \<open>C1: termination of the pass over tensors that share parameters\<close>

text \<open>
  C1 (as amended). The pass \<^verbatim>\<open>_quantize_sharing_param_tensors\<close> returns whenever the
  provider graph of the waiting tensors is acyclic and complete (every waiting tensor has
  a provider that is resolved or waits with a smaller rank): it ends with an error of the
  rewriter or with an empty \<open>tensors_to_quantize\<close>. When a full scan finds no waiting
  tensor with a resolved provider, the scan returns its state unchanged and raises
  nothing, and the pass never returns. When some set of unresolved tensors, one of them
  waiting, is closed under providers (a cycle, or a chain ending in a tensor that nobody
  quantizes), the pass never completes: it runs forever or ends with an error raised
  while another tensor is rewritten.
\<close>

theorem sharing_pass_returns_iff_progress:
  "(providers_resolvable rank s \<longrightarrow>
      (\<exists>r. quantize_sharing_param_tensors E s = Some r \<and>
           (case r of Inl e \<Rightarrow> True | Inr s' \<Rightarrow> tensors_to_quantize s' = []))) \<and>
   (scan_blocked s \<longrightarrow>
      sharing_scan E (tensors_to_quantize s) s = Inr s \<and>
      quantize_sharing_param_tensors E s = None) \<and>
   (blocked_set B s \<longrightarrow> (\<forall>s'. quantize_sharing_param_tensors E s \<noteq> Some (Inr s')))"
proof (intro conjI impI)
  assume "providers_resolvable rank s"
  from sharing_loop_terminates [OF this, of E] obtain r where
    r: "quantize_sharing_param_tensors E s = Some r" "\<forall>s'. r = Inr s' \<longrightarrow> tensors_to_quantize s' = []"
    by blast
  then have "case r of Inl e \<Rightarrow> True | Inr s' \<Rightarrow> tensors_to_quantize s' = []"
    by (cases r) simp_all
  with r(1) show "\<exists>r. quantize_sharing_param_tensors E s = Some r \<and>
           (case r of Inl e \<Rightarrow> True | Inr s' \<Rightarrow> tensors_to_quantize s' = [])"
    by blast
next
  assume "scan_blocked s"
  then show "sharing_scan E (tensors_to_quantize s) s = Inr s"
    by (simp add: scan_blocked_def sharing_scan_blocked)
next
  assume "scan_blocked s"
  then show "quantize_sharing_param_tensors E s = None"
    by (rule sharing_loop_blocked)
next
  assume "blocked_set B s"
  then show "\<forall>s'. quantize_sharing_param_tensors E s \<noteq> Some (Inr s')"
    by (simp add: sharing_loop_blocked_set)
qed

theorem sharing_pass_returns_iff_progress_witness:
  "providers_resolvable (\<lambda>t. 0) chain_quantizer \<and>
   (\<exists>r. quantize_sharing_param_tensors sample_collaborators chain_quantizer = Some r \<and>
        (case r of Inl e \<Rightarrow> True | Inr s' \<Rightarrow> tensors_to_quantize s' = [])) \<and>
   scan_blocked cyclic_quantizer \<and>
   sharing_scan sample_collaborators (tensors_to_quantize cyclic_quantizer) cyclic_quantizer
     = Inr cyclic_quantizer \<and>
   quantize_sharing_param_tensors sample_collaborators cyclic_quantizer = None \<and>
   blocked_set {''T1'', ''T2''} cyclic_quantizer \<and>
   (\<forall>s'. quantize_sharing_param_tensors sample_collaborators cyclic_quantizer \<noteq> Some (Inr s'))"
proof -
  have a: "providers_resolvable (\<lambda>t. 0) chain_quantizer"
    by (simp add: providers_resolvable_def chain_quantizer_def sample_quantizer_def shared_info_def)
  have b: "scan_blocked cyclic_quantizer"
    by (simp add: scan_blocked_def cyclic_quantizer_def sample_quantizer_def shared_info_def)
  have c: "blocked_set {''T1'', ''T2''} cyclic_quantizer"
    by (simp add: blocked_set_def cyclic_quantizer_def sample_quantizer_def shared_info_def)
  from a b c
    sharing_pass_returns_iff_progress [of "\<lambda>t. 0" chain_quantizer sample_collaborators "{}"]
    sharing_pass_returns_iff_progress [of "\<lambda>t. 0" cyclic_quantizer sample_collaborators "{''T1'', ''T2''}"]
  show ?thesis by simp
qed

text \<open>
  The claim as it was stated fails on the cycle it names: \<open>T1\<close> shares from \<open>T2\<close>, which
  shares from \<open>T1\<close>, and neither is resolved. The scan skips both tensors and raises
  nothing, the dictionary is still not empty, and the \<^verbatim>\<open>while\<close> loop scans again, forever.
\<close>

theorem cyclic_providers_loop_forever_counterexample:
  "map (\<lambda>(t, info). (t, map_option input_name (quant_para_provider info)))
     (tensors_to_quantize cyclic_quantizer) = [(''T1'', Some ''T2''), (''T2'', Some ''T1'')] \<and>
   quantized_value_map cyclic_quantizer ''T1'' = None \<and>
   quantized_value_map cyclic_quantizer ''T2'' = None \<and>
   sharing_scan sample_collaborators (tensors_to_quantize cyclic_quantizer) cyclic_quantizer
     = Inr cyclic_quantizer \<and>
   quantize_sharing_param_tensors sample_collaborators cyclic_quantizer = None"
proof -
  have "quantize_sharing_param_tensors sample_collaborators cyclic_quantizer = None"
    using cyclic_scan_blocked by (rule sharing_loop_blocked)
  then show ?thesis
    by (simp add: cyclic_quantizer_def sample_quantizer_def shared_info_def)
qed

section \<open>C9: removal of nodes is deferred\<close>

subsection \<open>The marking pass records removals only\<close>

lemma state_of_simps [simp]:
  "state_of (Inl (e, s)) = s"
  "state_of (Inr s) = s"
  by (simp_all add: state_of_def)

lemma removal_recorded_refl [simp]: "removal_recorded s s"
  by (simp add: removal_recorded_def)

lemma removal_recorded_trans:
  "removal_recorded s s1 \<Longrightarrow> removal_recorded s1 s2 \<Longrightarrow> removal_recorded s s2"
  by (auto simp: removal_recorded_def)

lemma removal_recorded_same:
  "model s1 = model s \<Longrightarrow> nodes_to_remove s1 = nodes_to_remove s \<Longrightarrow> removal_recorded s s1"
  by (simp add: removal_recorded_def)

lemma quantize_bias_tensor_total:
  "\<exists>s'. quantize_bias_tensor s n b i w beta = Inr s' \<and> model s' = model s \<and>
        nodes_to_remove s' = nodes_to_remove s"
proof (cases "has_overrides s b")
  case True
  let ?s1 = "s\<lparr> logging := logging s @ [(INFO, BiasAsWeight b)] \<rparr>"
  from quantize_weight_tensor_per_channel_total [of ?s1 b 0] quantize_tensor_total [of ?s1 b None WEIGHT]
  show ?thesis
    using True by (auto simp: quantize_bias_tensor_def Let_def quantize_weight_tensor_def)
next
  case False
  then show ?thesis
    by (auto simp: quantize_bias_tensor_def split: option.splits)
qed

lemma try_replacing_upstream_output_cases:
  "case try_replacing_upstream_output s up out of
     Inl (e, s') \<Rightarrow> s' = s
   | Inr (b, s') \<Rightarrow> node_ids (model s') = node_ids (model s) \<and> nodes_to_remove s' = nodes_to_remove s"
  by (auto simp: try_replacing_upstream_output_def Let_def split: option.splits)

lemma run_policy_records: "removal_recorded s (state_of (run_policy p s))"
proof (induction p arbitrary: s)
  case Done
  show ?case by simp
next
  case (QuantizeActivationTensor t k)
  from quantize_tensor_total [of s t None ACTIVATION] obtain s1 where
    "quantize_activation_tensor s t = Inr s1" "model s1 = model s" "nodes_to_remove s1 = nodes_to_remove s"
    by (auto simp: quantize_activation_tensor_def)
  with QuantizeActivationTensor [of s1] show ?case
    by (auto intro: removal_recorded_trans removal_recorded_same)
next
  case (QuantizeWeightTensor t k)
  from quantize_tensor_total [of s t None WEIGHT] obtain s1 where
    "quantize_weight_tensor s t = Inr s1" "model s1 = model s" "nodes_to_remove s1 = nodes_to_remove s"
    by (auto simp: quantize_weight_tensor_def)
  with QuantizeWeightTensor [of s1] show ?case
    by (auto intro: removal_recorded_trans removal_recorded_same)
next
  case (QuantizeWeightTensorPerChannel t ax k)
  from quantize_weight_tensor_per_channel_total [of s t ax] obtain s1 where
    "quantize_weight_tensor_per_channel s t ax = Inr s1" "model s1 = model s"
    "nodes_to_remove s1 = nodes_to_remove s"
    by auto
  with QuantizeWeightTensorPerChannel [of s1] show ?case
    by (auto intro: removal_recorded_trans removal_recorded_same)
next
  case (QuantizeOutputSameAsInput out inp node k)
  from quantize_tensor_total [of s out "Some \<lparr> input_name = inp, node_name = node \<rparr>" ACTIVATION]
  obtain s1 where
    "quantize_output_same_as_input s out inp node = Inr s1" "model s1 = model s"
    "nodes_to_remove s1 = nodes_to_remove s"
    by (auto simp: quantize_output_same_as_input_def)
  with QuantizeOutputSameAsInput [of s1] show ?case
    by (auto intro: removal_recorded_trans removal_recorded_same)
next
  case (QuantizeBiasTensor node b inp w beta k)
  from quantize_bias_tensor_total [of s node b inp w beta] obtain s1 where
    "quantize_bias_tensor s node b inp w beta = Inr s1" "model s1 = model s"
    "nodes_to_remove s1 = nodes_to_remove s"
    by auto
  with QuantizeBiasTensor [of s1] show ?case
    by (auto intro: removal_recorded_trans removal_recorded_same)
next
  case (RemoveNode node k)
  have "removal_recorded s (remove_node s node)"
    by (simp add: removal_recorded_def remove_node_def)
  with RemoveNode [of "remove_node s node"] show ?case
    by (auto intro: removal_recorded_trans)
next
  case (TryReplacingUpstreamOutput up out k1 k2)
  show ?case
  proof (cases "try_replacing_upstream_output s up out")
    case (Inl a)
    obtain e s' where a: "a = (e, s')" by (cases a)
    with Inl try_replacing_upstream_output_cases [of s up out] have "s' = s" by simp
    with Inl a show ?thesis by simp
  next
    case (Inr c)
    obtain b s1 where c: "c = (b, s1)" by (cases c)
    with Inr try_replacing_upstream_output_cases [of s up out]
    have "removal_recorded s s1" by (simp add: removal_recorded_def)
    with TryReplacingUpstreamOutput(1) [of s1] TryReplacingUpstreamOutput(2) [of s1] Inr c
    show ?thesis
      by (auto intro: removal_recorded_trans)
  qed
next
  case (IsTensorQuantized t k1 k2)
  then show ?case by simp
qed

lemma fold_record_receiving_node:
  "model (fold (record_receiving_node node) ts s) = model s"
  "nodes_to_remove (fold (record_receiving_node node) ts s) = nodes_to_remove s"
  by (induction ts arbitrary: s) (simp_all add: record_receiving_node_def)

lemma mark_nodes_records: "removal_recorded s (state_of (mark_nodes E ids s))"
proof (induction ids arbitrary: s)
  case Nil
  show ?case by simp
next
  case (Cons node ids)
  show ?case
  proof (cases "should_quantize_node E s (graph_node (model s) ! node)")
    case False
    with Cons [of s] show ?thesis by simp
  next
    case True
    note r = run_policy_records [of s "CreateQDQQuantizer E s node"]
    show ?thesis
    proof (cases "run_policy (CreateQDQQuantizer E s node) s")
      case (Inl a)
      with r True show ?thesis by (cases a) simp
    next
      case (Inr s1)
      let ?s2 = "fold (record_receiving_node node) (n_input (graph_node (model s1) ! node)) s1"
      from r Inr have "removal_recorded s s1" by simp
      then have "removal_recorded s ?s2"
        by (simp add: removal_recorded_def fold_record_receiving_node)
      with Cons [of ?s2] True Inr show ?thesis
        by (auto intro: removal_recorded_trans)
    qed
  qed
qed

subsection \<open>The quantization passes remove nothing and record nothing\<close>

lemma no_removal_refl [simp]: "no_removal s s"
  by (simp add: no_removal_def)

lemma no_removal_trans: "no_removal s s1 \<Longrightarrow> no_removal s1 s2 \<Longrightarrow> no_removal s s2"
  by (auto simp: no_removal_def intro: nodes_kept_trans)

lemma graph_step_no_removal: "graph_step s s' \<Longrightarrow> no_removal s s'"
  by (simp add: no_removal_def graph_step_fields(3,11))

lemma resolved_as_no_removal: "resolved_as t s s' \<Longrightarrow> no_removal s s'"
  by (simp add: no_removal_def resolved_as_fields(3,11))

lemma no_removal_waiting:
  "no_removal (s\<lparr> tensors_to_quantize := q \<rparr>) s' \<Longrightarrow> no_removal s s'"
  "no_removal s s' \<Longrightarrow> no_removal s (s'\<lparr> tensors_to_quantize := q \<rparr>)"
  by (simp_all add: no_removal_def)

lemma register_initializers_step: "graph_step s (register_initializers s inits)"
  unfolding register_initializers_def
  by (rule graph_step_model_same) simp_all

lemma quantize_initializer_cases:
  "case quantize_initializer E s w qT rr kf of
     Inl (e, s') \<Rightarrow> s' = s
   | Inr (names, s') \<Rightarrow> resolved_as (tp_name w) s s'"
proof (cases "quantized_value_map s (tp_name w)")
  case (Some stored)
  then have "s\<lparr> quantized_value_map := (quantized_value_map s)(tp_name w \<mapsto> stored) \<rparr> = s"
    by (simp add: map_upd_triv)
  then have "resolved_as (tp_name w) s s"
    unfolding resolved_as_def by (metis graph_step_refl)
  with Some show ?thesis by (simp add: quantize_initializer_def Let_def)
next
  case None
  show ?thesis
  proof (cases "quantize_initializer_impl E s w qT rr kf")
    case (Inl e)
    with None show ?thesis by (simp add: quantize_initializer_def)
  next
    case (Inr out)
    with None show ?thesis
      unfolding quantize_initializer_def Let_def
      by (simp only: option.case sum.case prod.case) (intro resolved_asI register_initializers_step)
  qed
qed

lemma quantize_weight_per_channel_cases:
  "case quantize_weight_per_channel E s wn qT ax rr kf of
     Inl (e, s') \<Rightarrow> s' = s
   | Inr (names, s') \<Rightarrow> resolved_as wn s s'"
proof (cases "quantized_value_map s wn")
  case (Some stored)
  then have "s\<lparr> quantized_value_map := (quantized_value_map s)(wn \<mapsto> stored) \<rparr> = s"
    by (simp add: map_upd_triv)
  then have "resolved_as wn s s"
    unfolding resolved_as_def by (metis graph_step_refl)
  with Some show ?thesis by (simp add: quantize_weight_per_channel_def Let_def)
next
  case None
  show ?thesis
  proof (cases "quantize_weight_per_channel_impl E s wn qT ax rr kf")
    case (Inl e)
    with None show ?thesis by (simp add: quantize_weight_per_channel_def)
  next
    case (Inr out)
    with None show ?thesis
      unfolding quantize_weight_per_channel_def Let_def
      by (simp only: option.case sum.case prod.case) (intro resolved_asI register_initializers_step)
  qed
qed

lemma quantize_bias_static_cases:
  "case quantize_bias_static E s n b i wn beta of
     Inl (e, s') \<Rightarrow> s' = s
   | Inr (q, s') \<Rightarrow> resolved_as b s s'"
proof (cases "quantized_value_map s b")
  case (Some stored)
  then have "s\<lparr> quantized_value_map := (quantized_value_map s)(b \<mapsto> stored) \<rparr> = s"
    by (simp add: map_upd_triv)
  then have "resolved_as b s s"
    unfolding resolved_as_def by (metis graph_step_refl)
  with Some show ?thesis by (simp add: quantize_bias_static_def)
next
  case None
  have r: "\<And>inits v. resolved_as b s
      ((register_initializers s inits)
         \<lparr> quantized_value_map := (quantized_value_map (register_initializers s inits))(b \<mapsto> v) \<rparr>)"
    by (intro resolved_asI register_initializers_step)
  from None show ?thesis
    by (auto simp: quantize_bias_static_def Let_def split: option.splits sum.splits intro!: r)
qed

lemma add_qdq_pair_for_initializer_no_removal:
  "no_removal s (state_of (add_qdq_pair_for_initializer E s w tt ax))"
proof -
  let ?q = "case ax of
                 Some a \<Rightarrow>
                   if opset_version s < 13
                   then Inl (ValueError ''Per-Channel support requires opset 13'', s)
                   else quantize_weight_per_channel E s (tp_name w)
                          (if activation_qType s = UINT8 then INT8 else activation_qType s)
                          a True (add_qdq_pair_to_weight s)
               | None \<Rightarrow>
                   quantize_initializer E s w
                     (if tt = WEIGHT then weight_qType s else activation_qType s)
                     False (add_qdq_pair_to_weight s)"
  have c: "case ?q of Inl (e, s') \<Rightarrow> s' = s | Inr (names, s') \<Rightarrow> resolved_as (tp_name w) s s'"
    using quantize_initializer_cases [where E = E and s = s and w = w]
      quantize_weight_per_channel_cases [where E = E and s = s and wn = "tp_name w"]
    by (cases ax) simp_all
  show ?thesis
  proof (cases ?q)
    case (Inl a)
    obtain e s' where a: "a = (e, s')" by (cases a)
    with Inl c have "s' = s" by simp
    with Inl a show ?thesis
      by (simp add: add_qdq_pair_for_initializer_def Let_def)
  next
    case (Inr b)
    obtain q zp sc s1 where b: "b = ((q, zp, sc), s1)" by (cases b) auto
    with Inr c have r: "resolved_as (tp_name w) s s1" by simp
    let ?s2 = "s1\<lparr> model := replace_input_of_all_nodes (model s1) (tp_name w)
                                (add_dequant_output_suffix E (tp_name w)) \<rparr>"
    have g: "graph_step s1 ?s2" by (intro graph_step_intros)
    have g1: "graph_step s1 (create_qdq_nodes ?s2 (tp_name w) (add_quant_output_suffix E (tp_name w))
                                 (add_quant_suffix E (tp_name w)) (add_quant_output_suffix E (tp_name w))
                                 (add_dequant_output_suffix E (tp_name w))
                                 (add_dequant_suffix E (tp_name w)) sc zp ax)"
      by (intro graph_step_intros)
    have g2: "graph_step s1 (?s2\<lparr> model := add_node (model ?s2)
                             (make_node DEQUANT_OP_NAME [q, sc, zp]
                                [add_dequant_output_suffix E (tp_name w)] (add_dequant_suffix E (tp_name w)) ax
                                (qdq_op_domain ?s2)) \<rparr>)"
      by (intro graph_step_intros)
    from Inr b have "state_of (add_qdq_pair_for_initializer E s w tt ax) =
        (if add_qdq_pair_to_weight ?s2
         then create_qdq_nodes ?s2 (tp_name w) (add_quant_output_suffix E (tp_name w))
                                 (add_quant_suffix E (tp_name w)) (add_quant_output_suffix E (tp_name w))
                                 (add_dequant_output_suffix E (tp_name w))
                                 (add_dequant_suffix E (tp_name w)) sc zp ax
         else ?s2\<lparr> model := add_node (model ?s2)
                             (make_node DEQUANT_OP_NAME [q, sc, zp]
                                [add_dequant_output_suffix E (tp_name w)] (add_dequant_suffix E (tp_name w)) ax
                                (qdq_op_domain ?s2)) \<rparr>)"
      by (simp add: add_qdq_pair_for_initializer_def Let_def)
    with g1 g2 have "graph_step s1 (state_of (add_qdq_pair_for_initializer E s w tt ax))"
      by simp
    with r show ?thesis
      by (blast intro: no_removal_trans resolved_as_no_removal graph_step_no_removal)
  qed
qed

lemma del_tensor_to_quantize_no_removal:
  "no_removal s s2 \<Longrightarrow> no_removal s (state_of (del_tensor_to_quantize s2 t))"
  by (simp add: del_tensor_to_quantize_def no_removal_waiting(2))

lemma then_del_no_removal:
  assumes "no_removal s (state_of r)"
  shows "no_removal s (state_of (case r of Inl e \<Rightarrow> Inl e | Inr s2 \<Rightarrow> del_tensor_to_quantize s2 t))"
proof (cases r)
  case (Inl a)
  with assms show ?thesis by simp
next
  case (Inr s2)
  with assms show ?thesis by (simp add: del_tensor_to_quantize_no_removal)
qed

lemma converted_activation_no_removal:
  "no_removal s (state_of (add_qdq_ops_for_converted_activation E s t fs fz sdt cs cz crn))"
proof (cases "add_qdq_ops_for_converted_activation E s t fs fz sdt cs cz crn")
  case (Inl a)
  obtain e s' where a: "a = (e, s')" by (cases a)
  with Inl have "s' = s" using converted_activation_Inl by blast
  with Inl a show ?thesis by simp
next
  case (Inr s')
  then have "resolved_as t s s'" by (rule converted_activation_step)
  with Inr show ?thesis by (simp add: resolved_as_no_removal)
qed

lemma quantize_normal_tensor_no_removal:
  "no_removal s (state_of (quantize_normal_tensor E t info s))"
proof -
  have "no_removal s (state_of
     (case find_by_name t (graph_initializer (model s)) of
              Some initializer \<Rightarrow>
                add_qdq_pair_for_initializer E s initializer (tensor_type info) (axis info)
            | None \<Rightarrow>
                (case create_quantization_initializers s t of
                   Inl e \<Rightarrow> Inl e
                 | Inr (None, self1) \<Rightarrow>
                     Inl (ValueError ''Quantization parameters are not specified'', self1)
                 | Inr (Some quant_params_initializers, self1) \<Rightarrow>
                     (case pi_converted quant_params_initializers of
                        None \<Rightarrow>
                          Inr (add_qdq_pair_for_activation E self1 t
                                 (tp_name (i_scale (pi_original quant_params_initializers)))
                                 (tp_name (i_zero_point (pi_original quant_params_initializers)))
                                 (Some (data_type info)))
                      | Some conv \<Rightarrow>
                          if data_type info
                               \<noteq> tp_data_type (i_scale (pi_original quant_params_initializers))
                          then Inl (AssertionError, self1)
                          else add_qdq_ops_for_converted_activation E self1 t
                                 (tp_name (i_scale (pi_original quant_params_initializers)))
                                 (tp_name (i_zero_point (pi_original quant_params_initializers)))
                                 (Some (data_type info))
                                 (tp_name (i_scale conv)) (tp_name (i_zero_point conv))
                                 (pi_converted_recv_nodes quant_params_initializers)))))"
  proof (cases "find_by_name t (graph_initializer (model s))")
    case (Some initializer)
    then show ?thesis by (simp add: add_qdq_pair_for_initializer_no_removal)
  next
    case None
    show ?thesis
    proof (cases "create_quantization_initializers s t")
      case (Inl a)
      obtain e s' where a: "a = (e, s')" by (cases a)
      with Inl have "graph_step s s'" using create_quantization_initializers_step(1) by blast
      with None Inl a show ?thesis by (simp add: graph_step_no_removal)
    next
      case (Inr b)
      obtain r s1 where b: "b = (r, s1)" by (cases b)
      with Inr have "graph_step s s1" using create_quantization_initializers_step(2) by blast
      then have g: "no_removal s s1" by (rule graph_step_no_removal)
      show ?thesis
      proof (cases r)
        case None
        with \<open>find_by_name t (graph_initializer (model s)) = None\<close> Inr b g show ?thesis by simp
      next
        case (Some qpi)
        show ?thesis
        proof (cases "pi_converted qpi")
          case None
          have "no_removal s1 (add_qdq_pair_for_activation E s1 t
                                 (tp_name (i_scale (pi_original qpi)))
                                 (tp_name (i_zero_point (pi_original qpi)))
                                 (Some (data_type info)))"
            by (rule resolved_as_no_removal) (rule add_qdq_pair_for_activation_step)
          with g have "no_removal s (add_qdq_pair_for_activation E s1 t
                                 (tp_name (i_scale (pi_original qpi)))
                                 (tp_name (i_zero_point (pi_original qpi)))
                                 (Some (data_type info)))"
            by (rule no_removal_trans)
          with \<open>find_by_name t (graph_initializer (model s)) = None\<close> Inr b Some None show ?thesis
            by simp
        next
          case conv: (Some conv)
          have "\<And>dt. no_removal s (state_of (add_qdq_ops_for_converted_activation E s1 t
                                 (tp_name (i_scale (pi_original qpi)))
                                 (tp_name (i_zero_point (pi_original qpi))) dt
                                 (tp_name (i_scale conv)) (tp_name (i_zero_point conv))
                                 (pi_converted_recv_nodes qpi)))"
            using g converted_activation_no_removal by (rule no_removal_trans)
          with \<open>find_by_name t (graph_initializer (model s)) = None\<close> Inr b Some conv g show ?thesis
            by simp
        qed
      qed
    qed
  qed
  then show ?thesis
    unfolding quantize_normal_tensor_def by (rule then_del_no_removal)
qed

lemma quantize_normal_tensors_loop_no_removal:
  "no_removal s (state_of (quantize_normal_tensors_loop E xs s))"
proof (induction xs arbitrary: s)
  case Nil
  show ?case by simp
next
  case (Cons x xs)
  obtain t info where x: "x = (t, info)" by (cases x)
  show ?case
  proof (cases "quantized_value_map s t \<noteq> None \<or> is_shared info")
    case True
    with Cons [of s] x show ?thesis by auto
  next
    case False
    note n = quantize_normal_tensor_no_removal [of s E t info]
    show ?thesis
    proof (cases "quantize_normal_tensor E t info s")
      case (Inl a)
      with n False x show ?thesis by (cases a) simp
    next
      case (Inr s1)
      with n have "no_removal s s1" by simp
      with Cons [of s1] have "no_removal s (state_of (quantize_normal_tensors_loop E xs s1))"
        by (blast intro: no_removal_trans)
      with False x Inr show ?thesis by simp
    qed
  qed
qed

lemma sharing_body_no_removal:
  "no_removal s (state_of (quantize_sharing_param_tensor E t p pv s))"
proof (cases "quantize_sharing_param_tensor E t p pv s")
  case (Inl a)
  obtain e s' where a: "a = (e, s')" by (cases a)
  with Inl sharing_body_Inl [of E t p pv s e s']
  have "s' = s \<or> graph_step (s\<lparr> tensors_to_quantize := AList.delete t (tensors_to_quantize s) \<rparr>) s'"
    by simp
  then have "no_removal s s'"
    by (auto dest: graph_step_no_removal no_removal_waiting(1))
  with Inl a show ?thesis by simp
next
  case (Inr s')
  then have "resolved_as t (s\<lparr> tensors_to_quantize := AList.delete t (tensors_to_quantize s) \<rparr>) s'"
    by (rule sharing_body_Inr)
  then have "no_removal s s'"
    by (auto dest: resolved_as_no_removal no_removal_waiting(1))
  with Inr show ?thesis by simp
qed

lemma sharing_scan_no_removal:
  "no_removal s (state_of (sharing_scan E xs s))"
proof (induction xs arbitrary: s)
  case Nil
  show ?case by simp
next
  case (Cons x xs)
  obtain t info where x: "x = (t, info)" by (cases x)
  show ?case
  proof (cases "case quant_para_provider info of None \<Rightarrow> None
                | Some p \<Rightarrow> quantized_value_map s (input_name p)")
    case None
    with Cons [of s] x show ?thesis by (auto split: option.splits)
  next
    case (Some pv)
    then obtain p where p: "quant_para_provider info = Some p" "quantized_value_map s (input_name p) = Some pv"
      by (auto split: option.splits)
    note n = sharing_body_no_removal [of s E t p pv]
    show ?thesis
    proof (cases "quantize_sharing_param_tensor E t p pv s")
      case (Inl a)
      with n p x show ?thesis by (cases a) simp
    next
      case (Inr s1)
      with n have "no_removal s s1" by simp
      with Cons [of s1] have "no_removal s (state_of (sharing_scan E xs s1))"
        by (blast intro: no_removal_trans)
      with p x Inr show ?thesis by simp
    qed
  qed
qed

lemma sharing_loop_no_removal:
  "quantize_sharing_param_tensors E s = Some r \<Longrightarrow> no_removal s (state_of r)"
proof (induction rule: quantize_sharing_param_tensors.raw_induct [rotated 1, consumes 1, case_names step])
  case (step loop E s r)
  show ?case
  proof (cases "tensors_to_quantize s = []")
    case True
    with step(2) show ?thesis by auto
  next
    case False
    note n = sharing_scan_no_removal [of s E "tensors_to_quantize s"]
    show ?thesis
    proof (cases "sharing_scan E (tensors_to_quantize s) s")
      case (Inl a)
      with step(2) False n show ?thesis by (cases a) auto
    next
      case (Inr s1)
      with step(2) False have "loop E s1 = Some r" by simp
      then have "no_removal s1 (state_of r)" by (rule step(1))
      moreover from n Inr have "no_removal s s1" by simp
      ultimately show ?thesis by (blast intro: no_removal_trans)
    qed
  qed
qed

lemma bias_dequant_node_no_removal:
  "no_removal s (state_of (bias_dequant_node E b inp init s))"
proof -
  have "\<And>n. no_removal s (s\<lparr> model := add_node (model s) n \<rparr>)"
    by (intro graph_step_no_removal graph_step_intros)
  then show ?thesis
    by (auto simp: bias_dequant_node_def Let_def split: option.splits)
qed

lemma quantize_bias_tensors_loop_no_removal:
  "no_removal s (state_of (quantize_bias_tensors_loop E xs s))"
proof (induction xs arbitrary: s)
  case Nil
  show ?case by simp
next
  case (Cons x xs)
  obtain n b inp wn beta where x: "x = (n, b, inp, wn, beta)" by (cases x)
  show ?case
  proof (cases "quantized_value_map s b \<noteq> None")
    case True
    with Cons [of s] x show ?thesis by simp
  next
    case False
    note c = quantize_bias_static_cases [where E = E and s = s and n = n and b = b and i = inp
        and wn = wn and beta = beta]
    show ?thesis
    proof (cases "quantize_bias_static E s n b inp wn beta")
      case (Inl a)
      obtain e s' where a: "a = (e, s')" by (cases a)
      with Inl c have "s' = s" by simp
      with Inl a False x show ?thesis by simp
    next
      case (Inr d)
      obtain q s1 where d: "d = (q, s1)" by (cases d)
      with Inr c have n1: "no_removal s s1" by (simp add: resolved_as_no_removal)
      let ?init = "find_by_name b (graph_initializer (model s1))"
      let ?s2 = "case ?init of None \<Rightarrow> s1
                 | Some bias_init \<Rightarrow> s1\<lparr> model := remove_initializer (model s1) bias_init \<rparr>"
      have "graph_step s1 ?s2"
        by (cases ?init) (simp_all add: graph_step_rewire)
      with n1 have n2: "no_removal s ?s2"
        by (blast intro: no_removal_trans graph_step_no_removal)
      note n3 = bias_dequant_node_no_removal [of ?s2 E b inp ?init]
      show ?thesis
      proof (cases "bias_dequant_node E b inp ?init ?s2")
        case (Inl a)
        obtain e s' where a: "a = (e, s')" by (cases a)
        with Inl n3 n2 have "no_removal s s'" by (auto intro: no_removal_trans)
        with False x Inr d Inl a show ?thesis by (simp add: Let_def)
      next
        case inr3: (Inr s3)
        with n3 n2 have "no_removal s s3" by (auto intro: no_removal_trans)
        with Cons [of s3] have "no_removal s (state_of (quantize_bias_tensors_loop E xs s3))"
          by (blast intro: no_removal_trans)
        with False x Inr d inr3 show ?thesis by (simp add: Let_def)
      qed
    qed
  qed
qed

subsection \<open>A run on the sample graph\<close>

lemma sample_ids: "[0 ..< length (graph_node (model sample_quantizer))] = [0, 1, 2]"
  by (simp add: sample_quantizer_def sample_graph_def upt_rec)

lemma sample_marking:
  "mark_nodes removing_collaborators [0, 1, 2] sample_quantizer = Inr marked_quantizer"
  by (simp add: removing_collaborators_def sample_collaborators_def removing_policy_def
      quantize_activation_tensor_def quantize_output_same_as_input_def quantize_tensor_def
      is_tensor_quantizable_def get_tensor_type_def QDQTensorQuantInfo_init_def float_types_def
      remove_node_def record_receiving_node_def receiving_nodes_def marked_quantizer_def
      activation_info_def shared_info_def
      sample_quantizer_def sample_graph_def find_by_name_def)

lemma sample_normal:
  "quantize_normal_tensors removing_collaborators marked_quantizer = Inr Y_quantized_quantizer"
  by (simp add: quantize_normal_tensors_def quantize_normal_tensor_def
      create_quantization_initializers_def make_initializers_def add_initializer_def
      add_qdq_pair_for_activation_def receiving_nodes_def is_graph_output_def
      replace_input_of_all_nodes_def replace_node_input_def create_qdq_nodes_def add_nodes_def
      make_node_def QUANT_OP_NAME_def DEQUANT_OP_NAME_def del_tensor_to_quantize_def
      QDQTensorQuantizedValue_init_def QuantizedValue_init_def resolved_Y_def Y_pair_def
      removing_collaborators_def sample_collaborators_def marked_quantizer_def Y_quantized_quantizer_def
      activation_info_def shared_info_def sample_params_def Let_def AList.delete_eq
      sample_quantizer_def sample_graph_def find_by_name_def)

lemma sample_scan:
  "sharing_scan removing_collaborators (tensors_to_quantize Y_quantized_quantizer) Y_quantized_quantizer
     = Inr Z1_quantized_quantizer"
  by (simp add: quantize_sharing_param_tensor_def is_input_a_initializer_def get_for_consumer_def
      add_qdq_pair_for_activation_def receiving_nodes_def is_graph_output_def
      replace_output_of_all_nodes_def replace_node_output_def create_qdq_nodes_def add_nodes_def
      make_node_def QUANT_OP_NAME_def DEQUANT_OP_NAME_def del_tensor_to_quantize_def
      QDQTensorQuantizedValue_init_def QuantizedValue_init_def resolved_Y_def Y_pair_def Z1_pair_def
      removing_collaborators_def sample_collaborators_def marked_quantizer_def Y_quantized_quantizer_def
      Z1_quantized_quantizer_def
      activation_info_def shared_info_def sample_params_def Let_def AList.delete_eq
      sample_quantizer_def sample_graph_def find_by_name_def)

lemma sample_sharing:
  "quantize_sharing_param_tensors removing_collaborators Y_quantized_quantizer
     = Some (Inr Z1_quantized_quantizer)"
proof -
  have a: "tensors_to_quantize Y_quantized_quantizer \<noteq> []"
    by (simp add: Y_quantized_quantizer_def)
  have b: "tensors_to_quantize Z1_quantized_quantizer = []"
    by (simp add: Z1_quantized_quantizer_def)
  have "quantize_sharing_param_tensors removing_collaborators Z1_quantized_quantizer
          = Some (Inr Z1_quantized_quantizer)"
    by (subst quantize_sharing_param_tensors.simps) (simp add: b)
  then show ?thesis
    by (subst quantize_sharing_param_tensors.simps) (simp add: a sample_scan)
qed

lemma sample_bias:
  "(if quantize_bias Z1_quantized_quantizer
    then quantize_bias_tensors removing_collaborators Z1_quantized_quantizer
    else Inr Z1_quantized_quantizer) = Inr Z1_quantized_quantizer"
  by (simp add: quantize_bias_tensors_def Z1_quantized_quantizer_def Y_quantized_quantizer_def
      marked_quantizer_def sample_quantizer_def)

lemma sample_before_removal:
  "nodes_to_remove Z1_quantized_quantizer = [2]"
  "map n_name (graph_node (model Z1_quantized_quantizer)) =
     [''conv'', ''relu'', ''sigmoid'', ''Y_QuantizeLinear'', ''Y_DequantizeLinear'',
      ''Z1_QuantizeLinear'', ''Z1_DequantizeLinear'']"
  by (simp_all add: Z1_quantized_quantizer_def Y_quantized_quantizer_def marked_quantizer_def
      sample_quantizer_def Y_pair_def Z1_pair_def)

subsection \<open>The whole pass\<close>

lemma recorded_then_kept:
  assumes "removal_recorded s s1" "no_removal s1 s2"
  shows "nodes_kept (model s) (model s2)" "prefix (nodes_to_remove s) (nodes_to_remove s2)"
  using assms by (simp_all add: removal_recorded_def no_removal_def nodes_kept_def)

lemma quantize_bias_phase_no_removal:
  "no_removal s (state_of (if quantize_bias s then quantize_bias_tensors E s else Inr s))"
  by (simp add: quantize_bias_tensors_def quantize_bias_tensors_loop_no_removal)

lemma before_removal_keeps:
  assumes "quantize_before_removal E s = Some r"
  shows "\<exists>s1. removal_recorded s s1 \<and> no_removal s1 (state_of r)"
proof -
  let ?ids = "[0 ..< length (graph_node (model s))]"
  note m = mark_nodes_records [of s E ?ids]
  show ?thesis
  proof (cases "mark_nodes E ?ids s")
    case (Inl a)
    with assms have "r = Inl a" by (simp add: quantize_before_removal_def)
    with m Inl show ?thesis by (metis no_removal_refl)
  next
    case (Inr s1)
    with m have m1: "removal_recorded s s1" by simp
    note n = quantize_normal_tensors_loop_no_removal [of s1 E "tensors_to_quantize s1"]
    show ?thesis
    proof (cases "quantize_normal_tensors E s1")
      case (Inl a)
      with assms Inr have "r = Inl a" by (simp add: quantize_before_removal_def)
      with n Inl m1 show ?thesis by (auto simp: quantize_normal_tensors_def)
    next
      case inr2: (Inr s2)
      with n have n2: "no_removal s1 s2" by (simp add: quantize_normal_tensors_def)
      show ?thesis
      proof (cases "quantize_sharing_param_tensors E s2")
        case None
        with assms Inr inr2 show ?thesis by (simp add: quantize_before_removal_def)
      next
        case (Some r3)
        then have n3: "no_removal s2 (state_of r3)" by (rule sharing_loop_no_removal)
        show ?thesis
        proof (cases r3)
          case (Inl a)
          with assms Inr inr2 Some have "r = Inl a" by (simp add: quantize_before_removal_def)
          with n3 Inl n2 m1 show ?thesis by (auto intro: no_removal_trans)
        next
          case inr3: (Inr s3)
          with n3 n2 have n13: "no_removal s1 s3" by (auto intro: no_removal_trans)
          note n4 = quantize_bias_phase_no_removal [of s3 E]
          from assms Inr inr2 Some inr3
          have "r = (if quantize_bias s3 then quantize_bias_tensors E s3 else Inr s3)"
            by (auto simp: quantize_before_removal_def split: sum.splits if_splits)
          with n4 n13 have "no_removal s1 (state_of r)" by (auto intro: no_removal_trans)
          with m1 show ?thesis by blast
        qed
      qed
    qed
  qed
qed

lemma graph_node_finish_model:
  "graph_node (model (finish_model s)) =
     map snd (filter (\<lambda>(r, node). r \<notin> set (nodes_to_remove s))
                (zip [0 ..< length (graph_node (model s))] (graph_node (model s))))"
  by (simp add: finish_model_def Let_def remove_nodes_def model_remove_nodes_def clean_initializers_def
      set_opset_import_def)

text \<open>
  C9. Whenever the part of \<open>quantize_model\<close> that precedes \<open>remove_nodes\<close> ends, by
  returning or by raising, every node that was in the graph at the start is still in the
  graph at its position, and \<open>nodes_to_remove\<close> has only been extended. On a run in which
  the four passes return: the marking pass leaves the graph with the same nodes and only
  extends \<open>nodes_to_remove\<close>; the passes over the normal tensors, the sharing tensors and
  the biases keep every node and leave \<open>nodes_to_remove\<close> alone; and \<open>quantize_model\<close>
  returns the graph of the last pass without the nodes recorded in \<open>nodes_to_remove\<close>,
  removed in one step.
\<close>

theorem removal_deferred_to_the_end:
  "(quantize_before_removal E s = Some r \<longrightarrow>
      nodes_kept (model s) (model (state_of r)) \<and>
      prefix (nodes_to_remove s) (nodes_to_remove (state_of r))) \<and>
   (mark_nodes E [0 ..< length (graph_node (model s))] s = Inr s1 \<and>
    quantize_normal_tensors E s1 = Inr s2 \<and>
    quantize_sharing_param_tensors E s2 = Some (Inr s3) \<and>
    (if quantize_bias s3 then quantize_bias_tensors E s3 else Inr s3) = Inr s4 \<longrightarrow>
      removal_recorded s s1 \<and> no_removal s1 s2 \<and> no_removal s2 s3 \<and> no_removal s3 s4 \<and>
      quantize_model E s = Some (Inr (finish_model s4)) \<and>
      graph_node (model (finish_model s4)) =
        map snd (filter (\<lambda>(r, node). r \<notin> set (nodes_to_remove s4))
                   (zip [0 ..< length (graph_node (model s4))] (graph_node (model s4)))))"
proof (intro conjI impI)
  assume "quantize_before_removal E s = Some r"
  then obtain s1 where k: "removal_recorded s s1" "no_removal s1 (state_of r)"
    using before_removal_keeps by blast
  show "nodes_kept (model s) (model (state_of r))"
    using k by (rule recorded_then_kept)
  show "prefix (nodes_to_remove s) (nodes_to_remove (state_of r))"
    using k by (rule recorded_then_kept)
next
  assume a: "mark_nodes E [0 ..< length (graph_node (model s))] s = Inr s1 \<and>
    quantize_normal_tensors E s1 = Inr s2 \<and>
    quantize_sharing_param_tensors E s2 = Some (Inr s3) \<and>
    (if quantize_bias s3 then quantize_bias_tensors E s3 else Inr s3) = Inr s4"
  show "removal_recorded s s1"
    using a mark_nodes_records [of s E "[0 ..< length (graph_node (model s))]"] by simp
  show "no_removal s1 s2"
    using a quantize_normal_tensors_loop_no_removal [of s1 E "tensors_to_quantize s1"]
    by (simp add: quantize_normal_tensors_def)
  show "no_removal s2 s3"
    using a sharing_loop_no_removal [of E s2 "Inr s3"] by simp
  show "no_removal s3 s4"
    using a quantize_bias_phase_no_removal [of s3 E] by simp
  show "quantize_model E s = Some (Inr (finish_model s4))"
    using a by (auto simp: quantize_model_def quantize_before_removal_def split: if_splits)
  show "graph_node (model (finish_model s4)) =
        map snd (filter (\<lambda>(r, node). r \<notin> set (nodes_to_remove s4))
                   (zip [0 ..< length (graph_node (model s4))] (graph_node (model s4))))"
    by (rule graph_node_finish_model)
qed

theorem removal_deferred_to_the_end_witness:
  "quantize_before_removal removing_collaborators sample_quantizer = Some (Inr Z1_quantized_quantizer) \<and>
   mark_nodes removing_collaborators [0 ..< length (graph_node (model sample_quantizer))] sample_quantizer
     = Inr marked_quantizer \<and>
   quantize_normal_tensors removing_collaborators marked_quantizer = Inr Y_quantized_quantizer \<and>
   quantize_sharing_param_tensors removing_collaborators Y_quantized_quantizer
     = Some (Inr Z1_quantized_quantizer) \<and>
   (if quantize_bias Z1_quantized_quantizer
    then quantize_bias_tensors removing_collaborators Z1_quantized_quantizer
    else Inr Z1_quantized_quantizer) = Inr Z1_quantized_quantizer \<and>
   nodes_to_remove sample_quantizer = [] \<and>
   nodes_to_remove Z1_quantized_quantizer = [2] \<and>
   map n_name (graph_node (model Z1_quantized_quantizer)) =
     [''conv'', ''relu'', ''sigmoid'', ''Y_QuantizeLinear'', ''Y_DequantizeLinear'',
      ''Z1_QuantizeLinear'', ''Z1_DequantizeLinear''] \<and>
   nodes_kept (model sample_quantizer) (model Z1_quantized_quantizer) \<and>
   removal_recorded sample_quantizer marked_quantizer \<and>
   no_removal marked_quantizer Y_quantized_quantizer \<and>
   no_removal Y_quantized_quantizer Z1_quantized_quantizer \<and>
   quantize_model removing_collaborators sample_quantizer
     = Some (Inr (finish_model Z1_quantized_quantizer)) \<and>
   map n_name (graph_node (model (finish_model Z1_quantized_quantizer))) =
     [''conv'', ''relu'', ''Y_QuantizeLinear'', ''Y_DequantizeLinear'',
      ''Z1_QuantizeLinear'', ''Z1_DequantizeLinear'']"
proof -
  let ?E = removing_collaborators
  have m: "mark_nodes ?E [0 ..< length (graph_node (model sample_quantizer))] sample_quantizer
             = Inr marked_quantizer"
    by (simp only: sample_ids sample_marking)
  have b: "quantize_before_removal ?E sample_quantizer = Some (Inr Z1_quantized_quantizer)"
    using sample_bias
    by (simp add: quantize_before_removal_def m sample_normal sample_sharing split: if_splits)
  note t = removal_deferred_to_the_end [where E = ?E and s = sample_quantizer
      and r = "Inr Z1_quantized_quantizer" and ?s1.0 = marked_quantizer
      and ?s2.0 = Y_quantized_quantizer and ?s3.0 = Z1_quantized_quantizer
      and ?s4.0 = Z1_quantized_quantizer]
  from t b have k: "nodes_kept (model sample_quantizer) (model Z1_quantized_quantizer)"
    by simp
  from t m sample_normal sample_sharing sample_bias
  have c: "removal_recorded sample_quantizer marked_quantizer"
    "no_removal marked_quantizer Y_quantized_quantizer"
    "no_removal Y_quantized_quantizer Z1_quantized_quantizer"
    "quantize_model ?E sample_quantizer = Some (Inr (finish_model Z1_quantized_quantizer))"
    "graph_node (model (finish_model Z1_quantized_quantizer)) =
        map snd (filter (\<lambda>(r, node). r \<notin> set (nodes_to_remove Z1_quantized_quantizer))
                   (zip [0 ..< length (graph_node (model Z1_quantized_quantizer))]
                      (graph_node (model Z1_quantized_quantizer))))"
    by blast+
  have g: "graph_node (model Z1_quantized_quantizer) =
      [\<lparr> n_name = ''conv'', n_op_type = ''Conv'', n_input = [''X'', ''W'', ''B''],
                  n_output = [''Y''], n_axis = None, n_to = None, n_domain = None \<rparr>,
                \<lparr> n_name = ''relu'', n_op_type = ''Relu'', n_input = [''Y_DequantizeLinear_Output''],
                  n_output = [''Z1_QuantizeLinear_Input''], n_axis = None, n_to = None, n_domain = None \<rparr>,
                \<lparr> n_name = ''sigmoid'', n_op_type = ''Sigmoid'', n_input = [''Y_DequantizeLinear_Output''],
                  n_output = [''Z2''], n_axis = None, n_to = None, n_domain = None \<rparr>] @ Y_pair @ Z1_pair"
    by (simp add: Z1_quantized_quantizer_def)
  have f: "map n_name (graph_node (model (finish_model Z1_quantized_quantizer))) =
     [''conv'', ''relu'', ''Y_QuantizeLinear'', ''Y_DequantizeLinear'',
      ''Z1_QuantizeLinear'', ''Z1_DequantizeLinear'']"
    unfolding c(5) sample_before_removal(1) g
    by (simp add: Y_pair_def Z1_pair_def upt_rec)
  have r0: "nodes_to_remove sample_quantizer = []"
    by (simp add: sample_quantizer_def)
  from b m sample_normal sample_sharing sample_bias r0 sample_before_removal k c(1-4) f
  show ?thesis by blast
qed

section \<open>C3: dedicated pairs\<close>

lemma square_ids: "[0 ..< length (graph_node (model square_start_quantizer))] = [0, 1]"
  by (simp add: square_start_quantizer_def square_graph_def upt_rec)

lemma square_marking:
  "mark_nodes reading_collaborators [0, 1] square_start_quantizer = Inr square_marked_quantizer"
  by (simp add: reading_collaborators_def sample_collaborators_def
      quantize_activation_tensor_def quantize_tensor_def
      is_tensor_quantizable_def get_tensor_type_def QDQTensorQuantInfo_init_def float_types_def
      record_receiving_node_def receiving_nodes_def square_marked_quantizer_def
      square_start_quantizer_def activation_info_def
      sample_quantizer_def square_graph_def find_by_name_def)

lemma square_normal:
  "\<exists>s2. quantize_normal_tensors reading_collaborators square_marked_quantizer = Inr s2 \<and>
        tensors_to_quantize s2 = [] \<and> bias_to_quantize s2 = [] \<and> nodes_to_remove s2 = [] \<and>
        map (\<lambda>node. (n_name node, n_input node, n_output node)) (graph_node (model s2)) =
     [(''mul'', [''Y_DequantizeLinear_Output_1'', ''Y_DequantizeLinear_Output_1''], [''Z1'']),
      (''relu'', [''Y_DequantizeLinear_Output_3''], [''Z2'']),
      (''Y_QuantizeLinear_1'', [''Y'', ''Y_scale'', ''Y_zero_point''], [''Y_QuantizeLinear_Output_1'']),
      (''Y_DequantizeLinear_1'', [''Y_QuantizeLinear_Output_1'', ''Y_scale'', ''Y_zero_point''],
         [''Y_DequantizeLinear_Output_1'']),
      (''Y_QuantizeLinear_2'', [''Y'', ''Y_scale'', ''Y_zero_point''], [''Y_QuantizeLinear_Output_2'']),
      (''Y_DequantizeLinear_2'', [''Y_QuantizeLinear_Output_2'', ''Y_scale'', ''Y_zero_point''],
         [''Y_DequantizeLinear_Output_2'']),
      (''Y_QuantizeLinear_3'', [''Y'', ''Y_scale'', ''Y_zero_point''], [''Y_QuantizeLinear_Output_3'']),
      (''Y_DequantizeLinear_3'', [''Y_QuantizeLinear_Output_3'', ''Y_scale'', ''Y_zero_point''],
         [''Y_DequantizeLinear_Output_3''])]"
  by (simp add: quantize_normal_tensors_def quantize_normal_tensor_def
      create_quantization_initializers_def make_initializers_def add_initializer_def
      add_qdq_pair_for_activation_def receiving_nodes_def
      dedicated_pair_round_def create_qdq_nodes_def add_nodes_def
      replace_node_input_at_def replace_node_input_def make_node_def str_nat_Suc
      numeral_2_eq_2 numeral_3_eq_3 QUANT_OP_NAME_def DEQUANT_OP_NAME_def del_tensor_to_quantize_def
      reading_collaborators_def sample_collaborators_def square_marked_quantizer_def
      square_start_quantizer_def activation_info_def sample_params_def Let_def AList.delete_eq
      sample_quantizer_def square_graph_def find_by_name_def)

lemma finish_model_nothing_recorded:
  "nodes_to_remove s = [] \<Longrightarrow> graph_node (model (finish_model s)) = graph_node (model s)"
proof -
  have "map snd (zip [0 ..< length xs] xs) = xs" for xs :: "NodeProto list"
    by (simp add: map_snd_zip)
  then show "nodes_to_remove s = [] \<Longrightarrow> graph_node (model (finish_model s)) = graph_node (model s)"
    by (simp add: graph_node_finish_model)
qed

text \<open>
  C3 does not hold of the code. In dedicated-pair mode, let \<open>mul\<close> read the activation
  \<open>Y\<close> in both of its input slots and \<open>relu\<close> read it once. The marking loop of
  \<open>quantize_model\<close> records a consumer once per input slot, so \<open>Y\<close> has the three
  recorded consumers \<open>mul\<close>, \<open>mul\<close>, \<open>relu\<close>. The pass emits three Q/DQ pairs for
  the two consumer nodes: the first round rewires both slots of \<open>mul\<close> to the first
  pair, the second round finds nothing left to rewire in \<open>mul\<close>, and the output of the
  second DQ node is read by no node of the graph that \<open>quantize_model\<close> returns.
\<close>

theorem dedicated_pairs_repeated_consumer:
  "\<exists>s1 s2.
     mark_nodes reading_collaborators [0 ..< length (graph_node (model square_start_quantizer))]
         square_start_quantizer = Inr s1 \<and>
     dedicated_qdq_pair s1 \<and>
     map (\<lambda>node. (n_name node, n_input node)) (graph_node (model s1)) =
       [(''mul'', [''Y'', ''Y'']), (''relu'', [''Y''])] \<and>
     tensor_to_its_receiving_nodes s1 ''Y'' = Some [0, 0, 1] \<and>
     quantize_normal_tensors reading_collaborators s1 = Inr s2 \<and>
     quantize_model reading_collaborators square_start_quantizer = Some (Inr (finish_model s2)) \<and>
     map (\<lambda>node. (n_name node, n_input node, n_output node)) (graph_node (model (finish_model s2))) =
     [(''mul'', [''Y_DequantizeLinear_Output_1'', ''Y_DequantizeLinear_Output_1''], [''Z1'']),
      (''relu'', [''Y_DequantizeLinear_Output_3''], [''Z2'']),
      (''Y_QuantizeLinear_1'', [''Y'', ''Y_scale'', ''Y_zero_point''], [''Y_QuantizeLinear_Output_1'']),
      (''Y_DequantizeLinear_1'', [''Y_QuantizeLinear_Output_1'', ''Y_scale'', ''Y_zero_point''],
         [''Y_DequantizeLinear_Output_1'']),
      (''Y_QuantizeLinear_2'', [''Y'', ''Y_scale'', ''Y_zero_point''], [''Y_QuantizeLinear_Output_2'']),
      (''Y_DequantizeLinear_2'', [''Y_QuantizeLinear_Output_2'', ''Y_scale'', ''Y_zero_point''],
         [''Y_DequantizeLinear_Output_2'']),
      (''Y_QuantizeLinear_3'', [''Y'', ''Y_scale'', ''Y_zero_point''], [''Y_QuantizeLinear_Output_3'']),
      (''Y_DequantizeLinear_3'', [''Y_QuantizeLinear_Output_3'', ''Y_scale'', ''Y_zero_point''],
         [''Y_DequantizeLinear_Output_3''])] \<and>
     \<not> list_ex (\<lambda>node. ''Y_DequantizeLinear_Output_2'' \<in> set (n_input node))
         (graph_node (model (finish_model s2)))"
proof -
  let ?E = reading_collaborators
  let ?view = "\<lambda>node. (n_name node, n_input node, n_output node)"
  from square_normal obtain s2 where
    n: "quantize_normal_tensors ?E square_marked_quantizer = Inr s2" and
    e: "tensors_to_quantize s2 = []" "bias_to_quantize s2 = []" "nodes_to_remove s2 = []" and
    g: "map ?view (graph_node (model s2)) =
     [(''mul'', [''Y_DequantizeLinear_Output_1'', ''Y_DequantizeLinear_Output_1''], [''Z1'']),
      (''relu'', [''Y_DequantizeLinear_Output_3''], [''Z2'']),
      (''Y_QuantizeLinear_1'', [''Y'', ''Y_scale'', ''Y_zero_point''], [''Y_QuantizeLinear_Output_1'']),
      (''Y_DequantizeLinear_1'', [''Y_QuantizeLinear_Output_1'', ''Y_scale'', ''Y_zero_point''],
         [''Y_DequantizeLinear_Output_1'']),
      (''Y_QuantizeLinear_2'', [''Y'', ''Y_scale'', ''Y_zero_point''], [''Y_QuantizeLinear_Output_2'']),
      (''Y_DequantizeLinear_2'', [''Y_QuantizeLinear_Output_2'', ''Y_scale'', ''Y_zero_point''],
         [''Y_DequantizeLinear_Output_2'']),
      (''Y_QuantizeLinear_3'', [''Y'', ''Y_scale'', ''Y_zero_point''], [''Y_QuantizeLinear_Output_3'']),
      (''Y_DequantizeLinear_3'', [''Y_QuantizeLinear_Output_3'', ''Y_scale'', ''Y_zero_point''],
         [''Y_DequantizeLinear_Output_3''])]"
    by (elim exE conjE) (rule that; assumption)
  have m: "mark_nodes ?E [0 ..< length (graph_node (model square_start_quantizer))]
         square_start_quantizer = Inr square_marked_quantizer"
    by (simp only: square_ids square_marking)
  have m1: "dedicated_qdq_pair square_marked_quantizer"
    "map (\<lambda>node. (n_name node, n_input node)) (graph_node (model square_marked_quantizer)) =
       [(''mul'', [''Y'', ''Y'']), (''relu'', [''Y''])]"
    "tensor_to_its_receiving_nodes square_marked_quantizer ''Y'' = Some [0, 0, 1]"
    by (simp_all add: square_marked_quantizer_def square_start_quantizer_def square_graph_def)
  have sh: "quantize_sharing_param_tensors ?E s2 = Some (Inr s2)"
    by (subst quantize_sharing_param_tensors.simps) (simp add: e(1))
  have bi: "(if quantize_bias s2 then quantize_bias_tensors ?E s2 else Inr s2) = Inr s2"
    by (simp add: quantize_bias_tensors_def e(2))
  have qm: "quantize_model ?E square_start_quantizer = Some (Inr (finish_model s2))"
    using bi by (simp add: quantize_model_def quantize_before_removal_def m n sh split: if_splits)
  have f: "graph_node (model (finish_model s2)) = graph_node (model s2)"
    using e(3) by (rule finish_model_nothing_recorded)
  have v: "list_ex (\<lambda>node. x \<in> set (n_input node)) xs
          = list_ex (\<lambda>p. x \<in> set (fst (snd p))) (map ?view xs)" for x xs
    by (simp add: list_ex_iff)
  have u: "\<not> list_ex (\<lambda>node. ''Y_DequantizeLinear_Output_2'' \<in> set (n_input node))
         (graph_node (model (finish_model s2)))"
    unfolding f v g by simp
  show ?thesis
    by (rule exI [of _ square_marked_quantizer], rule exI [of _ s2], intro conjI)
      (rule m m1 n qm u | simp only: f g)+
qed

text \<open>
  The rewriter alone, on the state the marking loop leaves: three pairs for the recorded
  consumers \<open>mul\<close>, \<open>mul\<close>, \<open>relu\<close>, the first feeding both slots of \<open>mul\<close>, the
  second feeding nobody.
\<close>

theorem dedicated_pairs_duplicate_consumer_counterexample:
  "dedicated_qdq_pair square_quantizer \<and>
   tensor_to_its_receiving_nodes square_quantizer ''Y'' = Some [0, 0, 1] \<and>
   map (\<lambda>node. (n_name node, n_input node, n_output node))
     (graph_node (model (add_qdq_pair_for_activation sample_collaborators square_quantizer
        ''Y'' ''Y_scale'' ''Y_zero_point'' None))) =
     [(''mul'', [''Y_DequantizeLinear_Output_1'', ''Y_DequantizeLinear_Output_1''], [''Z1'']),
      (''relu'', [''Y_DequantizeLinear_Output_3''], [''Z2'']),
      (''Y_QuantizeLinear_1'', [''Y'', ''Y_scale'', ''Y_zero_point''], [''Y_QuantizeLinear_Output_1'']),
      (''Y_DequantizeLinear_1'', [''Y_QuantizeLinear_Output_1'', ''Y_scale'', ''Y_zero_point''],
         [''Y_DequantizeLinear_Output_1'']),
      (''Y_QuantizeLinear_2'', [''Y'', ''Y_scale'', ''Y_zero_point''], [''Y_QuantizeLinear_Output_2'']),
      (''Y_DequantizeLinear_2'', [''Y_QuantizeLinear_Output_2'', ''Y_scale'', ''Y_zero_point''],
         [''Y_DequantizeLinear_Output_2'']),
      (''Y_QuantizeLinear_3'', [''Y'', ''Y_scale'', ''Y_zero_point''], [''Y_QuantizeLinear_Output_3'']),
      (''Y_DequantizeLinear_3'', [''Y_QuantizeLinear_Output_3'', ''Y_scale'', ''Y_zero_point''],
         [''Y_DequantizeLinear_Output_3''])] \<and>
   \<not> list_ex (\<lambda>node. ''Y_DequantizeLinear_Output_2'' \<in> set (n_input node))
       (graph_node (model (add_qdq_pair_for_activation sample_collaborators square_quantizer
          ''Y'' ''Y_scale'' ''Y_zero_point'' None)))"
  by (simp add: add_qdq_pair_for_activation_def receiving_nodes_def square_quantizer_def
      sample_quantizer_def square_graph_def dedicated_pair_round_def Let_def create_qdq_nodes_def
      add_nodes_def replace_node_input_at_def replace_node_input_def make_node_def str_nat_Suc
      numeral_2_eq_2 numeral_3_eq_3)

text \<open>
  When the \<open>N > 1\<close> recorded consumers of the tensor are pairwise different nodes of
  the graph, the rewriter does what C3 asks: it appends exactly \<open>N\<close> Q nodes and \<open>N\<close>
  DQ nodes, all reading the same scale and zero-point names; the outputs of the DQ nodes
  carry pairwise different suffixes; the \<open>i\<close>-th consumer, and no other node that was in
  the graph, has its reads of the tensor replaced by the \<open>i\<close>-th DQ output; and the
  entry in \<open>quantized_value_map\<close> names the first pair's dequantized output only.
\<close>

theorem dedicated_pairs_for_distinct_consumers:
  assumes "dedicated_qdq_pair s" "tensor_to_its_receiving_nodes s t = Some recv" "1 < length recv"
    "distinct recv" "\<forall>r \<in> set recv. r < length (graph_node (model s))"
  shows "\<exists>old'.
      graph_node (model (add_qdq_pair_for_activation E s t sc zp dt)) =
        old' @ concat (map (\<lambda>i. [Q_node E (qdq_op_domain s) t sc zp i, DQ_node E (qdq_op_domain s) t sc zp i])
                         [0 ..< length recv]) \<and>
      length old' = length (graph_node (model s)) \<and>
      (\<forall>i < length recv.
         old' ! (recv ! i) = replace_node_input (graph_node (model s) ! (recv ! i)) t (dq_name E t i) \<and>
         n_input (Q_node E (qdq_op_domain s) t sc zp i) = [t, sc, zp] \<and>
         n_input (DQ_node E (qdq_op_domain s) t sc zp i)
           = n_output (Q_node E (qdq_op_domain s) t sc zp i) @ [sc, zp] \<and>
         n_output (DQ_node E (qdq_op_domain s) t sc zp i) = [dq_name E t i]) \<and>
      (\<forall>j < length (graph_node (model s)). j \<notin> set recv \<longrightarrow> old' ! j = graph_node (model s) ! j) \<and>
      distinct (map (dq_name E t) [0 ..< length recv]) \<and>
      quantized_value_map (add_qdq_pair_for_activation E s t sc zp dt) =
        (quantized_value_map s)(t \<mapsto> QDQTensorQuantizedValue_init
           (QuantizedValue_init t (dq_name E t 0) sc zp Input None None None dt) None None)"
proof -
  let ?old = "graph_node (model s)"
  let ?n = "length recv"
  have r: "receiving_nodes s t = recv"
    using assms(2) by (simp add: receiving_nodes_def)
  have "add_qdq_pair_for_activation E s t sc zp dt =
          fold (dedicated_pair_round E t sc zp dt recv) [0 ..< ?n] s"
    using assms(1,2,3) r by (simp add: add_qdq_pair_for_activation_def)
  also have "\<dots> = s\<lparr> model := (model s)\<lparr> graph_node :=
            rewired E t recv ?old ?n
              @ concat (map (\<lambda>i. [Q_node E (qdq_op_domain s) t sc zp i, DQ_node E (qdq_op_domain s) t sc zp i])
                          [0 ..< ?n]) \<rparr>,
        quantized_value_map :=
          (quantized_value_map s)(t \<mapsto> QDQTensorQuantizedValue_init
                    (QuantizedValue_init t (dq_name E t 0) sc zp Input None None None dt) None None) \<rparr>"
  proof -
    have "?n \<noteq> 0" using assms(3) by auto
    then show ?thesis
      using fold_rounds [OF refl assms(5) le_refl, of E t sc zp dt] by (simp only: if_False)
  qed
  finally have eq: "add_qdq_pair_for_activation E s t sc zp dt = \<dots>" .
  have c: "\<forall>i < ?n. rewired E t recv ?old ?n ! (recv ! i)
              = replace_node_input (?old ! (recv ! i)) t (dq_name E t i)"
    using rewired_consumer [OF le_refl assms(4,5)] by blast
  have o: "\<forall>j < length ?old. j \<notin> set recv \<longrightarrow> rewired E t recv ?old ?n ! j = ?old ! j"
    using rewired_other [of ?n recv _ E t ?old] by simp
  show ?thesis
    apply (rule exI [of _ "rewired E t recv ?old ?n"])
    using c o distinct_dq_names [of E t ?n]
    apply (simp add: eq Q_node_def DQ_node_def make_node_def)
    done
qed

theorem dedicated_pairs_for_distinct_consumers_witness:
  "dedicated_qdq_pair dedicated_quantizer \<and>
   tensor_to_its_receiving_nodes dedicated_quantizer ''Y'' = Some [1, 2] \<and>
   1 < length [1::nat, 2] \<and> distinct [1::nat, 2] \<and>
   list_all (\<lambda>r. r < length (graph_node (model dedicated_quantizer))) [1, 2] \<and>
   length (graph_node (model (add_qdq_pair_for_activation sample_collaborators dedicated_quantizer
              ''Y'' ''Y_scale'' ''Y_zero_point'' (Some FLOAT)))) = 7 \<and>
   n_input (graph_node (model (add_qdq_pair_for_activation sample_collaborators dedicated_quantizer
              ''Y'' ''Y_scale'' ''Y_zero_point'' (Some FLOAT))) ! 1) = [''Y_DequantizeLinear_Output_1''] \<and>
   n_input (graph_node (model (add_qdq_pair_for_activation sample_collaborators dedicated_quantizer
              ''Y'' ''Y_scale'' ''Y_zero_point'' (Some FLOAT))) ! 2) = [''Y_DequantizeLinear_Output_2''] \<and>
   n_input (graph_node (model (add_qdq_pair_for_activation sample_collaborators dedicated_quantizer
              ''Y'' ''Y_scale'' ''Y_zero_point'' (Some FLOAT))) ! 0) = [''X'', ''W'', ''B'']"
proof -
  let ?s' = "add_qdq_pair_for_activation sample_collaborators dedicated_quantizer
              ''Y'' ''Y_scale'' ''Y_zero_point'' (Some FLOAT)"
  have h: "dedicated_qdq_pair dedicated_quantizer"
    "tensor_to_its_receiving_nodes dedicated_quantizer ''Y'' = Some [1, 2]"
    "1 < length [1::nat, 2]" "distinct [1::nat, 2]"
    "\<forall>r \<in> set [1, 2]. r < length (graph_node (model dedicated_quantizer))"
    by (simp_all add: dedicated_quantizer_def sample_quantizer_def sample_graph_def)
  have g: "graph_node (model dedicated_quantizer) = graph_node sample_graph"
    by (simp add: dedicated_quantizer_def sample_quantizer_def)
  from dedicated_pairs_for_distinct_consumers [OF h, of sample_collaborators "''Y_scale''" "''Y_zero_point''" "Some FLOAT"]
  obtain old' where
    n: "graph_node (model ?s') =
          old' @ concat (map (\<lambda>i. [Q_node sample_collaborators (qdq_op_domain dedicated_quantizer) ''Y'' ''Y_scale'' ''Y_zero_point'' i,
                                     DQ_node sample_collaborators (qdq_op_domain dedicated_quantizer) ''Y'' ''Y_scale'' ''Y_zero_point'' i])
                         [0 ..< length [1::nat, 2]])"
    and l: "length old' = length (graph_node (model dedicated_quantizer))"
    and c: "\<forall>i < length [1::nat, 2].
         old' ! ([1, 2] ! i) = replace_node_input (graph_node (model dedicated_quantizer) ! ([1, 2] ! i)) ''Y''
                                 (dq_name sample_collaborators ''Y'' i)"
    and o: "\<forall>j < length (graph_node (model dedicated_quantizer)). j \<notin> set [1, 2] \<longrightarrow>
               old' ! j = graph_node (model dedicated_quantizer) ! j"
    by blast
  from l have l3: "length old' = 3" by (simp add: g sample_graph_def)
  from c have c0: "old' ! 1 = replace_node_input (graph_node sample_graph ! 1) ''Y'' (dq_name sample_collaborators ''Y'' 0)"
    and c1: "old' ! 2 = replace_node_input (graph_node sample_graph ! 2) ''Y'' (dq_name sample_collaborators ''Y'' 1)"
    by (auto simp: g)
  from o have o0: "old' ! 0 = graph_node sample_graph ! 0"
    by (simp add: g sample_graph_def)
  have len: "length (graph_node (model ?s')) = 7"
    by (simp add: n l3)
  have n1: "graph_node (model ?s') ! 1 = old' ! 1" "graph_node (model ?s') ! 2 = old' ! 2"
    "graph_node (model ?s') ! 0 = old' ! 0"
    by (simp_all add: n nth_append l3)
  show ?thesis
    using h(1,2) len n1 c0 c1 o0
    by (simp add: g sample_graph_def replace_node_input_def dq_name_def str_nat_Suc)
qed

section \<open>C6: one record per tensor, and quantizing again\<close>

lemma graph_node_foldl_add_initializer:
  "graph_node (foldl add_initializer m tps) = graph_node m"
  by (induction tps arbitrary: m) (simp_all add: add_initializer_def)

lemma quantize_initializer_once:
  assumes "quantize_initializer E s w qT rr kf = Inr ((q, zp, sc), s1)"
  shows "\<exists>v. quantized_value_map s1 = (quantized_value_map s)(tp_name w \<mapsto> v) \<and>
             (q_name (original v), zp_name (original v), scale_name (original v)) = (q, zp, sc)"
    and "graph_node (model s1) = graph_node (model s)"
    and "quantized_value_map s (tp_name w) \<noteq> None \<Longrightarrow> s1 = s"
    and "quantize_initializer E s1 w qT' rr' kf' = Inr ((q, zp, sc), s1)"
proof -
  show "\<exists>v. quantized_value_map s1 = (quantized_value_map s)(tp_name w \<mapsto> v) \<and>
             (q_name (original v), zp_name (original v), scale_name (original v)) = (q, zp, sc)"
  proof (cases "quantized_value_map s (tp_name w)")
    case None
    with assms show ?thesis
      by (auto simp: quantize_initializer_def Let_def register_initializers_def
          QDQTensorQuantizedValue_init_def QuantizedValue_init_def split: sum.splits)
  next
    case (Some stored)
    with assms have "s1 = s" "(q_name (original stored), zp_name (original stored), scale_name (original stored)) = (q, zp, sc)"
      by (simp_all add: quantize_initializer_def Let_def)
    moreover from Some have "quantized_value_map s = (quantized_value_map s)(tp_name w \<mapsto> stored)"
      by (simp add: map_upd_triv)
    ultimately show ?thesis by blast
  qed
  show "graph_node (model s1) = graph_node (model s)"
    using assms
    by (auto simp: quantize_initializer_def Let_def register_initializers_def
        graph_node_foldl_add_initializer split: option.splits sum.splits)
  show "quantized_value_map s (tp_name w) \<noteq> None \<Longrightarrow> s1 = s"
    using assms by (auto simp: quantize_initializer_def Let_def)
  show "quantize_initializer E s1 w qT' rr' kf' = Inr ((q, zp, sc), s1)"
    using assms
    by (auto simp: quantize_initializer_def Let_def register_initializers_def
        QDQTensorQuantizedValue_init_def QuantizedValue_init_def split: option.splits sum.splits)
qed

lemma quantize_weight_per_channel_once:
  assumes "quantize_weight_per_channel E s wn qT ax rr kf = Inr ((q, zp, sc), s1)"
  shows "\<exists>v. quantized_value_map s1 = (quantized_value_map s)(wn \<mapsto> v) \<and>
             (q_name (original v), zp_name (original v), scale_name (original v)) = (q, zp, sc)"
    and "graph_node (model s1) = graph_node (model s)"
    and "quantized_value_map s wn \<noteq> None \<Longrightarrow> s1 = s"
    and "quantize_weight_per_channel E s1 wn qT' ax' rr' kf' = Inr ((q, zp, sc), s1)"
proof -
  show "\<exists>v. quantized_value_map s1 = (quantized_value_map s)(wn \<mapsto> v) \<and>
             (q_name (original v), zp_name (original v), scale_name (original v)) = (q, zp, sc)"
  proof (cases "quantized_value_map s wn")
    case None
    with assms show ?thesis
      by (auto simp: quantize_weight_per_channel_def Let_def register_initializers_def
          QDQTensorQuantizedValue_init_def QuantizedValue_init_def split: sum.splits)
  next
    case (Some stored)
    with assms have "s1 = s" "(q_name (original stored), zp_name (original stored), scale_name (original stored)) = (q, zp, sc)"
      by (simp_all add: quantize_weight_per_channel_def Let_def)
    moreover from Some have "quantized_value_map s = (quantized_value_map s)(wn \<mapsto> stored)"
      by (simp add: map_upd_triv)
    ultimately show ?thesis by blast
  qed
  show "graph_node (model s1) = graph_node (model s)"
    using assms
    by (auto simp: quantize_weight_per_channel_def Let_def register_initializers_def
        graph_node_foldl_add_initializer split: option.splits sum.splits)
  show "quantized_value_map s wn \<noteq> None \<Longrightarrow> s1 = s"
    using assms by (auto simp: quantize_weight_per_channel_def Let_def)
  show "quantize_weight_per_channel E s1 wn qT' ax' rr' kf' = Inr ((q, zp, sc), s1)"
    using assms
    by (auto simp: quantize_weight_per_channel_def Let_def register_initializers_def
        QDQTensorQuantizedValue_init_def QuantizedValue_init_def split: option.splits sum.splits)
qed

lemma quantize_bias_static_once:
  assumes "quantize_bias_static E s n b i wn beta = Inr (q, s1)"
  shows "\<exists>v. quantized_value_map s1 = (quantized_value_map s)(b \<mapsto> v) \<and> q_name (original v) = q"
    and "graph_node (model s1) = graph_node (model s)"
    and "quantized_value_map s b \<noteq> None \<Longrightarrow> s1 = s"
    and "quantize_bias_static E s1 n' b i' wn' beta' = Inr (q, s1)"
proof -
  show "\<exists>v. quantized_value_map s1 = (quantized_value_map s)(b \<mapsto> v) \<and> q_name (original v) = q"
  proof (cases "quantized_value_map s b")
    case None
    with assms show ?thesis
      by (auto simp: quantize_bias_static_def Let_def register_initializers_def
          QDQTensorQuantizedValue_init_def QuantizedValue_init_def split: option.splits sum.splits)
  next
    case (Some stored)
    with assms have "s1 = s" "q_name (original stored) = q"
      by (simp_all add: quantize_bias_static_def)
    moreover from Some have "quantized_value_map s = (quantized_value_map s)(b \<mapsto> stored)"
      by (simp add: map_upd_triv)
    ultimately show ?thesis by blast
  qed
  show "graph_node (model s1) = graph_node (model s)"
    using assms
    by (auto simp: quantize_bias_static_def Let_def register_initializers_def
        graph_node_foldl_add_initializer split: option.splits sum.splits)
  show "quantized_value_map s b \<noteq> None \<Longrightarrow> s1 = s"
    using assms by (auto simp: quantize_bias_static_def)
  show "quantize_bias_static E s1 n' b i' wn' beta' = Inr (q, s1)"
    using assms
    by (auto simp: quantize_bias_static_def Let_def register_initializers_def
        QDQTensorQuantizedValue_init_def QuantizedValue_init_def split: option.splits sum.splits)
qed

subsection \<open>The passes create one record for each registered tensor\<close>

lemma find_by_name_tp_name: "find_by_name n inits = Some w \<Longrightarrow> tp_name w = n"
  by (auto simp: find_by_name_def find_Some_iff)

lemma add_qdq_pair_for_initializer_Inr:
  assumes "add_qdq_pair_for_initializer E s w tt ax = Inr s'"
  shows "resolved_as (tp_name w) s s'"
proof -
  let ?q = "case ax of
                 Some a \<Rightarrow>
                   if opset_version s < 13
                   then Inl (ValueError ''Per-Channel support requires opset 13'', s)
                   else quantize_weight_per_channel E s (tp_name w)
                          (if activation_qType s = UINT8 then INT8 else activation_qType s)
                          a True (add_qdq_pair_to_weight s)
               | None \<Rightarrow>
                   quantize_initializer E s w
                     (if tt = WEIGHT then weight_qType s else activation_qType s)
                     False (add_qdq_pair_to_weight s)"
  have c: "case ?q of Inl (e, s') \<Rightarrow> s' = s | Inr (names, s') \<Rightarrow> resolved_as (tp_name w) s s'"
    using quantize_initializer_cases [where E = E and s = s and w = w]
      quantize_weight_per_channel_cases [where E = E and s = s and wn = "tp_name w"]
    by (cases ax) simp_all
  show ?thesis
  proof (cases ?q)
    case (Inl a)
    with assms show ?thesis
      by (simp add: add_qdq_pair_for_initializer_def Let_def)
  next
    case (Inr b)
    obtain q zp sc s1 where b: "b = ((q, zp, sc), s1)" by (cases b) auto
    with Inr c have r: "resolved_as (tp_name w) s s1" by simp
    let ?s2 = "s1\<lparr> model := replace_input_of_all_nodes (model s1) (tp_name w)
                                (add_dequant_output_suffix E (tp_name w)) \<rparr>"
    have g1: "graph_step s1 (create_qdq_nodes ?s2 (tp_name w) (add_quant_output_suffix E (tp_name w))
                                 (add_quant_suffix E (tp_name w)) (add_quant_output_suffix E (tp_name w))
                                 (add_dequant_output_suffix E (tp_name w))
                                 (add_dequant_suffix E (tp_name w)) sc zp ax)"
      by (intro graph_step_intros)
    have g2: "graph_step s1 (?s2\<lparr> model := add_node (model ?s2)
                             (make_node DEQUANT_OP_NAME [q, sc, zp]
                                [add_dequant_output_suffix E (tp_name w)] (add_dequant_suffix E (tp_name w)) ax
                                (qdq_op_domain ?s2)) \<rparr>)"
      by (intro graph_step_intros)
    from Inr b assms have "s' =
        (if add_qdq_pair_to_weight ?s2
         then create_qdq_nodes ?s2 (tp_name w) (add_quant_output_suffix E (tp_name w))
                                 (add_quant_suffix E (tp_name w)) (add_quant_output_suffix E (tp_name w))
                                 (add_dequant_output_suffix E (tp_name w))
                                 (add_dequant_suffix E (tp_name w)) sc zp ax
         else ?s2\<lparr> model := add_node (model ?s2)
                             (make_node DEQUANT_OP_NAME [q, sc, zp]
                                [add_dequant_output_suffix E (tp_name w)] (add_dequant_suffix E (tp_name w)) ax
                                (qdq_op_domain ?s2)) \<rparr>)"
      by (auto simp: add_qdq_pair_for_initializer_def Let_def split: if_splits)
    with g1 g2 have "graph_step s1 s'" by simp
    with r show ?thesis by (rule resolved_as_then_step)
  qed
qed

lemma quantize_normal_tensor_Inr:
  assumes "quantize_normal_tensor E t info s = Inr s'"
  shows "\<exists>s2. resolved_as t s s2 \<and> s' = s2\<lparr> tensors_to_quantize := AList.delete t (tensors_to_quantize s2) \<rparr>"
proof -
  let ?inner = "case find_by_name t (graph_initializer (model s)) of
              Some initializer \<Rightarrow>
                add_qdq_pair_for_initializer E s initializer (tensor_type info) (axis info)
            | None \<Rightarrow>
                (case create_quantization_initializers s t of
                   Inl e \<Rightarrow> Inl e
                 | Inr (None, self1) \<Rightarrow>
                     Inl (ValueError ''Quantization parameters are not specified'', self1)
                 | Inr (Some quant_params_initializers, self1) \<Rightarrow>
                     (case pi_converted quant_params_initializers of
                        None \<Rightarrow>
                          Inr (add_qdq_pair_for_activation E self1 t
                                 (tp_name (i_scale (pi_original quant_params_initializers)))
                                 (tp_name (i_zero_point (pi_original quant_params_initializers)))
                                 (Some (data_type info)))
                      | Some conv \<Rightarrow>
                          if data_type info
                               \<noteq> tp_data_type (i_scale (pi_original quant_params_initializers))
                          then Inl (AssertionError, self1)
                          else add_qdq_ops_for_converted_activation E self1 t
                                 (tp_name (i_scale (pi_original quant_params_initializers)))
                                 (tp_name (i_zero_point (pi_original quant_params_initializers)))
                                 (Some (data_type info))
                                 (tp_name (i_scale conv)) (tp_name (i_zero_point conv))
                                 (pi_converted_recv_nodes quant_params_initializers)))"
  from assms obtain s2 where i: "?inner = Inr s2" and d: "del_tensor_to_quantize s2 t = Inr s'"
    unfolding quantize_normal_tensor_def by (cases ?inner) auto
  from d have s': "s' = s2\<lparr> tensors_to_quantize := AList.delete t (tensors_to_quantize s2) \<rparr>"
    by (auto simp: del_tensor_to_quantize_def split: if_splits)
  have "resolved_as t s s2"
  proof (cases "find_by_name t (graph_initializer (model s))")
    case (Some w)
    with i have "add_qdq_pair_for_initializer E s w (tensor_type info) (axis info) = Inr s2" by simp
    then have "resolved_as (tp_name w) s s2" by (rule add_qdq_pair_for_initializer_Inr)
    with Some show ?thesis by (simp add: find_by_name_tp_name)
  next
    case None
    show ?thesis
    proof (cases "create_quantization_initializers s t")
      case (Inl a)
      with None i show ?thesis by simp
    next
      case (Inr b)
      obtain r s1 where b: "b = (r, s1)" by (cases b)
      with Inr have g: "graph_step s s1" using create_quantization_initializers_step(2) by blast
      show ?thesis
      proof (cases r)
        case None
        with \<open>find_by_name t (graph_initializer (model s)) = None\<close> Inr b i show ?thesis by simp
      next
        case (Some qpi)
        show ?thesis
        proof (cases "pi_converted qpi")
          case None
          with \<open>find_by_name t (graph_initializer (model s)) = None\<close> Inr b Some i
          have "s2 = add_qdq_pair_for_activation E s1 t
                                 (tp_name (i_scale (pi_original qpi)))
                                 (tp_name (i_zero_point (pi_original qpi)))
                                 (Some (data_type info))"
            by simp
          then have "resolved_as t s1 s2" by (simp only: add_qdq_pair_for_activation_step)
          with g show ?thesis by (rule step_then_resolved_as)
        next
          case conv: (Some conv)
          with \<open>find_by_name t (graph_initializer (model s)) = None\<close> Inr b Some i
          have "\<exists>a1 a2 a3 a4 a5 a6.
              add_qdq_ops_for_converted_activation E s1 t a1 a2 a3 a4 a5 a6 = Inr s2"
            by (simp split: if_splits) blast
          then have "resolved_as t s1 s2" using converted_activation_step by blast
          with g show ?thesis by (rule step_then_resolved_as)
        qed
      qed
    qed
  qed
  with s' show ?thesis by blast
qed

lemma quantize_normal_tensor_effect:
  assumes "quantize_normal_tensor E t info s = Inr s'"
  shows "\<exists>v. quantized_value_map s' = (quantized_value_map s)(t \<mapsto> v)"
    "tensors_to_quantize s' = filter (\<lambda>kv. fst kv \<noteq> t) (tensors_to_quantize s)"
    "bias_to_quantize s' = bias_to_quantize s"
    "quantize_bias s' = quantize_bias s"
proof -
  from quantize_normal_tensor_Inr [OF assms] obtain s2 where
    r: "resolved_as t s s2" and s': "s' = s2\<lparr> tensors_to_quantize := AList.delete t (tensors_to_quantize s2) \<rparr>"
    by blast
  note f = resolved_as_fields [OF r]
  have d: "AList.delete t (tensors_to_quantize s) = filter (\<lambda>kv. fst kv \<noteq> t) (tensors_to_quantize s)"
    by (auto simp: AList.delete_eq intro: filter_cong)
  show "\<exists>v. quantized_value_map s' = (quantized_value_map s)(t \<mapsto> v)"
    using f(2) s' by simp
  show "tensors_to_quantize s' = filter (\<lambda>kv. fst kv \<noteq> t) (tensors_to_quantize s)"
    using f(1) s' d by simp
  show "bias_to_quantize s' = bias_to_quantize s" using f(4) s' by simp
  show "quantize_bias s' = quantize_bias s" using f(8) s' by simp
qed

lemma normal_loop_records:
  assumes "quantize_normal_tensors_loop E xs s = Inr s'"
  shows "map_le (quantized_value_map s) (quantized_value_map s') \<and>
         dom (quantized_value_map s') =
           dom (quantized_value_map s) \<union> {t. \<exists>info. (t, info) \<in> set xs \<and> \<not> is_shared info} \<and>
         tensors_to_quantize s' =
           filter (\<lambda>kv. fst kv \<notin> dom (quantized_value_map s') - dom (quantized_value_map s))
             (tensors_to_quantize s) \<and>
         bias_to_quantize s' = bias_to_quantize s \<and> quantize_bias s' = quantize_bias s"
  using assms
proof (induction xs arbitrary: s)
  case Nil
  then show ?case by simp
next
  case (Cons x xs)
  obtain t info where x: "x = (t, info)" by (cases x)
  show ?case
  proof (cases "quantized_value_map s t \<noteq> None")
    case True
    with Cons.prems x have "quantize_normal_tensors_loop E xs s = Inr s'" by simp
    note ih = Cons.IH [OF this]
    have "dom (quantized_value_map s) \<union> {t. \<exists>info. (t, info) \<in> set (x # xs) \<and> \<not> is_shared info}
        = dom (quantized_value_map s) \<union> {t. \<exists>info. (t, info) \<in> set xs \<and> \<not> is_shared info}"
      using True x by auto
    with ih show ?thesis by (simp only:)
  next
    case unresolved: False
    show ?thesis
    proof (cases "is_shared info")
      case True
      with Cons.prems x unresolved have "quantize_normal_tensors_loop E xs s = Inr s'" by simp
      note ih = Cons.IH [OF this]
      have "dom (quantized_value_map s) \<union> {t. \<exists>info. (t, info) \<in> set (x # xs) \<and> \<not> is_shared info}
          = dom (quantized_value_map s) \<union> {t. \<exists>info. (t, info) \<in> set xs \<and> \<not> is_shared info}"
        using True x by auto
      with ih show ?thesis by (simp only:)
    next
      case False
      with Cons.prems x unresolved obtain s1 where
        b: "quantize_normal_tensor E t info s = Inr s1" and
        rest: "quantize_normal_tensors_loop E xs s1 = Inr s'"
        by (auto split: sum.splits)
      note e = quantize_normal_tensor_effect [OF b]
      from e(1) obtain v where v: "quantized_value_map s1 = (quantized_value_map s)(t \<mapsto> v)" by blast
      from Cons.IH [OF rest] have
        ih1: "map_le (quantized_value_map s1) (quantized_value_map s')" and
        ih2: "dom (quantized_value_map s') =
           dom (quantized_value_map s1) \<union> {t. \<exists>info. (t, info) \<in> set xs \<and> \<not> is_shared info}" and
        ih3: "tensors_to_quantize s' =
           filter (\<lambda>kv. fst kv \<notin> dom (quantized_value_map s') - dom (quantized_value_map s1))
             (tensors_to_quantize s1)" and
        ih4: "bias_to_quantize s' = bias_to_quantize s1" "quantize_bias s' = quantize_bias s1"
        by blast+
      from v unresolved have le1: "map_le (quantized_value_map s) (quantized_value_map s1)"
        by (auto simp: map_le_def)
      with ih1 have le: "map_le (quantized_value_map s) (quantized_value_map s')"
        by (blast intro: map_le_trans)
      have d1: "dom (quantized_value_map s1) = insert t (dom (quantized_value_map s))"
        using v by auto
      have d: "dom (quantized_value_map s') =
           dom (quantized_value_map s) \<union> {t. \<exists>info. (t, info) \<in> set (x # xs) \<and> \<not> is_shared info}"
        using ih2 d1 x False by auto
      have td: "t \<in> dom (quantized_value_map s')" "t \<notin> dom (quantized_value_map s)"
        using d x False unresolved by auto
      have "tensors_to_quantize s' =
           filter (\<lambda>kv. fst kv \<notin> dom (quantized_value_map s') - dom (quantized_value_map s1))
             (filter (\<lambda>kv. fst kv \<noteq> t) (tensors_to_quantize s))"
        using ih3 by (simp only: e(2))
      also have "\<dots> = filter (\<lambda>kv. fst kv \<notin> dom (quantized_value_map s') - dom (quantized_value_map s))
             (tensors_to_quantize s)"
        unfolding filter_filter using td by (intro filter_cong refl) (auto simp: d1)
      finally have q: "tensors_to_quantize s' =
           filter (\<lambda>kv. fst kv \<notin> dom (quantized_value_map s') - dom (quantized_value_map s))
             (tensors_to_quantize s)" .
      from ih4 e(3,4) have b: "bias_to_quantize s' = bias_to_quantize s" "quantize_bias s' = quantize_bias s"
        by simp_all
      from le d q b show ?thesis by (intro conjI)
    qed
  qed
qed

lemma sharing_body_record:
  assumes "quantize_sharing_param_tensor E t p pv s = Inr s'"
  shows "\<exists>v. quantized_value_map s' = (quantized_value_map s)(t \<mapsto> v)"
    "bias_to_quantize s' = bias_to_quantize s" "quantize_bias s' = quantize_bias s"
proof -
  note f = resolved_as_fields [OF sharing_body_Inr [OF assms]]
  show "\<exists>v. quantized_value_map s' = (quantized_value_map s)(t \<mapsto> v)" using f(2) by simp
  show "bias_to_quantize s' = bias_to_quantize s" using f(4) by simp
  show "quantize_bias s' = quantize_bias s" using f(8) by simp
qed

lemma sharing_body_Inr_present:
  assumes "quantize_sharing_param_tensor E t p pv s = Inr s'"
  shows "t \<in> fst ` set (tensors_to_quantize s)"
proof -
  from assms have "map_of (tensors_to_quantize s) t \<noteq> None"
    by (auto simp: quantize_sharing_param_tensor_def del_tensor_to_quantize_def split: if_splits)
  then show ?thesis
    by (metis domIff dom_map_of_conv_image_fst)
qed

lemma sharing_scan_records:
  assumes "sharing_scan E xs s = Inr s'"
  shows "bias_to_quantize s' = bias_to_quantize s \<and> quantize_bias s' = quantize_bias s \<and>
         (fst ` set (tensors_to_quantize s) \<inter> dom (quantized_value_map s) = {} \<longrightarrow>
            map_le (quantized_value_map s) (quantized_value_map s') \<and>
            fst ` set (tensors_to_quantize s') \<inter> dom (quantized_value_map s') = {})"
  using assms
proof (induction xs arbitrary: s)
  case Nil
  then show ?case by simp
next
  case (Cons x xs)
  obtain t info where x: "x = (t, info)" by (cases x)
  show ?case
  proof (cases "case quant_para_provider info of None \<Rightarrow> None
                | Some p \<Rightarrow> quantized_value_map s (input_name p)")
    case None
    with Cons.prems x have "sharing_scan E xs s = Inr s'"
      by (auto split: option.splits)
    from Cons.IH [OF this] show ?thesis .
  next
    case (Some pv)
    then obtain p where p: "quant_para_provider info = Some p" "quantized_value_map s (input_name p) = Some pv"
      by (auto split: option.splits)
    with Cons.prems x obtain s1 where b: "quantize_sharing_param_tensor E t p pv s = Inr s1"
      and rest: "sharing_scan E xs s1 = Inr s'"
      by (auto split: sum.splits)
    note e = sharing_body_effect [OF b]
    note r = sharing_body_record [OF b]
    from Cons.IH [OF rest] have
      ih1: "bias_to_quantize s' = bias_to_quantize s1" "quantize_bias s' = quantize_bias s1" and
      ih2: "fst ` set (tensors_to_quantize s1) \<inter> dom (quantized_value_map s1) = {} \<Longrightarrow>
            map_le (quantized_value_map s1) (quantized_value_map s') \<and>
            fst ` set (tensors_to_quantize s') \<inter> dom (quantized_value_map s') = {}"
      by blast+
    have "map_le (quantized_value_map s) (quantized_value_map s') \<and>
            fst ` set (tensors_to_quantize s') \<inter> dom (quantized_value_map s') = {}"
      if inv: "fst ` set (tensors_to_quantize s) \<inter> dom (quantized_value_map s) = {}"
    proof -
      from sharing_body_Inr_present [OF b] inv have t: "t \<notin> dom (quantized_value_map s)" by auto
      from r(1) obtain v where v: "quantized_value_map s1 = (quantized_value_map s)(t \<mapsto> v)" by blast
      with t have le1: "map_le (quantized_value_map s) (quantized_value_map s1)"
        by (auto simp: map_le_def)
      have "fst ` set (tensors_to_quantize s1) \<inter> dom (quantized_value_map s1) = {}"
        using inv e by auto
      from ih2 [OF this] le1 show ?thesis by (blast intro: map_le_trans)
    qed
    with ih1 r(2,3) show ?thesis by simp
  qed
qed

lemma sharing_loop_records_aux:
  "quantize_sharing_param_tensors E s = Some r \<Longrightarrow> r = Inr s' \<Longrightarrow>
     tensors_to_quantize s' = [] \<and>
     dom (quantized_value_map s') = dom (quantized_value_map s) \<union> fst ` set (tensors_to_quantize s) \<and>
     bias_to_quantize s' = bias_to_quantize s \<and> quantize_bias s' = quantize_bias s \<and>
     (fst ` set (tensors_to_quantize s) \<inter> dom (quantized_value_map s) = {} \<longrightarrow>
        map_le (quantized_value_map s) (quantized_value_map s'))"
proof (induction rule: quantize_sharing_param_tensors.raw_induct [rotated 1, consumes 1, case_names step])
  case (step loop E s r)
  show ?case
  proof (cases "tensors_to_quantize s = []")
    case True
    with step(2,3) show ?thesis by auto
  next
    case False
    show ?thesis
    proof (cases "sharing_scan E (tensors_to_quantize s) s")
      case (Inl a)
      with step(2,3) False show ?thesis by auto
    next
      case (Inr s1)
      with step(2) False have l: "loop E s1 = Some r" by simp
      from step(1) [OF l step(3)] have
        ih1: "tensors_to_quantize s' = []" and
        ih2: "dom (quantized_value_map s') =
                dom (quantized_value_map s1) \<union> fst ` set (tensors_to_quantize s1)" and
        ih3: "bias_to_quantize s' = bias_to_quantize s1" "quantize_bias s' = quantize_bias s1" and
        ih4: "fst ` set (tensors_to_quantize s1) \<inter> dom (quantized_value_map s1) = {} \<Longrightarrow>
              map_le (quantized_value_map s1) (quantized_value_map s')"
        by blast+
      from sharing_scan_effect [OF Inr] obtain R where
        R: "R \<subseteq> fst ` set (tensors_to_quantize s)"
          "tensors_to_quantize s1 = filter (\<lambda>kv. fst kv \<notin> R) (tensors_to_quantize s)"
          "dom (quantized_value_map s1) = dom (quantized_value_map s) \<union> R"
        by blast
      from sharing_scan_records [OF Inr] have
        sc1: "bias_to_quantize s1 = bias_to_quantize s" "quantize_bias s1 = quantize_bias s" and
        sc2: "fst ` set (tensors_to_quantize s) \<inter> dom (quantized_value_map s) = {} \<Longrightarrow>
              map_le (quantized_value_map s) (quantized_value_map s1) \<and>
              fst ` set (tensors_to_quantize s1) \<inter> dom (quantized_value_map s1) = {}"
        by blast+
      have d: "dom (quantized_value_map s') =
                 dom (quantized_value_map s) \<union> fst ` set (tensors_to_quantize s)"
        unfolding ih2 R(2,3) using R(1) by auto
      have m: "map_le (quantized_value_map s) (quantized_value_map s')"
        if "fst ` set (tensors_to_quantize s) \<inter> dom (quantized_value_map s) = {}"
        using sc2 [OF that] ih4 by (blast intro: map_le_trans)
      from ih1 d ih3 sc1 m show ?thesis by simp
    qed
  qed
qed

lemma sharing_loop_records:
  assumes "quantize_sharing_param_tensors E s = Some (Inr s')"
  shows "tensors_to_quantize s' = []"
    "dom (quantized_value_map s') = dom (quantized_value_map s) \<union> fst ` set (tensors_to_quantize s)"
    "bias_to_quantize s' = bias_to_quantize s" "quantize_bias s' = quantize_bias s"
    "fst ` set (tensors_to_quantize s) \<inter> dom (quantized_value_map s) = {} \<Longrightarrow>
        map_le (quantized_value_map s) (quantized_value_map s')"
  using sharing_loop_records_aux [OF assms refl] by blast+

lemma bias_dequant_node_step:
  "bias_dequant_node E b inp init s = Inr s' \<Longrightarrow> graph_step s s'"
  by (auto simp: bias_dequant_node_def Let_def split: option.splits if_splits
      intro!: graph_step_add_node)

lemma bias_loop_records:
  assumes "quantize_bias_tensors_loop E xs s = Inr s'"
  shows "map_le (quantized_value_map s) (quantized_value_map s') \<and>
         dom (quantized_value_map s') =
           dom (quantized_value_map s) \<union> {b. \<exists>n i w beta. (n, b, i, w, beta) \<in> set xs} \<and>
         tensors_to_quantize s' = tensors_to_quantize s"
  using assms
proof (induction xs arbitrary: s)
  case Nil
  then show ?case by simp
next
  case (Cons x xs)
  obtain n b inp wn beta where x: "x = (n, b, inp, wn, beta)" by (cases x)
  have k: "{b'. \<exists>n i w beta. (n, b', i, w, beta) \<in> set (x # xs)}
             = insert b {b'. \<exists>n i w beta. (n, b', i, w, beta) \<in> set xs}"
    using x by auto
  show ?case
  proof (cases "quantized_value_map s b \<noteq> None")
    case True
    with Cons.prems x have "quantize_bias_tensors_loop E xs s = Inr s'" by simp
    from Cons.IH [OF this] have
      ih: "map_le (quantized_value_map s) (quantized_value_map s')"
        "dom (quantized_value_map s') =
           dom (quantized_value_map s) \<union> {b. \<exists>n i w beta. (n, b, i, w, beta) \<in> set xs}"
        "tensors_to_quantize s' = tensors_to_quantize s"
      by blast+
    from True have "insert b (dom (quantized_value_map s)) = dom (quantized_value_map s)" by auto
    with ih show ?thesis unfolding k by auto
  next
    case False
    note c = quantize_bias_static_cases [where E = E and s = s and n = n and b = b and i = inp
        and wn = wn and beta = beta]
    from Cons.prems x False obtain q s1 where
      st: "quantize_bias_static E s n b inp wn beta = Inr (q, s1)"
      by (auto split: sum.splits)
    with c have r: "resolved_as b s s1" by simp
    let ?init = "find_by_name b (graph_initializer (model s1))"
    let ?s2 = "case ?init of None \<Rightarrow> s1
               | Some bias_init \<Rightarrow> s1\<lparr> model := remove_initializer (model s1) bias_init \<rparr>"
    have g2: "graph_step s1 ?s2"
      by (cases ?init) (simp_all add: graph_step_rewire)
    from Cons.prems x False st obtain s3 where
      dq: "bias_dequant_node E b inp ?init ?s2 = Inr s3" and
      rest: "quantize_bias_tensors_loop E xs s3 = Inr s'"
      by (auto simp: Let_def split: sum.splits)
    from dq have g3: "graph_step ?s2 s3" by (rule bias_dequant_node_step)
    from g2 g3 have "graph_step s1 s3" by (rule graph_step_trans)
    with r have r3: "resolved_as b s s3" by (rule resolved_as_then_step)
    note f = resolved_as_fields [OF r3]
    from f(2) obtain v where v: "quantized_value_map s3 = (quantized_value_map s)(b \<mapsto> v)" by blast
    with False have le1: "map_le (quantized_value_map s) (quantized_value_map s3)"
      by (auto simp: map_le_def)
    from Cons.IH [OF rest] have
      ih: "map_le (quantized_value_map s3) (quantized_value_map s')"
        "dom (quantized_value_map s') =
           dom (quantized_value_map s3) \<union> {b. \<exists>n i w beta. (n, b, i, w, beta) \<in> set xs}"
        "tensors_to_quantize s' = tensors_to_quantize s3"
      by blast+
    from le1 ih(1) have "map_le (quantized_value_map s) (quantized_value_map s')"
      by (rule map_le_trans)
    moreover have "dom (quantized_value_map s') =
           dom (quantized_value_map s) \<union> {b. \<exists>n i w beta. (n, b, i, w, beta) \<in> set (x # xs)}"
      unfolding k ih(2) v by auto
    moreover have "tensors_to_quantize s' = tensors_to_quantize s"
      using ih(3) f(1) by simp
    ultimately show ?thesis by (intro conjI)
  qed
qed

lemma passes_records:
  assumes n: "quantize_normal_tensors E s1 = Inr s2"
    and sh: "quantize_sharing_param_tensors E s2 = Some (Inr s3)"
    and bi: "(if quantize_bias s3 then quantize_bias_tensors E s3 else Inr s3) = Inr s4"
    and inv: "fst ` set (tensors_to_quantize s1) \<inter> dom (quantized_value_map s1) = {}"
  shows "map_le (quantized_value_map s1) (quantized_value_map s4)"
    "dom (quantized_value_map s4) =
       dom (quantized_value_map s1) \<union> fst ` set (tensors_to_quantize s1) \<union>
       (if quantize_bias s1 then {b. \<exists>n i w beta. (n, b, i, w, beta) \<in> set (bias_to_quantize s1)} else {})"
    "tensors_to_quantize s4 = []"
proof -
  from normal_loop_records [OF n [unfolded quantize_normal_tensors_def]] have
    n1: "map_le (quantized_value_map s1) (quantized_value_map s2)" and
    n2: "dom (quantized_value_map s2) =
           dom (quantized_value_map s1) \<union>
           {t. \<exists>info. (t, info) \<in> set (tensors_to_quantize s1) \<and> \<not> is_shared info}" and
    n3: "tensors_to_quantize s2 =
           filter (\<lambda>kv. fst kv \<notin> dom (quantized_value_map s2) - dom (quantized_value_map s1))
             (tensors_to_quantize s1)" and
    n4: "bias_to_quantize s2 = bias_to_quantize s1" "quantize_bias s2 = quantize_bias s1"
    by blast+
  have inv2: "fst ` set (tensors_to_quantize s2) \<inter> dom (quantized_value_map s2) = {}"
    unfolding n3 using inv by auto
  note s = sharing_loop_records [OF sh]
  have le3: "map_le (quantized_value_map s1) (quantized_value_map s3)"
    using n1 s(5) [OF inv2] by (rule map_le_trans)
  have "fst ` set (tensors_to_quantize s1)
          \<subseteq> dom (quantized_value_map s2) \<union> fst ` set (tensors_to_quantize s2)"
    unfolding n3 by auto
  moreover have "dom (quantized_value_map s2) \<union> fst ` set (tensors_to_quantize s2)
          \<subseteq> dom (quantized_value_map s1) \<union> fst ` set (tensors_to_quantize s1)"
    unfolding n3 using n2 by force
  moreover have "dom (quantized_value_map s1) \<subseteq> dom (quantized_value_map s2)"
    using n1 by (rule map_le_implies_dom_le)
  ultimately have "dom (quantized_value_map s2) \<union> fst ` set (tensors_to_quantize s2) =
       dom (quantized_value_map s1) \<union> fst ` set (tensors_to_quantize s1)"
    by (intro equalityI) (simp_all add: le_supI1)
  then have d3: "dom (quantized_value_map s3) =
       dom (quantized_value_map s1) \<union> fst ` set (tensors_to_quantize s1)"
    by (simp only: s(2))
  have b3: "bias_to_quantize s3 = bias_to_quantize s1" "quantize_bias s3 = quantize_bias s1"
    using s(3,4) n4 by simp_all
  show "map_le (quantized_value_map s1) (quantized_value_map s4)"
    "dom (quantized_value_map s4) =
       dom (quantized_value_map s1) \<union> fst ` set (tensors_to_quantize s1) \<union>
       (if quantize_bias s1 then {b. \<exists>n i w beta. (n, b, i, w, beta) \<in> set (bias_to_quantize s1)} else {})"
    "tensors_to_quantize s4 = []"
  proof -
    show "map_le (quantized_value_map s1) (quantized_value_map s4)"
    proof (cases "quantize_bias s3")
      case True
      with bi have "quantize_bias_tensors_loop E (bias_to_quantize s3) s3 = Inr s4"
        by (simp add: quantize_bias_tensors_def)
      from bias_loop_records [OF this] le3 show ?thesis by (blast intro: map_le_trans)
    next
      case False
      with bi le3 show ?thesis by simp
    qed
    show "dom (quantized_value_map s4) =
       dom (quantized_value_map s1) \<union> fst ` set (tensors_to_quantize s1) \<union>
       (if quantize_bias s1 then {b. \<exists>n i w beta. (n, b, i, w, beta) \<in> set (bias_to_quantize s1)} else {})"
    proof (cases "quantize_bias s3")
      case True
      with bi have "quantize_bias_tensors_loop E (bias_to_quantize s3) s3 = Inr s4"
        by (simp add: quantize_bias_tensors_def)
      from bias_loop_records [OF this] have
        "dom (quantized_value_map s4) =
           dom (quantized_value_map s3) \<union> {b. \<exists>n i w beta. (n, b, i, w, beta) \<in> set (bias_to_quantize s3)}"
        by blast
      with True show ?thesis
        by (simp only: d3 b3 if_True)
    next
      case False
      with bi d3 b3 show ?thesis by simp
    qed
    show "tensors_to_quantize s4 = []"
    proof (cases "quantize_bias s3")
      case True
      with bi have "quantize_bias_tensors_loop E (bias_to_quantize s3) s3 = Inr s4"
        by (simp add: quantize_bias_tensors_def)
      from bias_loop_records [OF this] s(1) show ?thesis by simp
    next
      case False
      with bi s(1) show ?thesis by simp
    qed
  qed
qed

lemma quantize_bias_tensor_records:
  "\<exists>s'. quantize_bias_tensor s n b i w beta = Inr s' \<and>
        quantized_value_map s' = quantized_value_map s"
proof (cases "has_overrides s b")
  case True
  let ?s1 = "s\<lparr> logging := logging s @ [(INFO, BiasAsWeight b)] \<rparr>"
  from quantize_weight_tensor_per_channel_total [of ?s1 b 0] quantize_tensor_total [of ?s1 b None WEIGHT]
  show ?thesis
    using True by (auto simp: quantize_bias_tensor_def Let_def quantize_weight_tensor_def)
next
  case False
  then show ?thesis
    by (auto simp: quantize_bias_tensor_def split: option.splits)
qed

lemma try_replacing_upstream_output_records:
  "case try_replacing_upstream_output s up out of
     Inl (e, s') \<Rightarrow> s' = s
   | Inr (b, s') \<Rightarrow> quantized_value_map s' = quantized_value_map s"
  by (auto simp: try_replacing_upstream_output_def Let_def split: option.splits)

lemma run_policy_records_nothing:
  "quantized_value_map (state_of (run_policy p s)) = quantized_value_map s"
proof (induction p arbitrary: s)
  case Done
  show ?case by simp
next
  case (QuantizeActivationTensor t k)
  from quantize_tensor_total [of s t None ACTIVATION] obtain s1 where
    "quantize_activation_tensor s t = Inr s1" "quantized_value_map s1 = quantized_value_map s"
    by (auto simp: quantize_activation_tensor_def)
  with QuantizeActivationTensor [of s1] show ?case by simp
next
  case (QuantizeWeightTensor t k)
  from quantize_tensor_total [of s t None WEIGHT] obtain s1 where
    "quantize_weight_tensor s t = Inr s1" "quantized_value_map s1 = quantized_value_map s"
    by (auto simp: quantize_weight_tensor_def)
  with QuantizeWeightTensor [of s1] show ?case by simp
next
  case (QuantizeWeightTensorPerChannel t ax k)
  from quantize_weight_tensor_per_channel_total [of s t ax] obtain s1 where
    "quantize_weight_tensor_per_channel s t ax = Inr s1" "quantized_value_map s1 = quantized_value_map s"
    by auto
  with QuantizeWeightTensorPerChannel [of s1] show ?case by simp
next
  case (QuantizeOutputSameAsInput out inp node k)
  from quantize_tensor_total [of s out "Some \<lparr> input_name = inp, node_name = node \<rparr>" ACTIVATION]
  obtain s1 where
    "quantize_output_same_as_input s out inp node = Inr s1" "quantized_value_map s1 = quantized_value_map s"
    by (auto simp: quantize_output_same_as_input_def)
  with QuantizeOutputSameAsInput [of s1] show ?case by simp
next
  case (QuantizeBiasTensor node b inp w beta k)
  from quantize_bias_tensor_records [of s node b inp w beta] obtain s1 where
    "quantize_bias_tensor s node b inp w beta = Inr s1" "quantized_value_map s1 = quantized_value_map s"
    by auto
  with QuantizeBiasTensor [of s1] show ?case by simp
next
  case (RemoveNode node k)
  from RemoveNode [of "remove_node s node"] show ?case
    by (simp add: remove_node_def)
next
  case (TryReplacingUpstreamOutput up out k1 k2)
  show ?case
  proof (cases "try_replacing_upstream_output s up out")
    case (Inl a)
    obtain e s' where a: "a = (e, s')" by (cases a)
    with Inl try_replacing_upstream_output_records [of s up out] have "s' = s" by simp
    with Inl a show ?thesis by simp
  next
    case (Inr c)
    obtain b s1 where c: "c = (b, s1)" by (cases c)
    with Inr try_replacing_upstream_output_records [of s up out]
    have "quantized_value_map s1 = quantized_value_map s" by simp
    with TryReplacingUpstreamOutput(1) [of s1] TryReplacingUpstreamOutput(2) [of s1] Inr c
    show ?thesis by simp
  qed
next
  case (IsTensorQuantized t k1 k2)
  then show ?case by simp
qed

lemma fold_record_receiving_node_records:
  "quantized_value_map (fold (record_receiving_node node) ts s) = quantized_value_map s"
  by (induction ts arbitrary: s) (simp_all add: record_receiving_node_def)

lemma mark_nodes_records_nothing:
  "quantized_value_map (state_of (mark_nodes E ids s)) = quantized_value_map s"
proof (induction ids arbitrary: s)
  case Nil
  show ?case by simp
next
  case (Cons node ids)
  show ?case
  proof (cases "should_quantize_node E s (graph_node (model s) ! node)")
    case False
    with Cons [of s] show ?thesis by simp
  next
    case True
    note r = run_policy_records_nothing [of "CreateQDQQuantizer E s node" s]
    show ?thesis
    proof (cases "run_policy (CreateQDQQuantizer E s node) s")
      case (Inl a)
      with r True show ?thesis by (cases a) simp
    next
      case (Inr s1)
      let ?s2 = "fold (record_receiving_node node) (n_input (graph_node (model s1) ! node)) s1"
      from r Inr have "quantized_value_map ?s2 = quantized_value_map s"
        by (simp add: fold_record_receiving_node_records)
      with Cons [of ?s2] True Inr show ?thesis by simp
    qed
  qed
qed

lemma fresh_run_records:
  assumes e: "quantized_value_map s = Map.empty"
    and m: "mark_nodes E [0 ..< length (graph_node (model s))] s = Inr m1"
    and r: "quantize_before_removal E s = Some (Inr m5)"
  shows "dom (quantized_value_map m5) =
           fst ` set (tensors_to_quantize m1) \<union>
           (if quantize_bias m1
            then {b. \<exists>n i w beta. (n, b, i, w, beta) \<in> set (bias_to_quantize m1)} else {})"
    "tensors_to_quantize m5 = []"
proof -
  from mark_nodes_records_nothing [of E "[0 ..< length (graph_node (model s))]" s] m e
  have e1: "quantized_value_map m1 = Map.empty" by simp
  then have inv: "fst ` set (tensors_to_quantize m1) \<inter> dom (quantized_value_map m1) = {}" by simp
  from r m obtain m2 where n: "quantize_normal_tensors E m1 = Inr m2"
    by (cases "quantize_normal_tensors E m1") (auto simp: quantize_before_removal_def)
  from r m n obtain m3 where sh: "quantize_sharing_param_tensors E m2 = Some (Inr m3)"
    by (auto simp: quantize_before_removal_def split: option.splits sum.splits)
  from r m n sh have bi: "(if quantize_bias m3 then quantize_bias_tensors E m3 else Inr m3) = Inr m5"
    by (auto simp: quantize_before_removal_def split: sum.splits if_splits)
  from passes_records(2) [OF n sh bi inv] e1
  show "dom (quantized_value_map m5) =
           fst ` set (tensors_to_quantize m1) \<union>
           (if quantize_bias m1
            then {b. \<exists>n i w beta. (n, b, i, w, beta) \<in> set (bias_to_quantize m1)} else {})"
    by simp
  show "tensors_to_quantize m5 = []"
    by (rule passes_records(3) [OF n sh bi inv])
qed

text \<open>
  C6. On a run of the passes that returns, the pass over the normal tensors stores a
  record for every registered tensor that is not shared, the pass over the sharing
  tensors for every tensor still registered (and leaves none registered), and the bias
  pass for every queued bias; no pass stores a record for any other tensor, and no pass
  replaces a record that exists, provided no registered tensor had one when the passes
  began. So every registered tensor ends with the one record created for it; from a
  quantizer without records, the records that \<open>quantize_model\<close> holds when it comes to
  remove nodes are exactly those of the tensors the marking pass registered and of the
  queued biases. A
  successful call of \<open>quantize_initializer\<close>, \<open>quantize_weight_per_channel\<close> or
  \<open>quantize_bias_static\<close> leaves exactly one record for the tensor in
  \<open>quantized_value_map\<close>, holding the names it returns, every other record as it was and
  the nodes of the graph as they were; on a tensor that has a record already it changes
  nothing. Called again, with any other arguments, it returns the same names (the triple
  of quantized, zero-point and scale name; the quantized name for a bias) and the state
  unchanged. Resolving an activation, with one pair, with dedicated pairs or with a
  converted parameter set, stores a record for that tensor and for no other.
\<close>

theorem one_record_and_idempotent:
  "(quantize_initializer E s w qT rr kf = Inr ((q, zp, sc), s1) \<longrightarrow>
      (\<exists>v. quantized_value_map s1 = (quantized_value_map s)(tp_name w \<mapsto> v) \<and>
           (q_name (original v), zp_name (original v), scale_name (original v)) = (q, zp, sc)) \<and>
      graph_node (model s1) = graph_node (model s) \<and>
      (quantized_value_map s (tp_name w) \<noteq> None \<longrightarrow> s1 = s) \<and>
      (\<forall>qT' rr' kf'. quantize_initializer E s1 w qT' rr' kf' = Inr ((q, zp, sc), s1))) \<and>
   (quantize_weight_per_channel E s wn qT ax rr kf = Inr ((q, zp, sc), s2) \<longrightarrow>
      (\<exists>v. quantized_value_map s2 = (quantized_value_map s)(wn \<mapsto> v) \<and>
           (q_name (original v), zp_name (original v), scale_name (original v)) = (q, zp, sc)) \<and>
      graph_node (model s2) = graph_node (model s) \<and>
      (quantized_value_map s wn \<noteq> None \<longrightarrow> s2 = s) \<and>
      (\<forall>qT' ax' rr' kf'. quantize_weight_per_channel E s2 wn qT' ax' rr' kf' = Inr ((q, zp, sc), s2))) \<and>
   (quantize_bias_static E s n b i wn beta = Inr (qb, s3) \<longrightarrow>
      (\<exists>v. quantized_value_map s3 = (quantized_value_map s)(b \<mapsto> v) \<and> q_name (original v) = qb) \<and>
      graph_node (model s3) = graph_node (model s) \<and>
      (quantized_value_map s b \<noteq> None \<longrightarrow> s3 = s) \<and>
      (\<forall>n' i' wn' beta'. quantize_bias_static E s3 n' b i' wn' beta' = Inr (qb, s3))) \<and>
   (\<exists>v. quantized_value_map (add_qdq_pair_for_activation E s t asc azp dt)
          = (quantized_value_map s)(t \<mapsto> v)) \<and>
   (add_qdq_ops_for_converted_activation E s t asc azp dt csc czp recv = Inr s4 \<longrightarrow>
      (\<exists>v. quantized_value_map s4 = (quantized_value_map s)(t \<mapsto> v))) \<and>
   (quantize_normal_tensors E m1 = Inr m2 \<longrightarrow>
      map_le (quantized_value_map m1) (quantized_value_map m2) \<and>
      dom (quantized_value_map m2) =
        dom (quantized_value_map m1) \<union>
        {t. \<exists>info. (t, info) \<in> set (tensors_to_quantize m1) \<and> \<not> is_shared info}) \<and>
   (quantize_sharing_param_tensors E m2 = Some (Inr m3) \<longrightarrow>
      tensors_to_quantize m3 = [] \<and>
      dom (quantized_value_map m3) =
        dom (quantized_value_map m2) \<union> fst ` set (tensors_to_quantize m2) \<and>
      (fst ` set (tensors_to_quantize m2) \<inter> dom (quantized_value_map m2) = {} \<longrightarrow>
         map_le (quantized_value_map m2) (quantized_value_map m3))) \<and>
   (quantize_bias_tensors E m3 = Inr m4 \<longrightarrow>
      map_le (quantized_value_map m3) (quantized_value_map m4) \<and>
      dom (quantized_value_map m4) =
        dom (quantized_value_map m3) \<union>
        {b. \<exists>n i w beta. (n, b, i, w, beta) \<in> set (bias_to_quantize m3)}) \<and>
   (quantize_normal_tensors E m1 = Inr m2 \<and>
    quantize_sharing_param_tensors E m2 = Some (Inr m3) \<and>
    (if quantize_bias m3 then quantize_bias_tensors E m3 else Inr m3) = Inr m5 \<and>
    fst ` set (tensors_to_quantize m1) \<inter> dom (quantized_value_map m1) = {} \<longrightarrow>
      map_le (quantized_value_map m1) (quantized_value_map m5) \<and>
      dom (quantized_value_map m5) =
        dom (quantized_value_map m1) \<union> fst ` set (tensors_to_quantize m1) \<union>
        (if quantize_bias m1
         then {b. \<exists>n i w beta. (n, b, i, w, beta) \<in> set (bias_to_quantize m1)} else {}) \<and>
      tensors_to_quantize m5 = []) \<and>
   (quantized_value_map m0 = Map.empty \<and>
    mark_nodes E [0 ..< length (graph_node (model m0))] m0 = Inr m1 \<and>
    quantize_before_removal E m0 = Some (Inr m6) \<longrightarrow>
      dom (quantized_value_map m6) =
        fst ` set (tensors_to_quantize m1) \<union>
        (if quantize_bias m1
         then {b. \<exists>n i w beta. (n, b, i, w, beta) \<in> set (bias_to_quantize m1)} else {}) \<and>
      tensors_to_quantize m6 = [])"
proof (intro conjI impI allI)
  assume a: "quantize_initializer E s w qT rr kf = Inr ((q, zp, sc), s1)"
  show "\<exists>v. quantized_value_map s1 = (quantized_value_map s)(tp_name w \<mapsto> v) \<and>
           (q_name (original v), zp_name (original v), scale_name (original v)) = (q, zp, sc)"
    by (rule quantize_initializer_once(1) [OF a])
  show "graph_node (model s1) = graph_node (model s)"
    by (rule quantize_initializer_once(2) [OF a])
  show "s1 = s" if "quantized_value_map s (tp_name w) \<noteq> None"
    using that by (rule quantize_initializer_once(3) [OF a])
  show "quantize_initializer E s1 w qT' rr' kf' = Inr ((q, zp, sc), s1)" for qT' rr' kf'
    by (rule quantize_initializer_once(4) [OF a])
next
  assume a: "quantize_weight_per_channel E s wn qT ax rr kf = Inr ((q, zp, sc), s2)"
  show "\<exists>v. quantized_value_map s2 = (quantized_value_map s)(wn \<mapsto> v) \<and>
           (q_name (original v), zp_name (original v), scale_name (original v)) = (q, zp, sc)"
    by (rule quantize_weight_per_channel_once(1) [OF a])
  show "graph_node (model s2) = graph_node (model s)"
    by (rule quantize_weight_per_channel_once(2) [OF a])
  show "s2 = s" if "quantized_value_map s wn \<noteq> None"
    using that by (rule quantize_weight_per_channel_once(3) [OF a])
  show "quantize_weight_per_channel E s2 wn qT' ax' rr' kf' = Inr ((q, zp, sc), s2)" for qT' ax' rr' kf'
    by (rule quantize_weight_per_channel_once(4) [OF a])
next
  assume a: "quantize_bias_static E s n b i wn beta = Inr (qb, s3)"
  show "\<exists>v. quantized_value_map s3 = (quantized_value_map s)(b \<mapsto> v) \<and> q_name (original v) = qb"
    by (rule quantize_bias_static_once(1) [OF a])
  show "graph_node (model s3) = graph_node (model s)"
    by (rule quantize_bias_static_once(2) [OF a])
  show "s3 = s" if "quantized_value_map s b \<noteq> None"
    using that by (rule quantize_bias_static_once(3) [OF a])
  show "quantize_bias_static E s3 n' b i' wn' beta' = Inr (qb, s3)" for n' i' wn' beta'
    by (rule quantize_bias_static_once(4) [OF a])
next
  show "\<exists>v. quantized_value_map (add_qdq_pair_for_activation E s t asc azp dt)
          = (quantized_value_map s)(t \<mapsto> v)"
    by (rule resolved_as_fields(2) [OF add_qdq_pair_for_activation_step])
next
  assume "add_qdq_ops_for_converted_activation E s t asc azp dt csc czp recv = Inr s4"
  then show "\<exists>v. quantized_value_map s4 = (quantized_value_map s)(t \<mapsto> v)"
    by (rule resolved_as_fields(2) [OF converted_activation_step])
next
  assume "quantize_normal_tensors E m1 = Inr m2"
  then have l: "quantize_normal_tensors_loop E (tensors_to_quantize m1) m1 = Inr m2"
    by (simp add: quantize_normal_tensors_def)
  show "map_le (quantized_value_map m1) (quantized_value_map m2)"
    using normal_loop_records [OF l] by blast
  show "dom (quantized_value_map m2) =
        dom (quantized_value_map m1) \<union>
        {t. \<exists>info. (t, info) \<in> set (tensors_to_quantize m1) \<and> \<not> is_shared info}"
    using normal_loop_records [OF l] by blast
next
  assume a: "quantize_sharing_param_tensors E m2 = Some (Inr m3)"
  show "tensors_to_quantize m3 = []"
    by (rule sharing_loop_records(1) [OF a])
  show "dom (quantized_value_map m3) =
        dom (quantized_value_map m2) \<union> fst ` set (tensors_to_quantize m2)"
    by (rule sharing_loop_records(2) [OF a])
  show "map_le (quantized_value_map m2) (quantized_value_map m3)"
    if "fst ` set (tensors_to_quantize m2) \<inter> dom (quantized_value_map m2) = {}"
    using that by (rule sharing_loop_records(5) [OF a])
next
  assume "quantize_bias_tensors E m3 = Inr m4"
  then have l: "quantize_bias_tensors_loop E (bias_to_quantize m3) m3 = Inr m4"
    by (simp add: quantize_bias_tensors_def)
  show "map_le (quantized_value_map m3) (quantized_value_map m4)"
    using bias_loop_records [OF l] by blast
  show "dom (quantized_value_map m4) =
        dom (quantized_value_map m3) \<union>
        {b. \<exists>n i w beta. (n, b, i, w, beta) \<in> set (bias_to_quantize m3)}"
    using bias_loop_records [OF l] by blast
next
  assume a: "quantize_normal_tensors E m1 = Inr m2 \<and>
    quantize_sharing_param_tensors E m2 = Some (Inr m3) \<and>
    (if quantize_bias m3 then quantize_bias_tensors E m3 else Inr m3) = Inr m5 \<and>
    fst ` set (tensors_to_quantize m1) \<inter> dom (quantized_value_map m1) = {}"
  then have h: "quantize_normal_tensors E m1 = Inr m2"
    "quantize_sharing_param_tensors E m2 = Some (Inr m3)"
    "(if quantize_bias m3 then quantize_bias_tensors E m3 else Inr m3) = Inr m5"
    "fst ` set (tensors_to_quantize m1) \<inter> dom (quantized_value_map m1) = {}"
    by blast+
  show "map_le (quantized_value_map m1) (quantized_value_map m5)"
    by (rule passes_records(1) [OF h])
  show "dom (quantized_value_map m5) =
        dom (quantized_value_map m1) \<union> fst ` set (tensors_to_quantize m1) \<union>
        (if quantize_bias m1
         then {b. \<exists>n i w beta. (n, b, i, w, beta) \<in> set (bias_to_quantize m1)} else {})"
    by (rule passes_records(2) [OF h])
  show "tensors_to_quantize m5 = []"
    by (rule passes_records(3) [OF h])
next
  assume a: "quantized_value_map m0 = Map.empty \<and>
    mark_nodes E [0 ..< length (graph_node (model m0))] m0 = Inr m1 \<and>
    quantize_before_removal E m0 = Some (Inr m6)"
  then have h: "quantized_value_map m0 = Map.empty"
    "mark_nodes E [0 ..< length (graph_node (model m0))] m0 = Inr m1"
    "quantize_before_removal E m0 = Some (Inr m6)"
    by blast+
  show "dom (quantized_value_map m6) =
        fst ` set (tensors_to_quantize m1) \<union>
        (if quantize_bias m1
         then {b. \<exists>n i w beta. (n, b, i, w, beta) \<in> set (bias_to_quantize m1)} else {})"
    by (rule fresh_run_records(1) [OF h])
  show "tensors_to_quantize m6 = []"
    by (rule fresh_run_records(2) [OF h])
qed

theorem one_record_and_idempotent_witness:
  "\<exists>s1 s2 s3 s4 m4.
     quantize_initializer sample_collaborators sample_quantizer
         \<lparr> tp_name = ''W'', tp_data_type = FLOAT, tp_vals = [1, 2] \<rparr> INT8 False False
       = Inr ((''W_quantized'', ''W_zero_point'', ''W_scale''), s1) \<and>
     dom (quantized_value_map s1) = {''W''} \<and>
     quantize_initializer sample_collaborators s1
         \<lparr> tp_name = ''W'', tp_data_type = FLOAT, tp_vals = [1, 2] \<rparr> UINT8 True True
       = Inr ((''W_quantized'', ''W_zero_point'', ''W_scale''), s1) \<and>
     quantize_weight_per_channel sample_collaborators sample_quantizer ''W'' INT8 0 True False
       = Inr ((''W_quantized'', ''W_zero_point'', ''W_scale''), s2) \<and>
     dom (quantized_value_map s2) = {''W''} \<and>
     quantize_weight_per_channel sample_collaborators s2 ''W'' UINT8 1 False True
       = Inr ((''W_quantized'', ''W_zero_point'', ''W_scale''), s2) \<and>
     quantize_bias_static sample_collaborators bias_ready_quantizer ''conv'' ''B'' ''X'' ''W'' 1
       = Inr (''B_quantized'', s3) \<and>
     dom (quantized_value_map s3) = {''B'', ''W'', ''X''} \<and>
     graph_node (model s3) = graph_node sample_graph \<and>
     quantize_bias_static sample_collaborators s3 ''relu'' ''B'' ''Y'' ''V'' 2 = Inr (''B_quantized'', s3) \<and>
     add_qdq_ops_for_converted_activation sample_collaborators
         (sample_quantizer\<lparr> tensor_to_its_receiving_nodes := [''Y'' \<mapsto> [1, 2]] \<rparr>)
         ''Y'' ''Y_scale'' ''Y_zero_point'' (Some FLOAT) ''Y_scale_convert'' ''Y_zero_point_convert'' None
       = Inr s4 \<and>
     dom (quantized_value_map s4) = {''Y''} \<and>
     quantized_value_map sample_quantizer = Map.empty \<and>
     mark_nodes removing_collaborators [0 ..< length (graph_node (model sample_quantizer))] sample_quantizer
       = Inr marked_quantizer \<and>
     quantize_before_removal removing_collaborators sample_quantizer = Some (Inr Z1_quantized_quantizer) \<and>
     map (\<lambda>(t, info). (t, is_shared info)) (tensors_to_quantize marked_quantizer)
       = [(''Y'', False), (''Z1'', True)] \<and>
     fst ` set (tensors_to_quantize marked_quantizer) \<inter> dom (quantized_value_map marked_quantizer) = {} \<and>
     quantize_normal_tensors removing_collaborators marked_quantizer = Inr Y_quantized_quantizer \<and>
     dom (quantized_value_map Y_quantized_quantizer) = {''Y''} \<and>
     quantize_sharing_param_tensors removing_collaborators Y_quantized_quantizer
       = Some (Inr Z1_quantized_quantizer) \<and>
     (if quantize_bias Z1_quantized_quantizer
      then quantize_bias_tensors removing_collaborators Z1_quantized_quantizer
      else Inr Z1_quantized_quantizer) = Inr Z1_quantized_quantizer \<and>
     tensors_to_quantize Z1_quantized_quantizer = [] \<and>
     dom (quantized_value_map Z1_quantized_quantizer) = {''Y'', ''Z1''} \<and>
     dom (quantized_value_map Z1_quantized_quantizer) = fst ` set (tensors_to_quantize marked_quantizer) \<and>
     map_le (quantized_value_map Y_quantized_quantizer) (quantized_value_map Z1_quantized_quantizer) \<and>
     quantize_bias_tensors sample_collaborators
         (bias_ready_quantizer\<lparr> bias_to_quantize := [(''conv'', ''B'', ''X'', ''W'', 1)] \<rparr>)
       = Inr m4 \<and>
     dom (quantized_value_map m4) = {''B'', ''W'', ''X''} \<and>
     map_le (quantized_value_map bias_ready_quantizer) (quantized_value_map m4)"
proof -
  let ?E = sample_collaborators
  let ?W = "\<lparr> tp_name = ''W'', tp_data_type = FLOAT, tp_vals = [1, 2] \<rparr>"
  let ?names = "(''W_quantized'', ''W_zero_point'', ''W_scale'')"
  let ?sY = "sample_quantizer\<lparr> tensor_to_its_receiving_nodes := [''Y'' \<mapsto> [1, 2]] \<rparr>"
  let ?sB = "bias_ready_quantizer\<lparr> bias_to_quantize := [(''conv'', ''B'', ''X'', ''W'', 1)] \<rparr>"
  obtain s1 where a1: "quantize_initializer ?E sample_quantizer ?W INT8 False False = Inr (?names, s1)"
    by (simp add: quantize_initializer_def sample_collaborators_def sample_quantizer_def
        sample_impl_out_def Let_def)
  obtain s2 where a2: "quantize_weight_per_channel ?E sample_quantizer ''W'' INT8 0 True False = Inr (?names, s2)"
    by (simp add: quantize_weight_per_channel_def sample_collaborators_def sample_quantizer_def
        sample_impl_out_def Let_def)
  obtain s3 where a3: "quantize_bias_static ?E bias_ready_quantizer ''conv'' ''B'' ''X'' ''W'' 1
      = Inr (''B_quantized'', s3)"
    by (simp add: quantize_bias_static_def sample_collaborators_def bias_ready_quantizer_def
        sample_quantizer_def sample_graph_def sample_original_def QDQTensorQuantizedValue_init_def
        QuantizedValue_init_def get_for_consumer_def find_by_name_def Let_def)
  have "tensor_to_its_receiving_nodes ?sY ''Y'' = Some [1, 2]"
    "\<not> (dedicated_qdq_pair ?sY \<and> length [1::nat, 2] > 1)"
    by (simp_all add: sample_quantizer_def)
  then obtain s4 where a4: "add_qdq_ops_for_converted_activation ?E ?sY ''Y'' ''Y_scale'' ''Y_zero_point''
      (Some FLOAT) ''Y_scale_convert'' ''Y_zero_point_convert'' None = Inr s4"
    using converted_activation_returns by blast
  obtain m4 where a5: "quantize_bias_tensors ?E ?sB = Inr m4"
    by (simp add: quantize_bias_tensors_def quantize_bias_static_def bias_dequant_node_def
        register_initializers_def add_initializer_def remove_initializer_def
        sample_collaborators_def bias_ready_quantizer_def
        sample_quantizer_def sample_graph_def sample_original_def QDQTensorQuantizedValue_init_def
        QuantizedValue_init_def get_for_consumer_def find_by_name_def Let_def)
  note c1 = one_record_and_idempotent [THEN conjunct1, THEN mp, OF a1]
  note c2 = one_record_and_idempotent [THEN conjunct2, THEN conjunct1, THEN mp, OF a2]
  note c3 = one_record_and_idempotent [THEN conjunct2, THEN conjunct2, THEN conjunct1, THEN mp, OF a3]
  note c4 = one_record_and_idempotent [THEN conjunct2, THEN conjunct2, THEN conjunct2, THEN conjunct2,
      THEN conjunct1, THEN mp, OF a4]
  note c6 = one_record_and_idempotent [THEN conjunct2, THEN conjunct2, THEN conjunct2, THEN conjunct2,
      THEN conjunct2, THEN conjunct1, THEN mp, OF sample_normal]
  note c7 = one_record_and_idempotent [THEN conjunct2, THEN conjunct2, THEN conjunct2, THEN conjunct2,
      THEN conjunct2, THEN conjunct2, THEN conjunct1, THEN mp, OF sample_sharing]
  note c8 = one_record_and_idempotent [THEN conjunct2, THEN conjunct2, THEN conjunct2, THEN conjunct2,
      THEN conjunct2, THEN conjunct2, THEN conjunct2, THEN conjunct1, THEN mp, OF a5]
  have q0: "quantized_value_map sample_quantizer = Map.empty"
    "quantized_value_map ?sY = Map.empty"
    "dom (quantized_value_map bias_ready_quantizer) = {''W'', ''X''}"
    "graph_node (model bias_ready_quantizer) = graph_node sample_graph"
    by (auto simp: sample_quantizer_def bias_ready_quantizer_def)
  from c1 obtain v1 where "quantized_value_map s1 = (quantized_value_map sample_quantizer)(''W'' \<mapsto> v1)"
    by auto
  then have d1: "dom (quantized_value_map s1) = {''W''}"
    by (simp add: q0(1))
  from c1 have r1: "quantize_initializer ?E s1 ?W UINT8 True True = Inr (?names, s1)"
    by blast
  from c2 obtain v2 where "quantized_value_map s2 = (quantized_value_map sample_quantizer)(''W'' \<mapsto> v2)"
    by auto
  then have d2: "dom (quantized_value_map s2) = {''W''}"
    by (simp add: q0(1))
  from c2 have r2: "quantize_weight_per_channel ?E s2 ''W'' UINT8 1 False True = Inr (?names, s2)"
    by blast
  from c3 obtain v3 where "quantized_value_map s3 = (quantized_value_map bias_ready_quantizer)(''B'' \<mapsto> v3)"
    by auto
  then have d3: "dom (quantized_value_map s3) = {''B'', ''W'', ''X''}"
    by (simp add: q0(3))
  from c3 q0(4) have g3: "graph_node (model s3) = graph_node sample_graph"
    by simp
  from c3 have r3: "quantize_bias_static ?E s3 ''relu'' ''B'' ''Y'' ''V'' 2 = Inr (''B_quantized'', s3)"
    by blast
  from c4 obtain v4 where "quantized_value_map s4 = (quantized_value_map ?sY)(''Y'' \<mapsto> v4)"
    by auto
  then have d4: "dom (quantized_value_map s4) = {''Y''}"
    by (simp add: q0(1))
  have m: "map (\<lambda>(t, info). (t, is_shared info)) (tensors_to_quantize marked_quantizer)
       = [(''Y'', False), (''Z1'', True)]"
    "fst ` set (tensors_to_quantize marked_quantizer) \<inter> dom (quantized_value_map marked_quantizer) = {}"
    "tensors_to_quantize marked_quantizer = [(''Y'', activation_info), (''Z1'', shared_info ''Y'' ''relu'')]"
    by (simp_all add: marked_quantizer_def sample_quantizer_def activation_info_def shared_info_def)
  have y: "tensors_to_quantize Y_quantized_quantizer = [(''Z1'', shared_info ''Y'' ''relu'')]"
    "dom (quantized_value_map Y_quantized_quantizer) = {''Y''}"
    by (simp_all add: Y_quantized_quantizer_def)
  from c6 have d6: "dom (quantized_value_map Y_quantized_quantizer) = {''Y''}"
    by (rule_tac y(2))
  from c7 y have e7: "tensors_to_quantize Z1_quantized_quantizer = []"
    and d7: "dom (quantized_value_map Z1_quantized_quantizer) = {''Y'', ''Z1''}"
    and l7: "map_le (quantized_value_map Y_quantized_quantizer) (quantized_value_map Z1_quantized_quantizer)"
    by auto
  have m0: "dom (quantized_value_map marked_quantizer) = {}" "bias_to_quantize marked_quantizer = []"
    by (simp_all add: marked_quantizer_def sample_quantizer_def)
  note c9 = one_record_and_idempotent [THEN conjunct2, THEN conjunct2, THEN conjunct2, THEN conjunct2,
      THEN conjunct2, THEN conjunct2, THEN conjunct2, THEN conjunct2, THEN conjunct1, THEN mp,
      OF conjI [OF sample_normal conjI [OF sample_sharing conjI [OF sample_bias m(2)]]]]
  from c9 have d9: "dom (quantized_value_map Z1_quantized_quantizer)
      = fst ` set (tensors_to_quantize marked_quantizer)"
    by (simp add: m0)
  have mk: "mark_nodes removing_collaborators [0 ..< length (graph_node (model sample_quantizer))]
      sample_quantizer = Inr marked_quantizer"
    by (simp only: sample_ids sample_marking)
  have qb: "quantize_before_removal removing_collaborators sample_quantizer
      = Some (Inr Z1_quantized_quantizer)"
    using sample_bias
    by (simp add: quantize_before_removal_def mk sample_normal sample_sharing split: if_splits)
  note c10 = one_record_and_idempotent [THEN conjunct2, THEN conjunct2, THEN conjunct2, THEN conjunct2,
      THEN conjunct2, THEN conjunct2, THEN conjunct2, THEN conjunct2, THEN conjunct2, THEN mp,
      OF conjI [OF q0(1) conjI [OF mk qb]]]
  from c10 have d10: "dom (quantized_value_map Z1_quantized_quantizer)
      = fst ` set (tensors_to_quantize marked_quantizer)"
    by (simp add: m0)
  have b0: "bias_to_quantize ?sB = [(''conv'', ''B'', ''X'', ''W'', 1)]"
    "quantized_value_map ?sB = quantized_value_map bias_ready_quantizer"
    by simp_all
  from c8 have d8: "dom (quantized_value_map m4) = {''B'', ''W'', ''X''}"
    and l8: "map_le (quantized_value_map bias_ready_quantizer) (quantized_value_map m4)"
    unfolding b0 by (auto simp: q0(3))
  show ?thesis
    by (rule exI [of _ s1], rule exI [of _ s2], rule exI [of _ s3], rule exI [of _ s4],
        rule exI [of _ m4], intro conjI)
      (rule a1 d1 r1 a2 d2 r2 a3 d3 g3 r3 a4 d4 q0(1) mk qb m(1) m(2) sample_normal d6 sample_sharing sample_bias
        e7 d7 d10 l7 a5 d8 l8)+
qed


end
